theory Spec2Isabelle
  imports Complex_Main "HOL-Library.AList" "HOL-Library.Multiset"
begin

section \<open>Values of the host language and of the numeric library\<close>

text \<open>
  The module \<^verbatim>\<open>hossam/classification.py\<close> is a layer over an estimator library, a
  metrics library and a rendering collaborator. The module's own control flow
  (what is caught, what is stored, which keys a scorecard gets, what the dispatcher
  collects) is embedded as HOL functions; every exception is a value of \<open>error\<close>, and a
  function that may raise returns \<open>error + 'a\<close> with \<open>Inl\<close> for the exception.
\<close>

datatype error =
    TypeError
  | ValueError
  | IndexError
  | NameError
  | AttributeError
  | LibraryError string

definition bindE :: "error + 'a \<Rightarrow> ('a \<Rightarrow> error + 'b) \<Rightarrow> error + 'b" where
  "bindE m f = (case m of Inl e \<Rightarrow> Inl e | Inr v \<Rightarrow> f v)"

text \<open>
  A double-precision value as the numeric library handles it, without rounding:
  a real number (\<open>Fin 0\<close> is \<open>+0.0\<close>), the negative zero, the two infinities and NaN.
  Division by zero does not raise there; it yields an infinity or NaN.
\<close>

datatype npfloat = Fin real | NegZero | PInf | NInf | NaN

fun is_nan :: "npfloat \<Rightarrow> bool" where
  "is_nan NaN = True"
| "is_nan _ = False"

fun is_inf :: "npfloat \<Rightarrow> bool" where
  "is_inf PInf = True"
| "is_inf NInf = True"
| "is_inf _ = False"

fun is_zero :: "npfloat \<Rightarrow> bool" where
  "is_zero (Fin r) = (r = 0)"
| "is_zero NegZero = True"
| "is_zero _ = False"

fun signbit :: "npfloat \<Rightarrow> bool" where
  "signbit (Fin r) = (r < 0)"
| "signbit NegZero = True"
| "signbit NInf = True"
| "signbit _ = False"

fun fin_val :: "npfloat \<Rightarrow> real" where
  "fin_val (Fin r) = r"
| "fin_val _ = 0"

definition signed_zero :: "bool \<Rightarrow> npfloat" where
  "signed_zero s = (if s then NegZero else Fin 0)"

definition signed_inf :: "bool \<Rightarrow> npfloat" where
  "signed_inf s = (if s then NInf else PInf)"

fun np_neg :: "npfloat \<Rightarrow> npfloat" where
  "np_neg (Fin r) = (if r = 0 then NegZero else Fin (- r))"
| "np_neg NegZero = Fin 0"
| "np_neg PInf = NInf"
| "np_neg NInf = PInf"
| "np_neg NaN = NaN"

definition np_div :: "npfloat \<Rightarrow> npfloat \<Rightarrow> npfloat" where
  "np_div a b =
    (if is_nan a \<or> is_nan b then NaN
     else if is_inf a then (if is_inf b then NaN else signed_inf (signbit a \<noteq> signbit b))
     else if is_inf b then signed_zero (signbit a \<noteq> signbit b)
     else if is_zero b then (if is_zero a then NaN else signed_inf (signbit a \<noteq> signbit b))
     else if is_zero a then signed_zero (signbit a \<noteq> signbit b)
     else Fin (fin_val a / fin_val b))"

definition np_sub :: "npfloat \<Rightarrow> npfloat \<Rightarrow> npfloat" where
  "np_sub a b =
    (if is_nan a \<or> is_nan b then NaN
     else if is_inf a then (if is_inf b \<and> signbit a = signbit b then NaN else a)
     else if is_inf b then np_neg b
     else if is_zero a \<and> is_zero b then (if a = NegZero \<and> b = Fin 0 then NegZero else Fin 0)
     else Fin (fin_val a - fin_val b))"

text \<open>True division of two integer counts, as in \<^verbatim>\<open>FP / (TN + FP)\<close>.\<close>

definition int_true_divide :: "nat \<Rightarrow> nat \<Rightarrow> npfloat" where
  "int_true_divide a b = np_div (Fin (real a)) (Fin (real b))"

section \<open>Data model\<close>

type_synonym DataFrame = "real list list"
type_synonym Series = "int list"

text \<open>The estimator classes the module instantiates, and \<^verbatim>\<open>__class__.__name__\<close>.\<close>

datatype classname =
    LogisticRegression
  | KNeighborsClassifier
  | SVC
  | GaussianNB
  | DecisionTreeClassifier
  | SGDClassifier

fun class_name :: "classname \<Rightarrow> string" where
  "class_name LogisticRegression = ''LogisticRegression''"
| "class_name KNeighborsClassifier = ''KNeighborsClassifier''"
| "class_name SVC = ''SVC''"
| "class_name GaussianNB = ''GaussianNB''"
| "class_name DecisionTreeClassifier = ''DecisionTreeClassifier''"
| "class_name SGDClassifier = ''SGDClassifier''"

text \<open>Keyword arguments (\<^verbatim>\<open>**params\<close>): a dictionary, kept in insertion order.\<close>

datatype pval = PInt int | PReal real | PStr string | PBool bool | PList "pval list"

type_synonym params = "(string \<times> pval) list"

text \<open>
  A fitted model handle: its class, the constructor arguments and the data it was fitted on.
  Whatever the estimator library computes from a handle is a function of these.
\<close>

record model =
  m_class :: classname
  m_params :: params
  m_x :: DataFrame
  m_y :: Series

text \<open>
  A scorecard maps metric names to values. The source's keys carry a Korean prefix, for
  example \<^verbatim>\<open>...(Pseudo R2)\<close>, \<^verbatim>\<open>...(Accuracy)\<close>; strings here are ASCII, so each key
  is written by its ASCII part. The ten keys stay pairwise different.
\<close>

datatype cell = Num npfloat | Txt string

type_synonym scorecard = "(string \<times> cell) list"

abbreviation K_PSEUDO_R2 :: string where "K_PSEUDO_R2 \<equiv> ''Pseudo R2''"
abbreviation K_ACCURACY :: string where "K_ACCURACY \<equiv> ''Accuracy''"
abbreviation K_PRECISION :: string where "K_PRECISION \<equiv> ''Precision''"
abbreviation K_RECALL :: string where "K_RECALL \<equiv> ''Recall''"
abbreviation K_FALLOUT :: string where "K_FALLOUT \<equiv> ''Fallout''"
abbreviation K_TNR :: string where "K_TNR \<equiv> ''TNR''"
abbreviation K_F1 :: string where "K_F1 \<equiv> ''F1 Score''"
abbreviation K_AUC :: string where "K_AUC \<equiv> ''AUC''"
abbreviation K_AUC_OVO :: string where "K_AUC_OVO \<equiv> ''AUC(ovo)''"
abbreviation K_AUC_OVR :: string where "K_AUC_OVR \<equiv> ''AUC(ovr)''"

text \<open>
  A data frame of results: row labels, column labels and one row of cells per row label;
  \<open>None\<close> is the absent marker of a record that has no value for a column.
\<close>

record table =
  t_index :: "string list"
  t_columns :: "string list"
  t_cells :: "cell option list list"

text \<open>
  \<^verbatim>\<open>DataFrame(records, index=names)\<close>: the columns are the keys of the records in order of
  first appearance; each record fills its own keys.
\<close>

definition first_seen :: "'a list \<Rightarrow> 'a list" where
  "first_seen ks = rev (remdups (rev ks))"

definition DataFrame_of :: "scorecard list \<Rightarrow> string list \<Rightarrow> table" where
  "DataFrame_of records names =
     (let cols = first_seen (concat (map (map fst) records))
      in \<lparr> t_index = names, t_columns = cols,
           t_cells = map (\<lambda>r. map (\<lambda>c. map_of r c) cols) records \<rparr>)"

definition drop_column :: "string \<Rightarrow> table \<Rightarrow> table" where
  "drop_column c t =
     (let keep = map (\<lambda>k. k \<noteq> c) (t_columns t)
      in \<lparr> t_index = t_index t,
           t_columns = filter (\<lambda>k. k \<noteq> c) (t_columns t),
           t_cells = map (\<lambda>row. map snd (filter fst (zip keep row))) (t_cells t) \<rparr>)"

definition transpose_table :: "table \<Rightarrow> table" where
  "transpose_table t =
     \<lparr> t_index = t_columns t, t_columns = t_index t,
       t_cells = map (\<lambda>j. map (\<lambda>row. row ! j) (t_cells t)) [0..<length (t_columns t)] \<rparr>"

text \<open>
  What a function does to the outside, in order: the prediction calls it makes on the
  fitted handle, what it prints and what it hands to the rendering collaborator.
  A function that raises loses its events.
\<close>

datatype event =
    Print string
  | PrintParams params
  | ErrorLog string error
  | CallPredict DataFrame
  | CallPredictProba DataFrame
  | PrettyTable table
  | CvResults "(params \<times> npfloat) list"
  | ConfusionMatrixPlot Series Series
  | RocCurve "DataFrame option" "Series option"
  | LearningCurve "int option"
  | TreePlot
  | CoefReport "table list"

section \<open>The libraries the module calls\<close>

text \<open>
  The estimator, search and metrics libraries are collaborators. What they return is
  a parameter of the model (\<open>env\<close>); the module decides only when they are called and with
  which arguments. \<open>fit\<close> and \<open>search_fit\<close> may raise. A metric field of \<open>env\<close> is the number
  the metric returns once it has accepted its arguments; the argument checks by which the
  calls of the binary branch raise (\<open>binary_average_check\<close>, \<open>binary_auc_check\<close>,
  \<open>log_loss_check\<close>) are written out below. The second argument of \<open>precision_score\<close>,
  \<open>recall_score\<close> and \<open>f1_score\<close> is \<^verbatim>\<open>average\<close> (\<^verbatim>\<open>binary\<close> when the call gives none),
  the last argument of \<open>roc_auc_score\<close> is \<^verbatim>\<open>multi_class\<close> (\<^verbatim>\<open>raise\<close> when the call gives
  none), the last argument of \<open>log_loss\<close> is \<^verbatim>\<open>normalize\<close>.
\<close>

datatype y_score = Scores1D "real list" | Scores2D "real list list"

record search_result =
  sr_best_params :: params
  sr_cv_results :: "(params \<times> npfloat) list"

record env =
  accepts :: "classname \<Rightarrow> string \<Rightarrow> bool"
  fit :: "classname \<Rightarrow> params \<Rightarrow> DataFrame \<Rightarrow> Series \<Rightarrow> error option"
  search_fit :: "classname \<Rightarrow> params \<Rightarrow> params \<Rightarrow> int \<Rightarrow> DataFrame \<Rightarrow> Series
                   \<Rightarrow> error + search_result"
  has_predict_proba :: "model \<Rightarrow> bool"
  predict :: "model \<Rightarrow> DataFrame \<Rightarrow> Series"
  predict_proba :: "model \<Rightarrow> DataFrame \<Rightarrow> real list list"
  accuracy_score :: "Series \<Rightarrow> Series \<Rightarrow> npfloat"
  precision_score :: "Series \<Rightarrow> Series \<Rightarrow> string \<Rightarrow> npfloat"
  recall_score :: "Series \<Rightarrow> Series \<Rightarrow> string \<Rightarrow> npfloat"
  f1_score :: "Series \<Rightarrow> Series \<Rightarrow> string \<Rightarrow> npfloat"
  roc_auc_score :: "Series \<Rightarrow> y_score \<Rightarrow> string \<Rightarrow> npfloat"
  log_loss :: "Series \<Rightarrow> y_score \<Rightarrow> bool \<Rightarrow> npfloat"
  coef_report :: "model \<Rightarrow> DataFrame \<Rightarrow> Series \<Rightarrow> string option \<Rightarrow> error + table list"

text \<open>
  \<^verbatim>\<open>classname(**params)\<close>: the estimator constructors take named parameters only, so a
  keyword that the signature does not have raises \<^verbatim>\<open>TypeError\<close>.
\<close>

definition construct :: "env \<Rightarrow> classname \<Rightarrow> params \<Rightarrow> error + unit" where
  "construct env c ps =
     (if list_all (\<lambda>k. accepts env c k) (map fst ps) then Inr () else Inl TypeError)"

text \<open>\<^verbatim>\<open>estimator.classes_\<close> (here \<open>classes_of\<close>): the distinct labels of the training target, sorted.\<close>

definition classes_of :: "model \<Rightarrow> int list" where
  "classes_of m = sort (remdups (m_y m))"

text \<open>
  \<^verbatim>\<open>confusion_matrix(y_true, y_pred)\<close> with no \<^verbatim>\<open>labels\<close> argument: the labels are those
  that appear in \<open>y_true\<close> or \<open>y_pred\<close>, sorted; entry \<open>(i, j)\<close> counts the samples of
  true label \<open>i\<close> predicted as \<open>j\<close>. Inputs of different lengths raise \<^verbatim>\<open>ValueError\<close>;
  inputs without a sample have no label and give the matrix with no row.
\<close>

definition count_pairs :: "Series \<Rightarrow> Series \<Rightarrow> int \<Rightarrow> int \<Rightarrow> nat" where
  "count_pairs y_true y_pred t p = length (filter (\<lambda>tp. tp = (t, p)) (zip y_true y_pred))"

definition confusion_matrix :: "Series \<Rightarrow> Series \<Rightarrow> error + nat list list" where
  "confusion_matrix y_true y_pred =
     (if length y_true \<noteq> length y_pred then Inl ValueError
      else let labels = sort (remdups (y_true @ y_pred))
           in Inr (map (\<lambda>t. map (\<lambda>p. count_pairs y_true y_pred t p) labels) labels))"

text \<open>\<^verbatim>\<open>((TN, FP), (FN, TP)) = conf_mat\<close>: any shape other than 2 by 2 raises \<^verbatim>\<open>ValueError\<close>.\<close>

fun unpack_2x2 :: "nat list list \<Rightarrow> error + (nat \<times> nat \<times> nat \<times> nat)" where
  "unpack_2x2 [[TN, FP], [FN, TP]] = Inr (TN, FP, FN, TP)"
| "unpack_2x2 _ = Inl ValueError"

text \<open>\<^verbatim>\<open>proba[:, 1]\<close>: a matrix with fewer than two columns raises \<^verbatim>\<open>IndexError\<close>.\<close>

definition column_1 :: "real list list \<Rightarrow> error + real list" where
  "column_1 P =
     (if list_all (\<lambda>r. 1 < length r) P then Inr (map (\<lambda>r. r ! 1) P) else Inl IndexError)"

text \<open>
  \<^verbatim>\<open>np.ones_like(y) * y.mean()\<close>: an array of ones of the shape of \<open>y\<close>, each multiplied by
  the mean of \<open>y\<close>.
\<close>

definition ones_like :: "Series \<Rightarrow> int list" where
  "ones_like y = map (\<lambda>v. 1) y"

definition series_mean :: "Series \<Rightarrow> real" where
  "series_mean y = real_of_int (sum_list y) / real (length y)"

definition null_model :: "Series \<Rightarrow> real list" where
  "null_model y = map (\<lambda>one. real_of_int one * series_mean y) (ones_like y)"

text \<open>
  \<^verbatim>\<open>precision_score\<close>, \<^verbatim>\<open>recall_score\<close> and \<^verbatim>\<open>f1_score\<close> called without \<^verbatim>\<open>average\<close>
  and without \<^verbatim>\<open>pos_label\<close> score the label 1 of a binary target. They raise
  \<^verbatim>\<open>ValueError\<close> when the inputs differ in length, when more than two labels are present
  among \<open>y_true\<close> and \<open>y_pred\<close>, and when two labels are present and neither is 1.
\<close>

definition present_labels :: "Series \<Rightarrow> Series \<Rightarrow> int list" where
  "present_labels y_true y_pred = sort (remdups (y_true @ y_pred))"

definition binary_average_check :: "Series \<Rightarrow> Series \<Rightarrow> error + unit" where
  "binary_average_check y_true y_pred =
     (let labels = present_labels y_true y_pred
      in if length y_true \<noteq> length y_pred then Inl ValueError
         else if 2 < length labels then Inl ValueError
         else if 2 \<le> length labels \<and> 1 \<notin> set labels then Inl ValueError
         else Inr ())"

text \<open>
  \<^verbatim>\<open>roc_auc_score(y_true, y_score)\<close> with a one-dimensional score and no \<^verbatim>\<open>multi_class\<close>:
  the area is defined for exactly two labels among \<open>y_true\<close>; with one label, or with
  more than two, the call raises \<^verbatim>\<open>ValueError\<close>.
\<close>

definition binary_auc_check :: "Series \<Rightarrow> real list \<Rightarrow> error + unit" where
  "binary_auc_check y_true y_score =
     (if length y_true \<noteq> length y_score \<or> length (remdups y_true) \<noteq> 2 then Inl ValueError
      else Inr ())"

text \<open>
  \<^verbatim>\<open>log_loss(y_true, y_pred, normalize=False)\<close> with no \<^verbatim>\<open>labels\<close>: the classes are the
  labels of \<open>y_true\<close>. A one-dimensional \<open>y_pred\<close>, or one with a single column, is the
  probability of the second class and counts as two columns. The call raises
  \<^verbatim>\<open>ValueError\<close> when the inputs differ in length, when \<open>y_true\<close> has fewer than two
  labels, and when the number of labels differs from the number of columns.
\<close>

definition n_samples :: "y_score \<Rightarrow> nat" where
  "n_samples s = (case s of Scores1D p \<Rightarrow> length p | Scores2D P \<Rightarrow> length P)"

definition n_columns :: "y_score \<Rightarrow> nat" where
  "n_columns s =
     (case s of
        Scores1D p \<Rightarrow> 2
      | Scores2D P \<Rightarrow> (case P of [] \<Rightarrow> 0 | r # rs \<Rightarrow> if length r = 1 then 2 else length r))"

definition log_loss_check :: "Series \<Rightarrow> y_score \<Rightarrow> error + unit" where
  "log_loss_check y_true y_pred =
     (let n_classes = length (remdups y_true)
      in if n_samples y_pred \<noteq> length y_true then Inl ValueError
         else if n_classes < 2 then Inl ValueError
         else if n_classes \<noteq> n_columns y_pred then Inl ValueError
         else Inr ())"

section \<open>Options and the result object\<close>

text \<open>
  The keyword options shared by the entry points. \<open>sort_opt\<close> is the source's \<^verbatim>\<open>sort\<close>.
\<close>

record opts =
  conf_matrix :: bool
  cv :: int
  hist :: bool
  roc :: bool
  pr :: bool
  multiclass :: "string option"
  learning_curve :: bool
  report :: bool
  figsize :: "nat \<times> nat"
  dpi :: int
  sort_opt :: "string option"
  is_print :: bool

text \<open>
  The estimator object a job returns: the fitted handle and the attributes the module
  attaches to it afterwards (\<open>None\<close> while an attribute is not set).
\<close>

record estimator =
  fitted :: model
  est_best_params :: "params option"
  est_x :: "DataFrame option"
  est_y :: "Series option"
  est_y_pred :: "Series option"
  est_y_pred_proba :: "real list list option"
  est_scores :: "scorecard option"

definition new_estimator :: "model \<Rightarrow> estimator" where
  "new_estimator m =
     \<lparr> fitted = m, est_best_params = None, est_x = None, est_y = None, est_y_pred = None,
       est_y_pred_proba = None, est_scores = None \<rparr>"

text \<open>
  A function of the module is modelled with its named parameters given one by one (the
  data and the options) and its \<^verbatim>\<open>**params\<close> as a dictionary. A call that gives a keyword
  by name and again through \<^verbatim>\<open>**params\<close> raises \<^verbatim>\<open>TypeError\<close> before the function runs:
  so does, here, a dictionary with a key that names a parameter of the function called.
\<close>

definition data_keywords :: "string list" where
  "data_keywords = [''x_train'', ''y_train'', ''x_test'', ''y_test'']"

definition option_keywords :: "string list" where
  "option_keywords =
     [''conf_matrix'', ''cv'', ''hist'', ''roc'', ''pr'', ''multiclass'', ''learning_curve'',
      ''report'', ''figsize'', ''dpi'', ''sort'']"

definition keyword_twice :: "string list \<Rightarrow> params \<Rightarrow> bool" where
  "keyword_twice names params = list_ex (\<lambda>k. k \<in> set names) (map fst params)"

definition call_keywords :: "string list \<Rightarrow> params \<Rightarrow> error + unit" where
  "call_keywords names params = (if keyword_twice names params then Inl TypeError else Inr ())"

section \<open>Metric reporter: \<^verbatim>\<open>my_classification_result\<close>\<close>

text \<open>
  Lines 288 to 297 (and 352 to 359): the pseudo R2 starts at 0 and is computed only for a
  binary \<^verbatim>\<open>LogisticRegression\<close>; the probabilities are read there, so a logistic handle
  without them is a \<^verbatim>\<open>NameError\<close>. Each of the two \<^verbatim>\<open>log_loss\<close> calls may raise.
\<close>

definition log_loss_call :: "env \<Rightarrow> Series \<Rightarrow> y_score \<Rightarrow> error + npfloat" where
  "log_loss_call env y_true y_pred =
     bindE (log_loss_check y_true y_pred) (\<lambda>accepted. Inr (log_loss env y_true y_pred False))"

definition pseudo_r2 :: "env \<Rightarrow> model \<Rightarrow> bool \<Rightarrow> Series \<Rightarrow> real list list option \<Rightarrow> error + npfloat" where
  "pseudo_r2 env m is_binary y y_pred_proba =
     (if is_binary \<and> class_name (m_class m) = ''LogisticRegression'' then
        (case y_pred_proba of
           None \<Rightarrow> Inl NameError
         | Some P \<Rightarrow>
            bindE (log_loss_call env y (Scores2D P)) (\<lambda>ll_fitted.
              let y_log_loss_test = np_neg ll_fitted;
                  y_null = null_model y
              in bindE (log_loss_call env y (Scores1D y_null)) (\<lambda>ll_null.
                   let y_log_loss_null = np_neg ll_null
                   in Inr (np_sub (Fin 1) (np_div y_log_loss_test y_log_loss_null)))))
      else Inr (Fin 0))"

definition proba_of :: "env \<Rightarrow> model \<Rightarrow> DataFrame \<Rightarrow> real list list option" where
  "proba_of env m x = (if has_predict_proba env m then Some (predict_proba env m x) else None)"

definition proba_1_of :: "real list list option \<Rightarrow> error + real list option" where
  "proba_1_of P = (case P of None \<Rightarrow> Inr None | Some Q \<Rightarrow> bindE (column_1 Q) (\<lambda>c. Inr (Some c)))"

text \<open>
  Lines 305 to 319 and 364 to 380: the scorecard of a binary target. The two blocks of the
  source are the same but for the names of the variables; \<open>p1\<close> is the second column of
  the probabilities, present when the handle has \<^verbatim>\<open>predict_proba\<close>. Precision, recall and
  F1 are called with the library's defaults, and they and the AUC raise as the library
  does; the two quotients of counts are numpy divisions, which do not raise.
\<close>

definition binary_result ::
  "env \<Rightarrow> Series \<Rightarrow> Series \<Rightarrow> npfloat \<Rightarrow> nat \<times> nat \<times> nat \<times> nat \<Rightarrow> real list option
     \<Rightarrow> error + scorecard" where
  "binary_result env y y_pred r2 counts p1 =
     (case counts of (TN, FP, FN, TP) \<Rightarrow>
        bindE (binary_average_check y y_pred) (\<lambda>accepted.
          let result =
            [(K_PSEUDO_R2, Num r2),
             (K_ACCURACY, Num (accuracy_score env y y_pred)),
             (K_PRECISION, Num (precision_score env y y_pred ''binary'')),
             (K_RECALL, Num (recall_score env y y_pred ''binary'')),
             (K_FALLOUT, Num (int_true_divide FP (TN + FP))),
             (K_TNR, Num (np_sub (Fin 1) (int_true_divide FP (TN + FP)))),
             (K_F1, Num (f1_score env y y_pred ''binary''))]
          in case p1 of
               None \<Rightarrow> Inr result
             | Some p \<Rightarrow>
                 bindE (binary_auc_check y p) (\<lambda>accepted.
                   Inr (AList.update K_AUC (Num (roc_auc_score env y (Scores1D p) ''raise''))
                          result))))"

text \<open>Lines 330 to 339 and 391 to 400: the two AUC entries of a multi-class target.\<close>

definition add_multiclass_auc ::
  "env \<Rightarrow> string option \<Rightarrow> Series \<Rightarrow> real list list option \<Rightarrow> scorecard \<Rightarrow> scorecard" where
  "add_multiclass_auc env mc y proba result =
     (case proba of
        None \<Rightarrow> result
      | Some P \<Rightarrow>
         (let r1 = (if mc = Some ''ovo'' \<or> mc = None
                    then AList.update K_AUC_OVO (Num (roc_auc_score env y (Scores2D P) ''ovo'')) result
                    else result)
          in if mc = Some ''ovr'' \<or> mc = None
             then AList.update K_AUC_OVR (Num (roc_auc_score env y (Scores2D P) ''ovr'')) r1
             else r1))"

text \<open>Lines 320 to 328: the multi-class scorecard of the training split.\<close>

definition multiclass_result_train ::
  "env \<Rightarrow> string option \<Rightarrow> Series \<Rightarrow> Series \<Rightarrow> real list list option \<Rightarrow> scorecard" where
  "multiclass_result_train env mc y_train y_train_pred y_train_pred_proba =
     add_multiclass_auc env mc y_train y_train_pred_proba
       [(K_ACCURACY, Num (accuracy_score env y_train y_train_pred)),
        (K_PRECISION, Num (precision_score env y_train y_train_pred ''macro'')),
        (K_RECALL, Num (recall_score env y_train y_train_pred ''micro'')),
        (K_F1, Num (f1_score env y_train y_train_pred ''macro''))]"

text \<open>Lines 381 to 389: the multi-class scorecard of the validation split.\<close>

definition multiclass_result_test ::
  "env \<Rightarrow> string option \<Rightarrow> Series \<Rightarrow> Series \<Rightarrow> real list list option \<Rightarrow> scorecard" where
  "multiclass_result_test env mc y_test y_test_pred y_test_pred_proba =
     add_multiclass_auc env mc y_test y_test_pred_proba
       [(K_ACCURACY, Num (accuracy_score env y_test y_test_pred)),
        (K_PRECISION, Num (precision_score env y_test y_test_pred ''macro'')),
        (K_RECALL, Num (recall_score env y_test y_test_pred ''macro'')),
        (K_F1, Num (f1_score env y_test y_test_pred ''macro''))]"

text \<open>
  Lines 280 to 342: the training split. Predictions, probabilities and their second
  column, pseudo R2, confusion matrix, then the scorecard; the predictions are kept for
  the confusion matrix plot.
\<close>

definition train_scores :: "env \<Rightarrow> model \<Rightarrow> string option \<Rightarrow> DataFrame \<Rightarrow> Series \<Rightarrow> error + (scorecard \<times> Series)" where
  "train_scores env m mc x_train y_train =
     (let is_binary = (length (classes_of m) = 2);
          y_train_pred = predict env m x_train;
          y_train_pred_proba = proba_of env m x_train
      in bindE (proba_1_of y_train_pred_proba) (\<lambda>y_train_pred_proba_1.
         bindE (pseudo_r2 env m is_binary y_train y_train_pred_proba) (\<lambda>y_train_pseudo_r2.
         bindE (confusion_matrix y_train y_train_pred) (\<lambda>y_train_conf_mat.
         if is_binary then
           bindE (unpack_2x2 y_train_conf_mat) (\<lambda>counts.
           bindE (binary_result env y_train y_train_pred y_train_pseudo_r2 counts
                    y_train_pred_proba_1) (\<lambda>result.
             Inr (result, y_train_pred)))
         else
           Inr (multiclass_result_train env mc y_train y_train_pred y_train_pred_proba,
                y_train_pred)))))"

text \<open>Lines 344 to 403: the validation split.\<close>

definition test_scores :: "env \<Rightarrow> model \<Rightarrow> string option \<Rightarrow> DataFrame \<Rightarrow> Series \<Rightarrow> error + (scorecard \<times> Series)" where
  "test_scores env m mc x_test y_test =
     (let is_binary = (length (classes_of m) = 2);
          y_test_pred = predict env m x_test;
          y_test_pred_proba = proba_of env m x_test
      in bindE (proba_1_of y_test_pred_proba) (\<lambda>y_test_pred_proba_1.
         bindE (pseudo_r2 env m is_binary y_test y_test_pred_proba) (\<lambda>y_test_pseudo_r2.
         bindE (confusion_matrix y_test y_test_pred) (\<lambda>y_test_conf_mat.
         if is_binary then
           bindE (unpack_2x2 y_test_conf_mat) (\<lambda>counts.
           bindE (binary_result env y_test y_test_pred y_test_pseudo_r2 counts
                    y_test_pred_proba_1) (\<lambda>result.
             Inr (result, y_test_pred)))
         else
           Inr (multiclass_result_test env mc y_test y_test_pred y_test_pred_proba,
                y_test_pred)))))"

text \<open>
  Lines 405 to 437: the row of descriptions, one text per key (the texts are Korean in the
  source and abridged here).
\<close>

definition descriptions :: "env \<Rightarrow> model \<Rightarrow> string option \<Rightarrow> scorecard" where
  "descriptions env m mc =
     (if length (classes_of m) = 2 then
        (let result =
           [(K_PSEUDO_R2, Txt ''fit of a logistic regression, better near 1''),
            (K_ACCURACY, Txt ''share of predictions that match''),
            (K_PRECISION, Txt ''true positives among predicted positives''),
            (K_RECALL, Txt ''true positives among actual positives''),
            (K_FALLOUT, Txt ''false positives among actual negatives''),
            (K_TNR, Txt ''true negatives among actual negatives''),
            (K_F1, Txt ''harmonic mean of precision and recall'')]
         in if has_predict_proba env m
            then AList.update K_AUC (Txt ''area under the ROC curve'') result
            else result)
      else
        (let result =
           [(K_ACCURACY, Txt ''share of predictions that match''),
            (K_PRECISION, Txt ''true positives among predicted positives''),
            (K_RECALL, Txt ''true positives among actual positives''),
            (K_F1, Txt ''harmonic mean of precision and recall'')]
         in if has_predict_proba env m then
              (let r1 = (if mc = Some ''ovo'' \<or> mc = None
                         then AList.update K_AUC_OVO (Txt ''AUC, one vs one'') result
                         else result)
               in if mc = Some ''ovr'' \<or> mc = None
                  then AList.update K_AUC_OVR (Txt ''AUC, one vs rest'') r1
                  else r1)
            else result))"

text \<open>
  Lines 439 to 447: the table that is printed when \<open>is_print\<close> holds. The pseudo R2 column
  is dropped for every class but \<^verbatim>\<open>LogisticRegression\<close>.
\<close>

definition displayed_scores :: "model \<Rightarrow> scorecard list \<Rightarrow> string list \<Rightarrow> table" where
  "displayed_scores m scores score_names =
     (let result_df = DataFrame_of scores score_names;
          result_df =
            (if class_name (m_class m) \<noteq> ''LogisticRegression''
             then (if K_PSEUDO_R2 \<in> set (t_columns result_df)
                   then drop_column K_PSEUDO_R2 result_df else result_df)
             else result_df)
      in result_df)"

text \<open>
  The whole function. A split is reported when both its features and its labels are
  given. \<open>scores[-2]\<close> is the last split reported: the validation scorecard when there
  is one, else the training scorecard; with no split at all it is an \<^verbatim>\<open>IndexError\<close>.
\<close>

definition split_of :: "'a option \<Rightarrow> 'b option \<Rightarrow> ('a \<times> 'b) option" where
  "split_of x y = (case x of None \<Rightarrow> None | Some a \<Rightarrow> (case y of None \<Rightarrow> None | Some b \<Rightarrow> Some (a, b)))"

definition run_split ::
  "(DataFrame \<Rightarrow> Series \<Rightarrow> error + (scorecard \<times> Series)) \<Rightarrow> (DataFrame \<times> Series) option
     \<Rightarrow> error + (Series \<times> scorecard \<times> Series) option" where
  "run_split f d =
     (case d of None \<Rightarrow> Inr None
      | Some (x, y) \<Rightarrow> bindE (f x y) (\<lambda>(result, y_pred). Inr (Some (y, result, y_pred))))"

definition calls_of :: "env \<Rightarrow> model \<Rightarrow> (DataFrame \<times> Series) option \<Rightarrow> event list" where
  "calls_of env m d =
     (case d of None \<Rightarrow> []
      | Some (x, y) \<Rightarrow>
          CallPredict x # (if has_predict_proba env m then [CallPredictProba x] else []))"

definition split_row :: "string \<Rightarrow> (Series \<times> scorecard \<times> Series) option \<Rightarrow> (string \<times> scorecard) list" where
  "split_row name r = (case r of None \<Rightarrow> [] | Some (y, result, y_pred) \<Rightarrow> [(name, result)])"

text \<open>Lines 454 to 460: the confusion matrix plot, of the validation split when there is one.\<close>

definition matrix_shown ::
  "opts \<Rightarrow> (Series \<times> scorecard \<times> Series) option \<Rightarrow> (Series \<times> scorecard \<times> Series) option
     \<Rightarrow> error + event list" where
  "matrix_shown ops train test =
     (if conf_matrix ops \<and> is_print ops then
        (case test of
           Some (y, result, y_test_pred) \<Rightarrow>
             Inr [Print ''[confusion matrix]'', ConfusionMatrixPlot y y_test_pred]
         | None \<Rightarrow>
            (case train of
               Some (y, result, y_train_pred) \<Rightarrow>
                 Inr [Print ''[confusion matrix]'', ConfusionMatrixPlot y y_train_pred]
             | None \<Rightarrow> Inl NameError))
      else Inr [])"

text \<open>
  Lines 464 to 517: ROC curve, learning curve (it reads \<^verbatim>\<open>y_train.name\<close>) and tree plot.
\<close>

definition curves_shown ::
  "env \<Rightarrow> model \<Rightarrow> opts \<Rightarrow> DataFrame option \<Rightarrow> Series option \<Rightarrow> DataFrame option \<Rightarrow> Series option
     \<Rightarrow> error + event list" where
  "curves_shown env m ops x_train y_train x_test y_test =
     (if is_print ops then
        (let roc_shown =
               (if has_predict_proba env m then
                  (if x_test = None \<or> y_test = None
                   then [Print ''[Roc Curve]'', RocCurve x_train y_train]
                   else [Print ''[Roc Curve]'', RocCurve x_test y_test])
                else []);
             tree_shown =
               (if class_name (m_class m) = ''DecisionTreeClassifier'' then [TreePlot] else [])
         in if learning_curve ops then
              (if y_train = None then Inl AttributeError
               else Inr (roc_shown
                         @ [Print ''[learning curve]'',
                            LearningCurve (if cv ops > 0 then Some (cv ops) else None)]
                         @ tree_shown))
            else Inr (roc_shown @ tree_shown))
      else Inr [])"

definition my_classification_result ::
  "env \<Rightarrow> estimator \<Rightarrow> DataFrame option \<Rightarrow> Series option \<Rightarrow> DataFrame option \<Rightarrow> Series option
     \<Rightarrow> opts \<Rightarrow> error + (estimator \<times> event list)" where
  "my_classification_result env estimator x_train y_train x_test y_test ops =
     (let m = fitted estimator
      in bindE (run_split (train_scores env m (multiclass ops)) (split_of x_train y_train)) (\<lambda>train.
         bindE (run_split (test_scores env m (multiclass ops)) (split_of x_test y_test)) (\<lambda>test.
         let rows = split_row ''train'' train @ split_row ''test'' test
                    @ [(''description'', descriptions env m (multiclass ops))];
             scores = map snd rows;
             score_names = map fst rows;
             shown = (if is_print ops
                      then [Print ''[scores]'',
                            PrettyTable (transpose_table (displayed_scores m scores score_names))]
                      else [])
         in if length scores < 2 then Inl IndexError
            else
              bindE (matrix_shown ops train test) (\<lambda>matrix_events.
              bindE (curves_shown env m ops x_train y_train x_test y_test) (\<lambda>curve_events.
              Inr (estimator\<lparr> est_scores := Some (scores ! (length scores - 2)) \<rparr>,
                   calls_of env m (split_of x_train y_train) @ calls_of env m (split_of x_test y_test)
                   @ shown @ matrix_events @ curve_events))))))"

section \<open>Single-model trainer: \<^verbatim>\<open>__my_classification\<close> and its wrappers\<close>

text \<open>
  Lines 89 to 99: in the search branch an override is added when the constructor accepts
  it, and that is printed. Lines 150 to 158: in the direct branch the override goes into
  the caller's parameters, and the refusal is printed.
\<close>

definition set_if_accepted ::
  "env \<Rightarrow> classname \<Rightarrow> string \<Rightarrow> pval \<Rightarrow> params \<times> event list \<Rightarrow> params \<times> event list" where
  "set_if_accepted env c k v st =
     (if accepts env c k
      then (AList.update k v (fst st), snd st @ [Print (class_name c @ '': '' @ k @ '' set'')])
      else st)"

definition set_or_report ::
  "env \<Rightarrow> classname \<Rightarrow> string \<Rightarrow> pval \<Rightarrow> params \<times> event list \<Rightarrow> params \<times> event list" where
  "set_or_report env c k v st =
     (if accepts env c k
      then (AList.update k v (fst st), snd st)
      else (fst st, snd st @ [Print (class_name c @ '' does not allow '' @ k)]))"

text \<open>
  Lines 79 to 147, \<open>cv > 0\<close>: the randomized search. Whatever \<^verbatim>\<open>grid.fit\<close> raises is
  caught, printed, and the job returns \<open>None\<close>. The best estimator has the prototype's
  arguments and the best parameters, refitted on the training data.
\<close>

definition fit_with_search ::
  "env \<Rightarrow> classname \<Rightarrow> DataFrame \<Rightarrow> Series \<Rightarrow> opts \<Rightarrow> params \<Rightarrow> error + (estimator option \<times> event list)" where
  "fit_with_search env classname x_train y_train ops params =
     (let st = set_if_accepted env classname ''early_stopping'' (PBool True)
                 (set_if_accepted env classname ''random_state'' (PInt 1234)
                    (set_if_accepted env classname ''n_jobs'' (PInt (- 1)) ([], [])));
          args = fst st;
          cn = class_name classname
      in bindE (construct env classname args) (\<lambda>prototype_estimator.
         let ev = snd st @ [Print cn, PrintParams params]
         in case search_fit env classname args params (cv ops) x_train y_train of
              Inl e \<Rightarrow> Inr (None, ev @ [ErrorLog cn e])
            | Inr grid \<Rightarrow>
               (let estimator =
                      (new_estimator
                         \<lparr> m_class = classname,
                           m_params = AList.merge args (sr_best_params grid),
                           m_x = x_train, m_y = y_train \<rparr>)
                      \<lparr> est_best_params := Some (sr_best_params grid) \<rparr>
                in Inr (Some estimator,
                        ev @ (if is_print ops
                              then [Print ''[cross validation TOP5]'', CvResults (sr_cv_results grid),
                                    Print ''[Best Params]'', PrintParams (sr_best_params grid)]
                              else [])))))"

text \<open>
  Lines 149 to 161, \<open>cv \<le> 0\<close>: the estimator is built from the caller's parameters and
  fitted. Nothing is caught here: what the constructor or \<^verbatim>\<open>fit\<close> raises leaves the job.
\<close>

definition fit_direct ::
  "env \<Rightarrow> classname \<Rightarrow> DataFrame \<Rightarrow> Series \<Rightarrow> params \<Rightarrow> error + (estimator option \<times> event list)" where
  "fit_direct env classname x_train y_train params =
     (let st = set_or_report env classname ''random_state'' (PInt 1234)
                 (set_or_report env classname ''n_jobs'' (PInt (- 1)) (params, []));
          params = fst st
      in bindE (construct env classname params) (\<lambda>built.
         case fit env classname params x_train y_train of
           Some e \<Rightarrow> Inl e
         | None \<Rightarrow>
             Inr (Some (new_estimator
                          \<lparr> m_class = classname, m_params = params,
                            m_x = x_train, m_y = y_train \<rparr>),
                  snd st)))"

text \<open>
  Lines 520 to 553: the coefficient report goes to the validation data when both its
  parts are given, else to the training data; computing it is the collaborator's part.
\<close>

definition my_classification_report ::
  "env \<Rightarrow> estimator \<Rightarrow> DataFrame \<Rightarrow> Series \<Rightarrow> DataFrame option \<Rightarrow> Series option \<Rightarrow> string option
     \<Rightarrow> error + event list" where
  "my_classification_report env estimator x_train y_train x_test y_test sort_by =
     bindE (case split_of x_test y_test of
              Some (x, y) \<Rightarrow> coef_report env (fitted estimator) x y sort_by
            | None \<Rightarrow> coef_report env (fitted estimator) x_train y_train sort_by)
       (\<lambda>tables. Inr [CoefReport tables])"

text \<open>
  Lines 166 to 230: predictions, the attributes attached to the estimator, the metric
  reporter and the optional report.
\<close>

definition attach_and_score ::
  "env \<Rightarrow> estimator \<Rightarrow> DataFrame \<Rightarrow> Series \<Rightarrow> DataFrame option \<Rightarrow> Series option \<Rightarrow> opts
     \<Rightarrow> error + (estimator \<times> event list)" where
  "attach_and_score env estimator x_train y_train x_test y_test ops =
     (let m = fitted estimator;
          has_proba = has_predict_proba env m;
          x_first = (case x_test of Some xt \<Rightarrow> xt | None \<Rightarrow> x_train);
          y_pred = predict env m x_first;
          y_pred_prob = predict_proba env m x_first;
          calls = [CallPredict x_first] @ (if has_proba then [CallPredictProba x_first] else [])
                  @ (if y_test = None then [CallPredict x_train] else [])
                  @ (if has_proba \<and> y_test = None then [CallPredictProba x_train] else []);
          estimator = estimator
            \<lparr> est_x := Some x_first,
              est_y := Some (case y_test of Some yt \<Rightarrow> yt | None \<Rightarrow> y_train),
              est_y_pred := Some (if y_test \<noteq> None then y_pred else predict env m x_train) \<rparr>;
          estimator =
            (if has_proba
             then estimator
                    \<lparr> est_y_pred_proba :=
                        Some (if y_test \<noteq> None then y_pred_prob else predict_proba env m x_train) \<rparr>
             else estimator)
      in bindE (if x_test \<noteq> None \<and> y_test \<noteq> None
                then my_classification_result env estimator (Some x_train) (Some y_train) x_test y_test ops
                else my_classification_result env estimator (Some x_train) (Some y_train) None None ops)
           (\<lambda>(estimator, shown).
         bindE (if report ops \<and> is_print ops
                then my_classification_report env estimator x_train y_train x_test y_test (sort_opt ops)
                else Inr [])
           (\<lambda>reported. Inr (estimator, calls @ shown @ reported))))"

text \<open>
  The function \<^verbatim>\<open>__my_classification\<close> (a name cannot start with an underscore here). It
  returns \<open>Inr (None, _)\<close> for Python's \<^verbatim>\<open>return None\<close>, \<open>Inr (Some estimator, _)\<close> for
  a result, \<open>Inl e\<close> when the exception \<open>e\<close> leaves it. Its named parameters are
  \<^verbatim>\<open>classname\<close>, the data, the options and \<^verbatim>\<open>is_print\<close>.
\<close>

definition trainer_keywords :: "string list" where
  "trainer_keywords = ''classname'' # data_keywords @ option_keywords @ [''is_print'']"

definition priv_my_classification ::
  "env \<Rightarrow> classname \<Rightarrow> DataFrame \<Rightarrow> Series \<Rightarrow> DataFrame option \<Rightarrow> Series option \<Rightarrow> opts \<Rightarrow> params
     \<Rightarrow> error + (estimator option \<times> event list)" where
  "priv_my_classification env classname x_train y_train x_test y_test ops params =
     bindE (call_keywords trainer_keywords params) (\<lambda>bound.
     bindE (if cv ops > 0
            then fit_with_search env classname x_train y_train ops params
            else fit_direct env classname x_train y_train params)
       (\<lambda>(fit_result, ev).
          case fit_result of
            None \<Rightarrow> Inr (None, ev)
          | Some estimator \<Rightarrow>
              bindE (attach_and_score env estimator x_train y_train x_test y_test ops)
                (\<lambda>(estimator, shown). Inr (Some estimator, ev @ shown))))"

text \<open>
  The wrappers, one per estimator class. Each substitutes its own grid when a search is
  asked for (\<open>cv > 0\<close>) and no parameters are given, then calls the trainer. Their named
  parameters are the data, the options and \<^verbatim>\<open>is_print\<close>.
\<close>

definition wrapper_keywords :: "string list" where
  "wrapper_keywords = data_keywords @ option_keywords @ [''is_print'']"

definition default_grid :: "classname \<Rightarrow> params" where
  "default_grid c =
     (case c of
        LogisticRegression \<Rightarrow>
          [(''penalty'', PList [PStr ''l1'', PStr ''l2'', PStr ''elasticnet'']),
           (''C'', PList [PReal 0.001, PReal 0.01, PReal 0.1, PInt 1, PInt 10, PInt 100]),
           (''max_iter'', PList [PInt 1000])]
      | KNeighborsClassifier \<Rightarrow>
          [(''n_neighbors'', PList [PInt 3, PInt 5, PInt 7]),
           (''weights'', PList [PStr ''uniform'', PStr ''distance'']),
           (''metric'', PList [PStr ''euclidean'', PStr ''manhattan''])]
      | SVC \<Rightarrow>
          [(''C'', PList [PReal 0.1, PInt 1, PInt 10]),
           (''kernel'', PList [PStr ''rbf'', PStr ''poly'', PStr ''sigmoid'']),
           (''degree'', PList [PInt 2, PInt 3, PInt 4, PInt 5])]
      | GaussianNB \<Rightarrow>
          [(''var_smoothing'',
            PList [PReal 0.000000001, PReal 0.00000001, PReal 0.0000001, PReal 0.000001,
                   PReal 0.00001])]
      | DecisionTreeClassifier \<Rightarrow>
          [(''criterion'', PList [PStr ''gini'', PStr ''entropy''])]
      | SGDClassifier \<Rightarrow>
          [(''loss'', PList [PStr ''hinge'', PStr ''log'', PStr ''modified_huber'']),
           (''penalty'', PList [PStr ''l2'', PStr ''l1'', PStr ''elasticnet'']),
           (''alpha'', PList [PReal 0.0001, PReal 0.001, PReal 0.01, PReal 0.1]),
           (''max_iter'', PList [PInt 1000, PInt 2000, PInt 3000, PInt 4000, PInt 5000]),
           (''learning_rate'',
            PList [PStr ''optimal'', PStr ''constant'', PStr ''invscaling'', PStr ''adaptive'']),
           (''eta0'', PList [PReal 0.01, PReal 0.1, PReal 0.5])])"

definition grid_or :: "classname \<Rightarrow> int \<Rightarrow> params \<Rightarrow> params" where
  "grid_or c folds params = (if folds > 0 then (if params = [] then default_grid c else params) else params)"

definition my_logistic_classification ::
  "env \<Rightarrow> DataFrame \<Rightarrow> Series \<Rightarrow> DataFrame option \<Rightarrow> Series option \<Rightarrow> opts \<Rightarrow> params
     \<Rightarrow> error + (estimator option \<times> event list)" where
  "my_logistic_classification env x_train y_train x_test y_test ops params =
     bindE (call_keywords wrapper_keywords params) (\<lambda>bound.
       priv_my_classification env LogisticRegression x_train y_train x_test y_test ops
         (grid_or LogisticRegression (cv ops) params))"

definition my_knn_classification ::
  "env \<Rightarrow> DataFrame \<Rightarrow> Series \<Rightarrow> DataFrame option \<Rightarrow> Series option \<Rightarrow> opts \<Rightarrow> params
     \<Rightarrow> error + (estimator option \<times> event list)" where
  "my_knn_classification env x_train y_train x_test y_test ops params =
     bindE (call_keywords wrapper_keywords params) (\<lambda>bound.
       priv_my_classification env KNeighborsClassifier x_train y_train x_test y_test ops
         (grid_or KNeighborsClassifier (cv ops) params))"

text \<open>The naive Bayes wrapper does not pass \<^verbatim>\<open>conf_matrix\<close> on: the trainer's default applies.\<close>

definition my_nb_classification ::
  "env \<Rightarrow> DataFrame \<Rightarrow> Series \<Rightarrow> DataFrame option \<Rightarrow> Series option \<Rightarrow> opts \<Rightarrow> params
     \<Rightarrow> error + (estimator option \<times> event list)" where
  "my_nb_classification env x_train y_train x_test y_test ops params =
     bindE (call_keywords wrapper_keywords params) (\<lambda>bound.
       priv_my_classification env GaussianNB x_train y_train x_test y_test
         (ops\<lparr> conf_matrix := True \<rparr>) (grid_or GaussianNB (cv ops) params))"

definition my_dtree_classification ::
  "env \<Rightarrow> DataFrame \<Rightarrow> Series \<Rightarrow> DataFrame option \<Rightarrow> Series option \<Rightarrow> opts \<Rightarrow> params
     \<Rightarrow> error + (estimator option \<times> event list)" where
  "my_dtree_classification env x_train y_train x_test y_test ops params =
     bindE (call_keywords wrapper_keywords params) (\<lambda>bound.
       priv_my_classification env DecisionTreeClassifier x_train y_train x_test y_test ops
         (grid_or DecisionTreeClassifier (cv ops) params))"

text \<open>
  The SVC wrapper has no \<^verbatim>\<open>hist\<close>, \<^verbatim>\<open>roc\<close>, \<^verbatim>\<open>pr\<close>, \<^verbatim>\<open>multiclass\<close>, \<^verbatim>\<open>report\<close> or
  \<^verbatim>\<open>sort\<close> parameter (they are commented out in the source): of the options record it
  reads only \<^verbatim>\<open>conf_matrix\<close>, \<^verbatim>\<open>cv\<close>, \<^verbatim>\<open>learning_curve\<close>, \<^verbatim>\<open>figsize\<close>, \<^verbatim>\<open>dpi\<close> and
  \<^verbatim>\<open>is_print\<close>. It removes four names from the hyperparameters and passes the rest on
  as \<^verbatim>\<open>**params\<close>: a \<^verbatim>\<open>multiclass\<close> or \<^verbatim>\<open>sort\<close> entry there becomes the trainer's
  parameter of that name, and without one the trainer's default \<^verbatim>\<open>None\<close> applies. The
  module only compares these two values with texts; a value that is not a text equals
  none of them and is kept as the empty text.
\<close>

definition svc_keywords :: "string list" where
  "svc_keywords =
     data_keywords @ [''conf_matrix'', ''cv'', ''learning_curve'', ''figsize'', ''dpi'', ''is_print'']"

definition bound_text :: "params \<Rightarrow> string \<Rightarrow> string option" where
  "bound_text params k =
     (case map_of params k of
        None \<Rightarrow> None
      | Some v \<Rightarrow> (case v of PStr s \<Rightarrow> Some s | _ \<Rightarrow> Some []))"

definition my_svc_classification ::
  "env \<Rightarrow> DataFrame \<Rightarrow> Series \<Rightarrow> DataFrame option \<Rightarrow> Series option \<Rightarrow> opts \<Rightarrow> params
     \<Rightarrow> error + (estimator option \<times> event list)" where
  "my_svc_classification env x_train y_train x_test y_test ops params =
     bindE (call_keywords svc_keywords params) (\<lambda>bound.
       let params = AList.delete ''report'' (AList.delete ''pr'' (AList.delete ''roc''
                      (AList.delete ''hist'' params)));
           params = grid_or SVC (cv ops) params
       in priv_my_classification env SVC x_train y_train x_test y_test
            \<lparr> conf_matrix = conf_matrix ops, cv = cv ops, hist = True, roc = True, pr = True,
              multiclass = bound_text params ''multiclass'',
              learning_curve = learning_curve ops, report = False,
              figsize = figsize ops, dpi = dpi ops, sort_opt = bound_text params ''sort'',
              is_print = is_print ops \<rparr>
            (AList.delete ''sort'' (AList.delete ''multiclass'' params)))"

definition my_sgd_classification ::
  "env \<Rightarrow> DataFrame \<Rightarrow> Series \<Rightarrow> DataFrame option \<Rightarrow> Series option \<Rightarrow> opts \<Rightarrow> params
     \<Rightarrow> error + (estimator option \<times> event list)" where
  "my_sgd_classification env x_train y_train x_test y_test ops params =
     bindE (call_keywords wrapper_keywords params) (\<lambda>bound.
       priv_my_classification env SGDClassifier x_train y_train x_test y_test ops
         (grid_or SGDClassifier (cv ops) params))"

section \<open>Multi-model dispatcher: \<^verbatim>\<open>my_classification\<close>\<close>

text \<open>
  Lines 1280 to 1434: \<^verbatim>\<open>if not algorithm or "name" in algorithm\<close>, six times, in this
  order. Every job runs with \<^verbatim>\<open>is_print=False\<close>. \<open>submitted\<close> lists the wrappers the
  dispatcher submits, \<open>processes\<close> the outcomes of the jobs, in submission order.
\<close>

definition wanted :: "string list option \<Rightarrow> string \<Rightarrow> bool" where
  "wanted algorithm a = (case algorithm of None \<Rightarrow> True | Some names \<Rightarrow> names = [] \<or> a \<in> set names)"

type_synonym job =
  "env \<Rightarrow> DataFrame \<Rightarrow> Series \<Rightarrow> DataFrame option \<Rightarrow> Series option \<Rightarrow> opts \<Rightarrow> params
     \<Rightarrow> error + (estimator option \<times> event list)"

definition submitted :: "string list option \<Rightarrow> (classname \<times> job) list" where
  "submitted algorithm =
     (if wanted algorithm ''logistic'' then [(LogisticRegression, my_logistic_classification)] else [])
     @ (if wanted algorithm ''knn'' then [(KNeighborsClassifier, my_knn_classification)] else [])
     @ (if wanted algorithm ''svc'' then [(SVC, my_svc_classification)] else [])
     @ (if wanted algorithm ''nb'' then [(GaussianNB, my_nb_classification)] else [])
     @ (if wanted algorithm ''dtree'' then [(DecisionTreeClassifier, my_dtree_classification)] else [])
     @ (if wanted algorithm ''sgd'' then [(SGDClassifier, my_sgd_classification)] else [])"

definition processes ::
  "env \<Rightarrow> DataFrame \<Rightarrow> Series \<Rightarrow> DataFrame option \<Rightarrow> Series option \<Rightarrow> opts \<Rightarrow> string list option
     \<Rightarrow> params \<Rightarrow> (error + (estimator option \<times> event list)) list" where
  "processes env x_train y_train x_test y_test ops algorithm params =
     map (\<lambda>j. (snd j) env x_train y_train x_test y_test (ops\<lparr> is_print := False \<rparr>) params)
       (submitted algorithm)"

text \<open>
  \<^verbatim>\<open>futures.as_completed\<close>: the futures in the order in which they finish. The scheduler
  is a parameter: \<open>finish_time i\<close> is when the job submitted at position \<open>i\<close> finishes,
  and jobs that finish together come in submission order.
\<close>

definition as_completed :: "(nat \<Rightarrow> nat) \<Rightarrow> 'a list \<Rightarrow> 'a list" where
  "as_completed finish_time ps =
     map snd (sort_key fst (zip (map finish_time [0..<length ps]) ps))"

text \<open>
  Lines 1437 to 1449: \<^verbatim>\<open>p.result()\<close> raises again what the job raised; a job that
  returned \<open>None\<close> is skipped; a result is recorded under its class name.
\<close>

record collected =
  results :: "scorecard list"
  estimators :: "(string \<times> estimator) list"
  estimator_names :: "string list"

fun collect ::
  "(error + (estimator option \<times> event list)) list \<Rightarrow> collected \<Rightarrow> error + collected" where
  "collect [] acc = Inr acc"
| "collect (p # ps) acc =
     (case p of
        Inl e \<Rightarrow> Inl e
      | Inr r \<Rightarrow>
         (case fst r of
            None \<Rightarrow> collect ps acc
          | Some estimator \<Rightarrow>
             (case est_scores estimator of
                None \<Rightarrow> Inl AttributeError
              | Some scores \<Rightarrow>
                 (let n = class_name (m_class (fitted estimator))
                  in collect ps
                       \<lparr> results = results acc @ [scores],
                         estimators = AList.update n estimator (estimators acc),
                         estimator_names = estimator_names acc @ [n] \<rparr>))))"

text \<open>
  The named parameters of the dispatcher are the data, the options and \<^verbatim>\<open>algorithm\<close>; it
  has no \<^verbatim>\<open>is_print\<close>. Each call of \<^verbatim>\<open>executor.submit\<close> gives the data, options and
  \<^verbatim>\<open>is_print=False\<close> by name and then \<^verbatim>\<open>**params\<close>: with an \<^verbatim>\<open>is_print\<close> entry in
  \<^verbatim>\<open>**params\<close> the first such call raises \<^verbatim>\<open>TypeError\<close> in the dispatcher itself, and no
  job runs.
\<close>

definition dispatcher_keywords :: "string list" where
  "dispatcher_keywords = data_keywords @ option_keywords @ [''algorithm'']"

definition submit_keywords :: "classname \<Rightarrow> string list" where
  "submit_keywords c = (if c = SVC then svc_keywords else wrapper_keywords)"

definition submit_all :: "string list option \<Rightarrow> params \<Rightarrow> error + unit" where
  "submit_all algorithm params =
     (if list_ex (\<lambda>cj. keyword_twice (submit_keywords (fst cj)) params) (submitted algorithm)
      then Inl TypeError else Inr ())"

text \<open>
  The dispatcher returns the dictionary \<open>estimators\<close>; the comparison table is built from
  the collected scorecards and printed (the \<open>PrettyTable\<close> event). What the worker
  threads print is not part of its result.
\<close>

definition my_classification ::
  "env \<Rightarrow> (nat \<Rightarrow> nat) \<Rightarrow> DataFrame \<Rightarrow> Series \<Rightarrow> DataFrame option \<Rightarrow> Series option \<Rightarrow> opts
     \<Rightarrow> string list option \<Rightarrow> params \<Rightarrow> error + ((string \<times> estimator) list \<times> event list)" where
  "my_classification env finish_time x_train y_train x_test y_test ops algorithm params =
     bindE (call_keywords dispatcher_keywords params) (\<lambda>bound.
     bindE (submit_all algorithm params) (\<lambda>all_submitted.
     bindE (collect (as_completed finish_time
                       (processes env x_train y_train x_test y_test ops algorithm params))
              \<lparr> results = [], estimators = [], estimator_names = [] \<rparr>)
       (\<lambda>acc. let result_df = DataFrame_of (results acc) (estimator_names acc)
              in Inr (estimators acc, [PrettyTable result_df]))))"

section \<open>A small stand-in for the libraries\<close>

text \<open>
  To run the model on concrete inputs the libraries need concrete values. This stand-in
  has the capability table of the estimator library (which constructor takes which
  keyword, which handle has \<^verbatim>\<open>predict_proba\<close>: an SVC only with \<^verbatim>\<open>probability=True\<close>,
  an SGD classifier only with a probabilistic loss), a fit that rejects \<^verbatim>\<open>C=0\<close> and,
  for the logistic regression with its default solver, \<^verbatim>\<open>penalty='l1'\<close>, a search
  that rejects a grid with a keyword the class does not take, a threshold rule for the
  predictions and fixed metric values. Theorems about every library quantify over \<open>env\<close>.
\<close>

definition stub_accepts :: "classname \<Rightarrow> string \<Rightarrow> bool" where
  "stub_accepts c k =
     (k \<in> set (case c of
                 LogisticRegression \<Rightarrow> [''penalty'', ''C'', ''max_iter'', ''random_state'', ''n_jobs'']
               | KNeighborsClassifier \<Rightarrow> [''n_neighbors'', ''weights'', ''metric'', ''n_jobs'']
               | SVC \<Rightarrow> [''C'', ''kernel'', ''degree'', ''probability'', ''random_state'']
               | GaussianNB \<Rightarrow> [''var_smoothing'']
               | DecisionTreeClassifier \<Rightarrow> [''criterion'', ''max_depth'', ''random_state'']
               | SGDClassifier \<Rightarrow>
                   [''loss'', ''penalty'', ''alpha'', ''max_iter'', ''learning_rate'', ''eta0'',
                    ''n_jobs'', ''random_state'', ''early_stopping'']))"

definition stub_fit :: "classname \<Rightarrow> params \<Rightarrow> DataFrame \<Rightarrow> Series \<Rightarrow> error option" where
  "stub_fit c ps x y =
     (if c = LogisticRegression \<and> map_of ps ''penalty'' = Some (PStr ''l1'') then Some ValueError
      else if map_of ps ''C'' = Some (PInt 0) then Some ValueError
      else None)"

definition first_choice :: "pval \<Rightarrow> pval" where
  "first_choice v = (case v of PList (w # ws) \<Rightarrow> w | _ \<Rightarrow> v)"

definition stub_search_fit ::
  "classname \<Rightarrow> params \<Rightarrow> params \<Rightarrow> int \<Rightarrow> DataFrame \<Rightarrow> Series \<Rightarrow> error + search_result" where
  "stub_search_fit c args space folds x y =
     (if list_all (stub_accepts c) (map fst space)
      then Inr \<lparr> sr_best_params = map (\<lambda>kv. (fst kv, first_choice (snd kv))) space,
                 sr_cv_results = [] \<rparr>
      else Inl ValueError)"

definition stub_has_predict_proba :: "model \<Rightarrow> bool" where
  "stub_has_predict_proba m =
     (case m_class m of
        SVC \<Rightarrow> map_of (m_params m) ''probability'' = Some (PBool True)
      | SGDClassifier \<Rightarrow> map_of (m_params m) ''loss'' = Some (PStr ''modified_huber'')
      | _ \<Rightarrow> True)"

definition stub_label :: "model \<Rightarrow> real list \<Rightarrow> int" where
  "stub_label m row =
     (case classes_of m of [] \<Rightarrow> 0 | c # cs \<Rightarrow> if sum_list row \<le> 0 then c else last (c # cs))"

definition stub_predict :: "model \<Rightarrow> DataFrame \<Rightarrow> Series" where
  "stub_predict m x = map (stub_label m) x"

definition stub_predict_proba :: "model \<Rightarrow> DataFrame \<Rightarrow> real list list" where
  "stub_predict_proba m x =
     map (\<lambda>row. map (\<lambda>c. if c = stub_label m row then 1 else 0) (classes_of m)) x"

definition stub_env :: env where
  "stub_env =
     \<lparr> accepts = stub_accepts,
       fit = stub_fit,
       search_fit = stub_search_fit,
       has_predict_proba = stub_has_predict_proba,
       predict = stub_predict,
       predict_proba = stub_predict_proba,
       accuracy_score = (\<lambda>y_true y_pred. Fin 1),
       precision_score = (\<lambda>y_true y_pred average. Fin (if average = ''macro'' then 1 / 2 else 1)),
       recall_score =
         (\<lambda>y_true y_pred average.
            Fin (if average = ''macro'' then 1 / 2 else if average = ''micro'' then 1 / 4 else 1)),
       f1_score = (\<lambda>y_true y_pred average. Fin (if average = ''macro'' then 1 / 2 else 1)),
       roc_auc_score = (\<lambda>y_true y_score multi_class. Fin (3 / 4)),
       log_loss = (\<lambda>y_true y_score normalize. case y_score of Scores1D p \<Rightarrow> Fin 4 | Scores2D P \<Rightarrow> Fin 1),
       coef_report = (\<lambda>m x y sort_by. Inr []) \<rparr>"

definition stub_ops :: opts where
  "stub_ops =
     \<lparr> conf_matrix = True, cv = 0, hist = False, roc = False, pr = False, multiclass = None,
       learning_curve = False, report = False, figsize = (10, 5), dpi = 100, sort_opt = None,
       is_print = True \<rparr>"

section \<open>Notions used to state the properties\<close>

text \<open>
  The estimator a job outcome carries (none when the job raised or returned \<open>None\<close>),
  the estimators of a list of outcomes in the order of the list, and the name under
  which the dispatcher records an estimator.
\<close>

definition returned :: "error + (estimator option \<times> event list) \<Rightarrow> estimator list" where
  "returned p = (case p of Inl e \<Rightarrow> [] | Inr r \<Rightarrow> (case fst r of None \<Rightarrow> [] | Some estimator \<Rightarrow> [estimator]))"

definition succeeded :: "(error + (estimator option \<times> event list)) list \<Rightarrow> estimator list" where
  "succeeded outs = concat (map returned outs)"

definition est_name :: "estimator \<Rightarrow> string" where
  "est_name estimator = class_name (m_class (fitted estimator))"

text \<open>The scorecard the trainer stores: of the validation split when both its parts are given.\<close>

definition stored_scores ::
  "env \<Rightarrow> model \<Rightarrow> string option \<Rightarrow> DataFrame \<Rightarrow> Series \<Rightarrow> DataFrame option \<Rightarrow> Series option
     \<Rightarrow> error + (scorecard \<times> Series)" where
  "stored_scores env m mc x_train y_train x_test y_test =
     (case split_of x_test y_test of
        Some (x, y) \<Rightarrow> test_scores env m mc x y
      | None \<Rightarrow> train_scores env m mc x_train y_train)"

text \<open>
  Predictions that fit the labels of a split: one prediction per label, a probability
  matrix with at least two columns, and probabilities for a logistic regression.
\<close>

definition predictions_ok :: "env \<Rightarrow> model \<Rightarrow> DataFrame \<Rightarrow> Series \<Rightarrow> bool" where
  "predictions_ok env m x y_true =
     (length (predict env m x) = length y_true
      \<and> (if has_predict_proba env m
         then list_all (\<lambda>r. 1 < length r) (predict_proba env m x)
         else m_class m \<noteq> LogisticRegression))"

text \<open>
  Probability estimates as an estimator gives them: one row per sample, one column per
  class, each row a distribution.
\<close>

definition probabilities_ok :: "env \<Rightarrow> model \<Rightarrow> DataFrame \<Rightarrow> Series \<Rightarrow> bool" where
  "probabilities_ok env m x y_true =
     (if has_predict_proba env m
      then length (predict_proba env m x) = length y_true
           \<and> list_all (\<lambda>r. length r = length (classes_of m) \<and> list_all (\<lambda>q. 0 \<le> q) r
                             \<and> sum_list r = 1)
                 (predict_proba env m x)
      else True)"

text \<open>
  Label inputs that are well formed for a fitted handle, with at least one sample of
  every class among the true labels: the handle has a class, the predictions and the
  probabilities fit, the predicted labels are classes of the handle, and the true labels
  are exactly the classes of the handle.
\<close>

definition well_formed :: "env \<Rightarrow> model \<Rightarrow> DataFrame \<Rightarrow> Series \<Rightarrow> bool" where
  "well_formed env m x y_true =
     (classes_of m \<noteq> []
      \<and> predictions_ok env m x y_true
      \<and> probabilities_ok env m x y_true
      \<and> set (predict env m x) \<subseteq> set (classes_of m)
      \<and> set y_true = set (classes_of m))"

text \<open>
  The labels of a binary target with which the binary branch works: the label 1 is one
  of the two classes, as the library scores the label 1; and for a logistic regression
  the classes are 0 and 1, as the null model hands the label mean to the log-loss as a
  probability.
\<close>

definition binary_labels_ok :: "model \<Rightarrow> bool" where
  "binary_labels_ok m =
     (1 \<in> set (classes_of m)
      \<and> (if m_class m = LogisticRegression then classes_of m = [0, 1] else True))"

text \<open>
  The pseudo R2 in the words of the specification. The null model predicts, for every
  sample, the mean of the labels: the sum of the labels divided by their number. The
  pseudo R2 of a logistic regression is one minus the quotient of the unnormalized
  log-loss of the fitted model and the unnormalized log-loss of the null model; it is
  zero for every other class.
\<close>

definition spec_label_mean :: "Series \<Rightarrow> real" where
  "spec_label_mean y = sum_list (map real_of_int y) / real (length y)"

definition spec_null_model :: "Series \<Rightarrow> real list" where
  "spec_null_model y = replicate (length y) (spec_label_mean y)"

definition spec_pseudo_r2 :: "env \<Rightarrow> model \<Rightarrow> DataFrame \<Rightarrow> Series \<Rightarrow> npfloat" where
  "spec_pseudo_r2 env m x y =
     (if m_class m = LogisticRegression
      then np_sub (Fin 1)
             (np_div (log_loss env y (Scores2D (predict_proba env m x)) False)
                     (log_loss env y (Scores1D (spec_null_model y)) False))
      else Fin 0)"

text \<open>
  The names of the splits the reporter reports, with the row of descriptions, and the
  scorecards under these names: a split is reported when its features and its labels
  are given.
\<close>

definition reported_names ::
  "DataFrame option \<Rightarrow> Series option \<Rightarrow> DataFrame option \<Rightarrow> Series option \<Rightarrow> string list" where
  "reported_names x_train y_train x_test y_test =
     (if x_train \<noteq> None \<and> y_train \<noteq> None then [''train''] else [])
     @ (if x_test \<noteq> None \<and> y_test \<noteq> None then [''test''] else [])
     @ [''description'']"

definition scores_of ::
  "(DataFrame \<Rightarrow> Series \<Rightarrow> error + (scorecard \<times> Series)) \<Rightarrow> DataFrame option \<Rightarrow> Series option
     \<Rightarrow> scorecard list" where
  "scores_of f x y =
     (case x of
        None \<Rightarrow> []
      | Some a \<Rightarrow>
         (case y of
            None \<Rightarrow> []
          | Some b \<Rightarrow> (case f a b of Inl e \<Rightarrow> [] | Inr r \<Rightarrow> [fst r])))"

definition the_scores ::
  "env \<Rightarrow> model \<Rightarrow> string option \<Rightarrow> DataFrame option \<Rightarrow> Series option \<Rightarrow> DataFrame option
     \<Rightarrow> Series option \<Rightarrow> scorecard list" where
  "the_scores env m mc x_train y_train x_test y_test =
     scores_of (train_scores env m mc) x_train y_train
     @ scores_of (test_scores env m mc) x_test y_test
     @ [descriptions env m mc]"

text \<open>The tables among the events.\<close>

fun is_table :: "event \<Rightarrow> bool" where
  "is_table (PrettyTable t) = True"
| "is_table _ = False"

text \<open>The keys of a scorecard, by the kind of target and by what the handle offers.\<close>

definition binary_keys :: "bool \<Rightarrow> string list" where
  "binary_keys has_proba =
     [K_PSEUDO_R2, K_ACCURACY, K_PRECISION, K_RECALL, K_FALLOUT, K_TNR, K_F1]
     @ (if has_proba then [K_AUC] else [])"

definition multiclass_keys :: "bool \<Rightarrow> string option \<Rightarrow> string list" where
  "multiclass_keys has_proba mc =
     [K_ACCURACY, K_PRECISION, K_RECALL, K_F1]
     @ (if has_proba \<and> (mc = Some ''ovo'' \<or> mc = None) then [K_AUC_OVO] else [])
     @ (if has_proba \<and> (mc = Some ''ovr'' \<or> mc = None) then [K_AUC_OVR] else [])"

definition score_keys :: "env \<Rightarrow> model \<Rightarrow> string option \<Rightarrow> string list" where
  "score_keys env m mc =
     (if length (classes_of m) = 2 then binary_keys (has_predict_proba env m)
      else multiclass_keys (has_predict_proba env m) mc)"

text \<open>What the trainer attaches before it calls the reporter (lines 166 to 186).\<close>

definition attached :: "env \<Rightarrow> estimator \<Rightarrow> DataFrame \<Rightarrow> Series \<Rightarrow> DataFrame option \<Rightarrow> Series option \<Rightarrow> estimator" where
  "attached env e0 x_train y_train x_test y_test =
     (let m = fitted e0;
          x_first = (case x_test of Some xt \<Rightarrow> xt | None \<Rightarrow> x_train)
      in e0\<lparr> est_x := Some x_first,
              est_y := Some (case y_test of Some yt \<Rightarrow> yt | None \<Rightarrow> y_train),
              est_y_pred := Some (predict env m (if y_test \<noteq> None then x_first else x_train)),
              est_y_pred_proba :=
                (if has_predict_proba env m
                 then Some (predict_proba env m (if y_test \<noteq> None then x_first else x_train))
                 else est_y_pred_proba e0) \<rparr>)"

text \<open>The options and the parameters with which the wrapper of a class calls the trainer.\<close>

definition job_ops :: "classname \<Rightarrow> opts \<Rightarrow> opts" where
  "job_ops c ops =
     (case c of
        SVC \<Rightarrow> \<lparr> conf_matrix = conf_matrix ops, cv = cv ops, hist = True, roc = True, pr = True,
                 multiclass = None, learning_curve = learning_curve ops, report = False,
                 figsize = figsize ops, dpi = dpi ops, sort_opt = None, is_print = is_print ops \<rparr>
      | GaussianNB \<Rightarrow> ops\<lparr> conf_matrix := True \<rparr>
      | _ \<Rightarrow> ops)"

definition job_params :: "classname \<Rightarrow> opts \<Rightarrow> params \<Rightarrow> params" where
  "job_params c ops ps =
     (case c of
        SVC \<Rightarrow> grid_or SVC (cv ops)
                 (AList.delete ''report'' (AList.delete ''pr'' (AList.delete ''roc''
                    (AList.delete ''hist'' ps))))
      | _ \<Rightarrow> grid_or c (cv ops) ps)"

text \<open>Three fitted handles on four samples, for running the reporter on concrete inputs.\<close>

definition three_class_model :: model where
  "three_class_model =
     \<lparr> m_class = KNeighborsClassifier, m_params = [(''n_jobs'', PInt (- 1))],
       m_x = [[- 1], [1], [2], [- 3]], m_y = [0, 1, 2, 0] \<rparr>"

definition logistic_model :: model where
  "logistic_model =
     \<lparr> m_class = LogisticRegression,
       m_params = [(''n_jobs'', PInt (- 1)), (''random_state'', PInt 1234)],
       m_x = [[- 1], [1], [2], [- 3]], m_y = [0, 1, 1, 0] \<rparr>"

definition tree_model :: model where
  "tree_model =
     \<lparr> m_class = DecisionTreeClassifier, m_params = [(''random_state'', PInt 1234)],
       m_x = [[- 1], [1], [2], [- 3]], m_y = [0, 1, 1, 0] \<rparr>"

text \<open>
  A decision tree fitted on a target with the labels 2 and 3, and an SVC with its default
  parameters, which has no probabilities.
\<close>

definition tree_model_2_3 :: model where
  "tree_model_2_3 =
     \<lparr> m_class = DecisionTreeClassifier, m_params = [(''random_state'', PInt 1234)],
       m_x = [[- 1], [1], [2], [- 3]], m_y = [2, 3, 3, 2] \<rparr>"

definition svc_model :: model where
  "svc_model =
     \<lparr> m_class = SVC, m_params = [(''random_state'', PInt 1234)],
       m_x = [[- 1], [1], [2], [- 3]], m_y = [0, 1, 1, 0] \<rparr>"

text \<open>
  The outcomes of the six wrappers, each called as the dispatcher calls it (with
  \<^verbatim>\<open>is_print=False\<close>), in the order of the source.
\<close>

definition six_jobs ::
  "env \<Rightarrow> DataFrame \<Rightarrow> Series \<Rightarrow> DataFrame option \<Rightarrow> Series option \<Rightarrow> opts \<Rightarrow> params
     \<Rightarrow> (error + (estimator option \<times> event list)) list" where
  "six_jobs env x_train y_train x_test y_test ops params =
     [my_logistic_classification env x_train y_train x_test y_test (ops\<lparr> is_print := False \<rparr>) params,
      my_knn_classification env x_train y_train x_test y_test (ops\<lparr> is_print := False \<rparr>) params,
      my_svc_classification env x_train y_train x_test y_test (ops\<lparr> is_print := False \<rparr>) params,
      my_nb_classification env x_train y_train x_test y_test (ops\<lparr> is_print := False \<rparr>) params,
      my_dtree_classification env x_train y_train x_test y_test (ops\<lparr> is_print := False \<rparr>) params,
      my_sgd_classification env x_train y_train x_test y_test (ops\<lparr> is_print := False \<rparr>) params]"

text \<open>The keys of the scorecards a dispatcher result carries, by entry.\<close>

definition report_keys ::
  "error + ((string \<times> estimator) list \<times> event list) \<Rightarrow> (string \<times> string list) list" where
  "report_keys r =
     (case r of
        Inl e \<Rightarrow> []
      | Inr res \<Rightarrow>
          map (\<lambda>ne. (fst ne, case est_scores (snd ne) of None \<Rightarrow> [] | Some sc \<Rightarrow> map fst sc))
            (fst res))"

text \<open>The keys of the scorecard that the outcome of a job carries.\<close>

definition outcome_keys :: "error + (estimator option \<times> event list) \<Rightarrow> string list" where
  "outcome_keys p =
     (case p of
        Inl e \<Rightarrow> []
      | Inr r \<Rightarrow>
         (case fst r of
            None \<Rightarrow> []
          | Some estimator \<Rightarrow> (case est_scores estimator of None \<Rightarrow> [] | Some sc \<Rightarrow> map fst sc)))"

text \<open>The parameters with which the direct branch builds the estimator (lines 150 to 158).\<close>

definition direct_params :: "env \<Rightarrow> classname \<Rightarrow> params \<Rightarrow> params" where
  "direct_params env c ps =
     fst (set_or_report env c ''random_state'' (PInt 1234)
            (set_or_report env c ''n_jobs'' (PInt (- 1)) (ps, [])))"

lemmas keyword_defs = call_keywords_def keyword_twice_def data_keywords_def option_keywords_def
  trainer_keywords_def wrapper_keywords_def svc_keywords_def dispatcher_keywords_def
  submit_keywords_def submit_all_def bound_text_def

lemmas job_defs = my_logistic_classification_def my_knn_classification_def my_svc_classification_def
  my_nb_classification_def my_dtree_classification_def my_sgd_classification_def grid_or_def
  priv_my_classification_def fit_direct_def fit_with_search_def set_or_report_def set_if_accepted_def
  construct_def attach_and_score_def my_classification_report_def new_estimator_def bindE_def
  keyword_defs

lemmas dispatch_defs = my_classification_def processes_def submitted_def wanted_def as_completed_def

lemmas stub_defs = stub_env_def stub_accepts_def stub_fit_def stub_search_fit_def
  stub_has_predict_proba_def stub_label_def stub_predict_def stub_predict_proba_def stub_ops_def
  first_choice_def

lemmas report_defs = my_classification_result_def train_scores_def test_scores_def descriptions_def
  binary_result_def add_multiclass_auc_def multiclass_result_train_def multiclass_result_test_def
  displayed_scores_def matrix_shown_def curves_shown_def split_of_def run_split_def split_row_def calls_of_def pseudo_r2_def
  proba_of_def proba_1_of_def column_1_def null_model_def ones_like_def series_mean_def
  confusion_matrix_def count_pairs_def present_labels_def binary_average_check_def
  binary_auc_check_def log_loss_check_def log_loss_call_def n_samples_def n_columns_def
  classes_of_def int_true_divide_def np_div_def np_sub_def signed_zero_def signed_inf_def
  DataFrame_of_def first_seen_def drop_column_def transpose_table_def

section \<open>Basic facts\<close>

lemma bindE_Inl [simp]: "bindE (Inl e) f = Inl e"
  by (simp add: bindE_def)

lemma bindE_Inr [simp]: "bindE (Inr v) f = f v"
  by (simp add: bindE_def)

lemma bindE_eq_Inr: "bindE m f = Inr r \<longleftrightarrow> (\<exists>v. m = Inr v \<and> f v = Inr r)"
  by (cases m) simp_all

lemma np_div_neg_neg: "np_div (np_neg a) (np_neg b) = np_div a b"
  by (cases a; cases b) (auto simp: np_div_def signed_inf_def signed_zero_def)

lemma class_name_inj: "class_name a = class_name b \<Longrightarrow> a = b"
  by (cases a; cases b) simp_all

lemma update_fresh: "k \<notin> fst ` set al \<Longrightarrow> AList.update k v al = al @ [(k, v)]"
  by (induction al) auto

lemma distinct_concat_map:
  assumes "distinct (map f xs)"
    and "\<And>x. x \<in> set xs \<Longrightarrow> g x = [] \<or> g x = [f x]"
  shows "distinct (concat (map g xs))"
  using assms
proof (induction xs)
  case Nil
  then show ?case by simp
next
  case (Cons x xs)
  have rest: "distinct (concat (map g xs))" using Cons by simp
  have sub: "set (concat (map g xs)) \<subseteq> f ` set xs"
  proof
    fix n assume "n \<in> set (concat (map g xs))"
    then obtain z where z: "z \<in> set xs" "n \<in> set (g z)" by auto
    with Cons.prems(2) [of z] have "n = f z" by auto
    with z show "n \<in> f ` set xs" by blast
  qed
  from Cons.prems(1) have "f x \<notin> f ` set xs" by simp
  with sub have fresh: "f x \<notin> set (concat (map g xs))" by blast
  from Cons.prems(2) [of x] have "g x = [] \<or> g x = [f x]" by simp
  with rest fresh show ?case by auto
qed

lemma set_first_seen: "set (first_seen ks) = set ks"
  by (simp add: first_seen_def)

lemma class_name_SVC: "(class_name c = ''SVC'') = (c = SVC)"
  by (cases c) simp_all

lemma zero_by_zero: "int_true_divide 0 0 = NaN" "np_sub (Fin 1) NaN = NaN"
  by (simp_all add: int_true_divide_def np_div_def np_sub_def)

lemma two_by_two_labels:
  assumes "map (\<lambda>t. map (f t) ls) ls = [[a, b], [c, d]]"
  shows "\<exists>l0 l1. ls = [l0, l1] \<and> a = f l0 l0 \<and> b = f l0 l1"
proof -
  from assms have "length ls = 2" by (metis length_map length_Cons list.size(3) numeral_2_eq_2)
  then obtain l0 l1 where "ls = [l0, l1]"
    by (cases ls; cases "tl ls") auto
  with assms show ?thesis by auto
qed

section \<open>Facts about the metric reporter\<close>

lemma binary_result_keys:
  assumes "binary_result env y p r2 counts p1 = Inr sc"
  shows "map fst sc = binary_keys (p1 \<noteq> None)"
  using assms
  by (cases counts; cases p1) (auto simp: binary_result_def binary_keys_def Let_def bindE_eq_Inr)

lemma add_multiclass_auc_keys:
  "map fst (add_multiclass_auc env mc y P [(K_ACCURACY, a), (K_PRECISION, b), (K_RECALL, c), (K_F1, d)])
    = multiclass_keys (P \<noteq> None) mc"
  by (cases P) (auto simp: add_multiclass_auc_def multiclass_keys_def Let_def)

lemma proba_1_of_Inr:
  "proba_1_of (proba_of env m x) = Inr p1 \<Longrightarrow> (p1 \<noteq> None) = has_predict_proba env m"
  by (auto simp: proba_1_of_def proba_of_def bindE_eq_Inr split: if_splits)

lemma proba_of_None: "(proba_of env m x \<noteq> None) = has_predict_proba env m"
  by (simp add: proba_of_def)

lemma multiclass_result_train_keys:
  "map fst (multiclass_result_train env mc y p (proba_of env m x)) = multiclass_keys (has_predict_proba env m) mc"
  by (cases "has_predict_proba env m")
     (simp_all add: multiclass_result_train_def add_multiclass_auc_keys proba_of_def)

lemma multiclass_result_test_keys:
  "map fst (multiclass_result_test env mc y p (proba_of env m x)) = multiclass_keys (has_predict_proba env m) mc"
  by (cases "has_predict_proba env m")
     (simp_all add: multiclass_result_test_def add_multiclass_auc_keys proba_of_def)

lemma train_scores_binary:
  assumes "length (classes_of m) = 2" and "train_scores env m mc x y = Inr (sc, p)"
  shows "\<exists>p1 r2 cm counts.
           proba_1_of (proba_of env m x) = Inr p1
         \<and> pseudo_r2 env m True y (proba_of env m x) = Inr r2
         \<and> confusion_matrix y (predict env m x) = Inr cm
         \<and> unpack_2x2 cm = Inr counts
         \<and> binary_result env y (predict env m x) r2 counts p1 = Inr sc
         \<and> p = predict env m x"
  using assms by (auto simp: train_scores_def Let_def bindE_eq_Inr)

lemma train_scores_multiclass:
  assumes "length (classes_of m) \<noteq> 2" and "train_scores env m mc x y = Inr (sc, p)"
  shows "sc = multiclass_result_train env mc y (predict env m x) (proba_of env m x)
         \<and> p = predict env m x"
  using assms by (auto simp: train_scores_def Let_def bindE_eq_Inr)

lemma test_scores_binary:
  assumes "length (classes_of m) = 2" and "test_scores env m mc x y = Inr (sc, p)"
  shows "\<exists>p1 r2 cm counts.
           proba_1_of (proba_of env m x) = Inr p1
         \<and> pseudo_r2 env m True y (proba_of env m x) = Inr r2
         \<and> confusion_matrix y (predict env m x) = Inr cm
         \<and> unpack_2x2 cm = Inr counts
         \<and> binary_result env y (predict env m x) r2 counts p1 = Inr sc
         \<and> p = predict env m x"
  using assms by (auto simp: test_scores_def Let_def bindE_eq_Inr)

lemma test_scores_multiclass:
  assumes "length (classes_of m) \<noteq> 2" and "test_scores env m mc x y = Inr (sc, p)"
  shows "sc = multiclass_result_test env mc y (predict env m x) (proba_of env m x)
         \<and> p = predict env m x"
  using assms by (auto simp: test_scores_def Let_def bindE_eq_Inr)

lemma train_scores_keys:
  assumes "train_scores env m mc x y = Inr (sc, p)"
  shows "map fst sc = score_keys env m mc"
proof (cases "length (classes_of m) = 2")
  case True
  from train_scores_binary [OF True assms] obtain p1 r2 counts
    where p1: "proba_1_of (proba_of env m x) = Inr p1"
      and sc: "binary_result env y (predict env m x) r2 counts p1 = Inr sc" by blast
  have "map fst sc = binary_keys (has_predict_proba env m)"
    unfolding binary_result_keys [OF sc] proba_1_of_Inr [OF p1] ..
  with True show ?thesis by (simp add: score_keys_def)
next
  case False
  from train_scores_multiclass [OF False assms] show ?thesis
    using False
    by (simp add: multiclass_result_train_keys score_keys_def)
qed

lemma test_scores_keys:
  assumes "test_scores env m mc x y = Inr (sc, p)"
  shows "map fst sc = score_keys env m mc"
proof (cases "length (classes_of m) = 2")
  case True
  from test_scores_binary [OF True assms] obtain p1 r2 counts
    where p1: "proba_1_of (proba_of env m x) = Inr p1"
      and sc: "binary_result env y (predict env m x) r2 counts p1 = Inr sc" by blast
  have "map fst sc = binary_keys (has_predict_proba env m)"
    unfolding binary_result_keys [OF sc] proba_1_of_Inr [OF p1] ..
  with True show ?thesis by (simp add: score_keys_def)
next
  case False
  from test_scores_multiclass [OF False assms] show ?thesis
    using False
    by (simp add: multiclass_result_test_keys score_keys_def)
qed

lemma result_train_only:
  assumes "my_classification_result env e0 (Some x) (Some y) None None ops = Inr (e, ev)"
  shows "\<exists>sc p. train_scores env (fitted e0) (multiclass ops) x y = Inr (sc, p)
               \<and> e = e0\<lparr> est_scores := Some sc \<rparr>"
  using assms
  by (auto simp: my_classification_result_def run_split_def split_of_def split_row_def
        bindE_eq_Inr Let_def split: if_splits)

lemma result_with_test:
  assumes "my_classification_result env e0 (Some x) (Some y) (Some xt) (Some yt) ops = Inr (e, ev)"
  shows "\<exists>sc p. test_scores env (fitted e0) (multiclass ops) xt yt = Inr (sc, p)
               \<and> e = e0\<lparr> est_scores := Some sc \<rparr>"
  using assms
  by (auto simp: my_classification_result_def run_split_def split_of_def split_row_def
        bindE_eq_Inr Let_def split: if_splits)

lemma result_stored:
  assumes "(if x_test \<noteq> None \<and> y_test \<noteq> None
            then my_classification_result env e0 (Some x) (Some y) x_test y_test ops
            else my_classification_result env e0 (Some x) (Some y) None None ops) = Inr (e, ev)"
  shows "\<exists>sc p. stored_scores env (fitted e0) (multiclass ops) x y x_test y_test = Inr (sc, p)
               \<and> e = e0\<lparr> est_scores := Some sc \<rparr>"
proof (cases "x_test \<noteq> None \<and> y_test \<noteq> None")
  case True
  then obtain xt yt where t: "x_test = Some xt" "y_test = Some yt" by auto
  with assms have "my_classification_result env e0 (Some x) (Some y) (Some xt) (Some yt) ops = Inr (e, ev)"
    by simp
  from result_with_test [OF this] show ?thesis
    by (simp add: stored_scores_def split_of_def t)
next
  case False
  with assms have "my_classification_result env e0 (Some x) (Some y) None None ops = Inr (e, ev)"
    by (auto split: if_splits)
  from result_train_only [OF this] show ?thesis
    using False by (cases x_test; cases y_test) (simp_all add: stored_scores_def split_of_def)
qed

lemma DataFrame_of_empty: "DataFrame_of [] [] = \<lparr> t_index = [], t_columns = [], t_cells = [] \<rparr>"
  by (simp add: DataFrame_of_def first_seen_def)

lemma t_index_DataFrame_of: "t_index (DataFrame_of records names) = names"
  by (simp add: DataFrame_of_def Let_def)

lemma train_scores_pred:
  assumes "train_scores env m mc x y = Inr (sc, p)"
  shows "p = predict env m x"
  using train_scores_binary [OF _ assms] train_scores_multiclass [OF _ assms]
  by (cases "length (classes_of m) = 2") auto

lemma test_scores_pred:
  assumes "test_scores env m mc x y = Inr (sc, p)"
  shows "p = predict env m x"
  using test_scores_binary [OF _ assms] test_scores_multiclass [OF _ assms]
  by (cases "length (classes_of m) = 2") auto

lemma map_of_add_multiclass_auc:
  assumes "k \<noteq> K_AUC_OVO" and "k \<noteq> K_AUC_OVR"
  shows "map_of (add_multiclass_auc env mc y P result) k = map_of result k"
  using assms by (cases P) (simp_all add: add_multiclass_auc_def Let_def update_conv')

lemma multiclass_scores_total:
  assumes "length (classes_of m) \<noteq> 2" and "predictions_ok env m x y"
  shows "train_scores env m mc x y
           = Inr (multiclass_result_train env mc y (predict env m x) (proba_of env m x), predict env m x)"
    and "test_scores env m mc x y
           = Inr (multiclass_result_test env mc y (predict env m x) (proba_of env m x), predict env m x)"
  using assms
  by (auto simp: train_scores_def test_scores_def predictions_ok_def Let_def proba_of_def
        proba_1_of_def column_1_def pseudo_r2_def confusion_matrix_def split: if_splits)

text \<open>The null model of the code is the null model of the specification.\<close>

lemma real_of_int_sum_list: "real_of_int (sum_list y) = sum_list (map real_of_int y)"
  by (induction y) simp_all

lemma series_mean_is_label_mean: "series_mean y = spec_label_mean y"
  by (simp add: series_mean_def spec_label_mean_def real_of_int_sum_list)

lemma null_model_is_spec_null_model: "null_model y = spec_null_model y"
  by (simp add: null_model_def ones_like_def spec_null_model_def series_mean_is_label_mean
        comp_def map_replicate_const)

lemma class_name_logistic: "(class_name c = ''LogisticRegression'') = (c = LogisticRegression)"
  by (cases c) simp_all

lemma pseudo_r2_value:
  assumes "pseudo_r2 env m True y (proba_of env m x) = Inr r"
  shows "r = spec_pseudo_r2 env m x y"
proof (cases "m_class m = LogisticRegression")
  case True
  with assms have h: "has_predict_proba env m"
    by (auto simp: pseudo_r2_def proba_of_def split: if_splits)
  with True assms show ?thesis
    by (auto simp: pseudo_r2_def proba_of_def spec_pseudo_r2_def Let_def np_div_neg_neg
          log_loss_call_def bindE_eq_Inr null_model_is_spec_null_model)
next
  case False
  with assms show ?thesis by (simp add: pseudo_r2_def spec_pseudo_r2_def class_name_logistic)
qed

lemma binary_result_pseudo_r2:
  assumes "binary_result env y p r2 counts p1 = Inr sc"
  shows "map_of sc K_PSEUDO_R2 = Some (Num r2)"
  using assms
  by (cases counts; cases p1) (auto simp: binary_result_def Let_def update_conv' bindE_eq_Inr)

lemma no_table_in_calls: "filter is_table (calls_of env m d) = []"
  by (cases d) (auto simp: calls_of_def)

lemma no_table_in_matrix_shown:
  assumes "matrix_shown ops train test = Inr ev"
  shows "filter is_table ev = []"
  using assms by (auto simp: matrix_shown_def split: if_splits option.splits)

lemma no_table_in_curves_shown:
  assumes "curves_shown env m ops x_train y_train x_test y_test = Inr ev"
  shows "filter is_table ev = []"
  using assms by (auto simp: curves_shown_def Let_def split: if_splits)

lemma result_tables:
  assumes "my_classification_result env e0 x_train y_train x_test y_test ops = Inr (e, evs)"
  shows "\<exists>train test.
           run_split (train_scores env (fitted e0) (multiclass ops)) (split_of x_train y_train)
             = Inr train
         \<and> run_split (test_scores env (fitted e0) (multiclass ops)) (split_of x_test y_test)
             = Inr test
         \<and> filter is_table evs
             = (if is_print ops
                then [PrettyTable (transpose_table (displayed_scores (fitted e0)
                        (map snd (split_row ''train'' train @ split_row ''test'' test)
                           @ [descriptions env (fitted e0) (multiclass ops)])
                        (map fst (split_row ''train'' train @ split_row ''test'' test)
                           @ [''description''])))]
                else [])"
proof -
  let ?m = "fitted e0"
  from assms(1) obtain train test mev cev where
    tr: "run_split (train_scores env ?m (multiclass ops)) (split_of x_train y_train) = Inr train"
    and te: "run_split (test_scores env ?m (multiclass ops)) (split_of x_test y_test) = Inr test"
    and m: "matrix_shown ops train test = Inr mev"
    and c: "curves_shown env ?m ops x_train y_train x_test y_test = Inr cev"
    and evs: "evs = calls_of env ?m (split_of x_train y_train) @ calls_of env ?m (split_of x_test y_test)
               @ (if is_print ops
                  then [Print ''[scores]'',
                        PrettyTable (transpose_table (displayed_scores ?m
                          (map snd (split_row ''train'' train @ split_row ''test'' test
                                    @ [(''description'', descriptions env ?m (multiclass ops))]))
                          (map fst (split_row ''train'' train @ split_row ''test'' test
                                    @ [(''description'', descriptions env ?m (multiclass ops))]))))]
                  else [])
               @ mev @ cev"
    by (auto simp: my_classification_result_def Let_def bindE_eq_Inr split: if_splits)
  have "filter is_table evs
          = (if is_print ops
             then [PrettyTable (transpose_table (displayed_scores ?m
                     (map snd (split_row ''train'' train @ split_row ''test'' test)
                        @ [descriptions env ?m (multiclass ops)])
                     (map fst (split_row ''train'' train @ split_row ''test'' test)
                        @ [''description''])))]
             else [])"
    by (simp add: evs no_table_in_calls no_table_in_matrix_shown [OF m]
          no_table_in_curves_shown [OF c])
  with tr te show ?thesis by blast
qed

lemma t_index_transpose: "t_index (transpose_table t) = t_columns t"
  by (simp add: transpose_table_def)

lemma t_columns_transpose: "t_columns (transpose_table t) = t_index t"
  by (simp add: transpose_table_def)

lemma first_seen_repeat:
  assumes "distinct ks" and "set rest \<subseteq> set ks"
  shows "first_seen (ks @ rest) = ks"
proof -
  from assms(2) have "remdups (rev rest @ rev ks) = remdups (rev ks)"
    by (intro remdups_append) simp
  with assms(1) show ?thesis by (simp add: first_seen_def distinct_remdups_id)
qed

text \<open>Records that all have the keys \<open>ks\<close> make a frame with the columns \<open>ks\<close>.\<close>

lemma t_columns_same_keys:
  assumes "scores \<noteq> []" and "\<And>sc. sc \<in> set scores \<Longrightarrow> map fst sc = ks" and "distinct ks"
  shows "t_columns (DataFrame_of scores names) = ks"
proof -
  from assms(1) obtain sc rest where s: "scores = sc # rest" by (cases scores) auto
  with assms(2) have h: "map fst sc = ks" by simp
  have "set (concat (map (map fst) rest)) \<subseteq> set ks"
    using assms(2) s by auto
  from first_seen_repeat [OF assms(3) this] show ?thesis
    by (simp add: DataFrame_of_def Let_def s h)
qed

lemma displayed_scores_frame:
  assumes "scores \<noteq> []" and "\<And>sc. sc \<in> set scores \<Longrightarrow> map fst sc = ks" and "distinct ks"
  shows "t_columns (displayed_scores m scores names)
           = (if m_class m = LogisticRegression then ks else filter (\<lambda>k. k \<noteq> K_PSEUDO_R2) ks)"
    and "t_index (displayed_scores m scores names) = names"
proof -
  note cols = t_columns_same_keys [OF assms, of names]
  have idx: "t_index (DataFrame_of scores names) = names" by (simp add: DataFrame_of_def Let_def)
  have id: "K_PSEUDO_R2 \<notin> set ks \<Longrightarrow> filter (\<lambda>k. k \<noteq> K_PSEUDO_R2) ks = ks"
    by (auto simp: filter_id_conv)
  show "t_columns (displayed_scores m scores names)
           = (if m_class m = LogisticRegression then ks else filter (\<lambda>k. k \<noteq> K_PSEUDO_R2) ks)"
    using id by (simp add: displayed_scores_def Let_def cols class_name_logistic drop_column_def)
  show "t_index (displayed_scores m scores names) = names"
    by (simp add: displayed_scores_def Let_def idx drop_column_def)
qed

lemma descriptions_keys:
  "length (classes_of m) = 2 \<Longrightarrow> map fst (descriptions env m mc) = binary_keys (has_predict_proba env m)"
  by (simp add: descriptions_def binary_keys_def Let_def)

lemma scores_of_mem:
  assumes "sc \<in> set (scores_of f x y)"
  shows "\<exists>a b p. f a b = Inr (sc, p)"
proof (cases x)
  case None
  with assms show ?thesis by (simp add: scores_of_def)
next
  case a: (Some a)
  show ?thesis
  proof (cases y)
    case None
    with a assms show ?thesis by (simp add: scores_of_def)
  next
    case b: (Some b)
    show ?thesis
    proof (cases "f a b")
      case (Inl e)
      with a b assms show ?thesis by (simp add: scores_of_def)
    next
      case (Inr r)
      with a b assms have "sc = fst r" by (simp add: scores_of_def)
      with Inr have "f a b = Inr (sc, snd r)" by simp
      then show ?thesis by blast
    qed
  qed
qed

lemma run_split_None:
  assumes "run_split f d = Inr r"
  shows "(r = None) = (d = None)"
  using assms by (cases d) (auto simp: run_split_def bindE_eq_Inr)

lemma run_split_Some:
  assumes "run_split f (split_of x y) = Inr (Some (y', sc, p))"
  shows "\<exists>x'. x = Some x' \<and> y = Some y' \<and> f x' y' = Inr (sc, p)"
  using assms
  by (cases x; cases y) (auto simp: run_split_def split_of_def bindE_eq_Inr)

lemma split_of_None: "(split_of x y = None) = (\<not> (x \<noteq> None \<and> y \<noteq> None))"
  by (cases x; cases y) (simp_all add: split_of_def)

lemma binary_scores_pseudo_r2:
  assumes "length (classes_of m) = 2"
  shows "train_scores env m mc x y = Inr (sc, p)
           \<Longrightarrow> map_of sc K_PSEUDO_R2 = Some (Num (spec_pseudo_r2 env m x y))"
    and "test_scores env m mc x y = Inr (sc, p)
           \<Longrightarrow> map_of sc K_PSEUDO_R2 = Some (Num (spec_pseudo_r2 env m x y))"
proof -
  assume "train_scores env m mc x y = Inr (sc, p)"
  from train_scores_binary [OF assms this] show "map_of sc K_PSEUDO_R2 = Some (Num (spec_pseudo_r2 env m x y))"
    by (auto dest: binary_result_pseudo_r2 pseudo_r2_value)
next
  assume "test_scores env m mc x y = Inr (sc, p)"
  from test_scores_binary [OF assms this] show "map_of sc K_PSEUDO_R2 = Some (Num (spec_pseudo_r2 env m x y))"
    by (auto dest: binary_result_pseudo_r2 pseudo_r2_value)
qed

text \<open>
  The table the reporter prints for a binary target: its rows are the keys of the
  scorecards, without the pseudo R2 for every class but the logistic regression, its
  columns the splits reported and the descriptions. Without \<open>is_print\<close> it prints none.
\<close>

lemma displayed_table_binary:
  assumes "length (classes_of (fitted e0)) = 2"
    and "my_classification_result env e0 x_train y_train x_test y_test ops = Inr (e, evs)"
  shows "filter is_table evs
           = (if is_print ops
              then [PrettyTable (transpose_table (displayed_scores (fitted e0)
                      (the_scores env (fitted e0) (multiclass ops) x_train y_train x_test y_test)
                      (reported_names x_train y_train x_test y_test)))]
              else [])"
    and "t_index (transpose_table (displayed_scores (fitted e0)
           (the_scores env (fitted e0) (multiclass ops) x_train y_train x_test y_test)
           (reported_names x_train y_train x_test y_test)))
         = (if m_class (fitted e0) = LogisticRegression then [K_PSEUDO_R2] else [])
           @ [K_ACCURACY, K_PRECISION, K_RECALL, K_FALLOUT, K_TNR, K_F1]
           @ (if has_predict_proba env (fitted e0) then [K_AUC] else [])"
    and "t_columns (transpose_table (displayed_scores (fitted e0)
           (the_scores env (fitted e0) (multiclass ops) x_train y_train x_test y_test)
           (reported_names x_train y_train x_test y_test)))
         = reported_names x_train y_train x_test y_test"
proof -
  let ?m = "fitted e0" and ?mc = "multiclass ops"
  let ?ks = "binary_keys (has_predict_proba env ?m)"
  let ?scores = "the_scores env ?m ?mc x_train y_train x_test y_test"
  let ?names = "reported_names x_train y_train x_test y_test"
  from result_tables [OF assms(2)] obtain train test where
    tr: "run_split (train_scores env ?m ?mc) (split_of x_train y_train) = Inr train"
    and te: "run_split (test_scores env ?m ?mc) (split_of x_test y_test) = Inr test"
    and t: "filter is_table evs
             = (if is_print ops
                then [PrettyTable (transpose_table (displayed_scores ?m
                        (map snd (split_row ''train'' train @ split_row ''test'' test)
                           @ [descriptions env ?m ?mc])
                        (map fst (split_row ''train'' train @ split_row ''test'' test)
                           @ [''description''])))]
                else [])" by blast
  have names: "map fst (split_row ''train'' train @ split_row ''test'' test) @ [''description'']
                 = ?names"
    using run_split_None [OF tr] run_split_None [OF te]
    by (cases train; cases test)
       (auto simp: split_row_def reported_names_def split_of_None)
  have scores: "map snd (split_row ''train'' train @ split_row ''test'' test)
                  @ [descriptions env ?m ?mc] = ?scores"
  proof -
    have a: "map snd (split_row ''train'' train)
               = scores_of (train_scores env ?m ?mc) x_train y_train"
    proof (cases train)
      case None
      with run_split_None [OF tr] show ?thesis
        by (cases x_train; cases y_train) (simp_all add: split_row_def scores_of_def split_of_def)
    next
      case (Some r)
      obtain y sc p where r: "r = (y, sc, p)" by (cases r)
      from run_split_Some [OF tr [unfolded Some r]] obtain x where
        "x_train = Some x" "y_train = Some y" "train_scores env ?m ?mc x y = Inr (sc, p)" by blast
      then show ?thesis by (simp add: Some r split_row_def scores_of_def split_of_def)
    qed
    have b: "map snd (split_row ''test'' test)
               = scores_of (test_scores env ?m ?mc) x_test y_test"
    proof (cases test)
      case None
      with run_split_None [OF te] show ?thesis
        by (cases x_test; cases y_test) (simp_all add: split_row_def scores_of_def split_of_def)
    next
      case (Some r)
      obtain y sc p where r: "r = (y, sc, p)" by (cases r)
      from run_split_Some [OF te [unfolded Some r]] obtain x where
        "x_test = Some x" "y_test = Some y" "test_scores env ?m ?mc x y = Inr (sc, p)" by blast
      then show ?thesis by (simp add: Some r split_row_def scores_of_def split_of_def)
    qed
    show ?thesis by (simp add: a b the_scores_def)
  qed
  show "filter is_table evs
           = (if is_print ops
              then [PrettyTable (transpose_table (displayed_scores ?m ?scores ?names))]
              else [])"
    using t by (simp only: names scores)
  have ne: "?scores \<noteq> []" by (simp add: the_scores_def)
  have keys: "map fst sc = ?ks" if "sc \<in> set ?scores" for sc
  proof -
    from that consider
        "sc \<in> set (scores_of (train_scores env ?m ?mc) x_train y_train)"
      | "sc \<in> set (scores_of (test_scores env ?m ?mc) x_test y_test)"
      | "sc = descriptions env ?m ?mc"
      by (auto simp: the_scores_def)
    then show ?thesis
    proof cases
      case 1
      from scores_of_mem [OF this] obtain x y p where
        "train_scores env ?m ?mc x y = Inr (sc, p)" by blast
      from train_scores_keys [OF this] assms(1) show ?thesis by (simp add: score_keys_def)
    next
      case 2
      from scores_of_mem [OF this] obtain x y p where
        "test_scores env ?m ?mc x y = Inr (sc, p)" by blast
      from test_scores_keys [OF this] assms(1) show ?thesis by (simp add: score_keys_def)
    next
      case 3
      with assms(1) show ?thesis by (simp add: descriptions_keys)
    qed
  qed
  have d: "distinct ?ks" by (simp add: binary_keys_def)
  note f = displayed_scores_frame [OF ne keys d, of ?m ?names]
  show "t_index (transpose_table (displayed_scores ?m ?scores ?names))
         = (if m_class ?m = LogisticRegression then [K_PSEUDO_R2] else [])
           @ [K_ACCURACY, K_PRECISION, K_RECALL, K_FALLOUT, K_TNR, K_F1]
           @ (if has_predict_proba env ?m then [K_AUC] else [])"
    by (simp add: t_index_transpose f(1) binary_keys_def)
  show "t_columns (transpose_table (displayed_scores ?m ?scores ?names)) = ?names"
    by (simp add: t_columns_transpose f(2))
qed

lemma stored_scores_keys:
  assumes "stored_scores env m mc x y x_test y_test = Inr (sc, p)"
  shows "map fst sc = score_keys env m mc"
  using assms train_scores_keys test_scores_keys
  by (auto simp: stored_scores_def split: option.splits)

lemma length_classes_of: "length (classes_of m) = card (set (m_y m))"
  by (simp add: classes_of_def length_remdups_card_conv)

lemma multiclass_keys_auc:
  "(K_AUC_OVO \<in> set (multiclass_keys True mc)) = (mc = Some ''ovo'' \<or> mc = None)"
  "(K_AUC_OVR \<in> set (multiclass_keys True mc)) = (mc = Some ''ovr'' \<or> mc = None)"
  by (auto simp: multiclass_keys_def)

lemma multiclass_reporter_auc:
  assumes "2 < length (classes_of m)" and "has_predict_proba env m"
    and "train_scores env m mc x y = Inr (sc, p) \<or> test_scores env m mc x y = Inr (sc, p)"
  shows "(K_AUC_OVO \<in> fst ` set sc) = (mc = Some ''ovo'' \<or> mc = None)
       \<and> (K_AUC_OVR \<in> fst ` set sc) = (mc = Some ''ovr'' \<or> mc = None)"
proof -
  from assms(3) have "map fst sc = score_keys env m mc"
    using train_scores_keys test_scores_keys by blast
  with assms(1,2) have "map fst sc = multiclass_keys True mc" by (simp add: score_keys_def)
  then have "fst ` set sc = set (multiclass_keys True mc)" by (metis set_map)
  then show ?thesis by (simp only: multiclass_keys_auc)
qed

lemma sorted_classes_of: "sorted (classes_of m) \<and> distinct (classes_of m)"
  by (simp add: classes_of_def)

lemma labels_are_classes:
  assumes "set ls = set (classes_of m)"
  shows "sort (remdups ls) = classes_of m"
proof (rule sorted_distinct_set_unique)
  show "sorted (sort (remdups ls))" by simp
  show "distinct (sort (remdups ls))" by simp
  show "sorted (classes_of m)" "distinct (classes_of m)" using sorted_classes_of by simp_all
  show "set (sort (remdups ls)) = set (classes_of m)" using assms by simp
qed

lemma confusion_matrix_two_labels:
  assumes "length y = length p" and "sort (remdups (y @ p)) = [a, b]"
  shows "confusion_matrix y p
           = Inr [[count_pairs y p a a, count_pairs y p a b],
                  [count_pairs y p b a, count_pairs y p b b]]"
  using assms by (simp add: confusion_matrix_def Let_def)

lemma count_pairs_absent: "t \<notin> set y \<Longrightarrow> count_pairs y p t q = 0"
  by (auto simp: count_pairs_def filter_empty_conv dest: set_zip_leftD)

lemma unpack_2x2_Inr: "unpack_2x2 cm = Inr (a, b, c, d) \<Longrightarrow> cm = [[a, b], [c, d]]"
  by (erule unpack_2x2.elims) auto

lemma proba_1_of_ok:
  assumes "predictions_ok env m x y"
  shows "\<exists>p1. proba_1_of (proba_of env m x) = Inr p1"
  using assms by (auto simp: predictions_ok_def proba_1_of_def proba_of_def column_1_def)

lemma proba_1_of_length:
  assumes "proba_1_of (proba_of env m x) = Inr (Some p)"
  shows "length p = length (predict_proba env m x)"
  using assms
  by (auto simp: proba_1_of_def proba_of_def column_1_def bindE_eq_Inr split: if_splits)

lemma length_remdups_classes:
  assumes "set y = set (classes_of m)"
  shows "length (remdups y) = length (classes_of m)"
proof -
  have "length (remdups y) = card (set y)" by (simp add: length_remdups_card_conv)
  also have "\<dots> = card (set (classes_of m))" by (simp add: assms)
  also have "\<dots> = length (classes_of m)" using sorted_classes_of [of m] by (simp add: distinct_card)
  finally show ?thesis .
qed

text \<open>
  The two log-loss calls of the pseudo R2 accept well-formed inputs of a binary target.
\<close>

lemma pseudo_r2_ok:
  assumes "well_formed env m x y" and "length (classes_of m) = 2"
  shows "\<exists>r2. pseudo_r2 env m True y (proba_of env m x) = Inr r2"
proof (cases "m_class m = LogisticRegression")
  case True
  from assms(1) have ok: "predictions_ok env m x y" and pr: "probabilities_ok env m x y"
    and y: "set y = set (classes_of m)" by (simp_all add: well_formed_def)
  from ok True have h: "has_predict_proba env m" by (auto simp: predictions_ok_def split: if_splits)
  let ?P = "predict_proba env m x"
  from pr h have len: "length ?P = length y"
    and rows: "list_all (\<lambda>r. length r = length (classes_of m)) ?P"
    by (auto simp: probabilities_ok_def list_all_iff)
  from length_remdups_classes [OF y] assms(2) have two: "length (remdups y) = 2" by simp
  then have "y \<noteq> []" by auto
  with len obtain r rs where P: "?P = r # rs" by (cases ?P) auto
  with rows assms(2) have "length r = 2" by simp
  with P have cols: "n_columns (Scores2D ?P) = 2" by (simp add: n_columns_def)
  have a: "log_loss_check y (Scores2D ?P) = Inr ()"
    by (simp add: log_loss_check_def Let_def n_samples_def len two cols)
  have b: "log_loss_check y (Scores1D (null_model y)) = Inr ()"
    by (simp add: log_loss_check_def Let_def n_samples_def n_columns_def two null_model_def
          ones_like_def)
  from True h show ?thesis
    by (simp add: pseudo_r2_def proba_of_def log_loss_call_def a b Let_def)
next
  case False
  then show ?thesis by (simp add: pseudo_r2_def class_name_logistic)
qed

text \<open>
  When the binary branch returns: the labels present are the two classes, the label 1 is
  one of them, and with probabilities the true labels have both classes.
\<close>

lemma binary_scores_returned:
  assumes "classes_of m = [a, b]" and "length (predict env m x) = length y"
    and "set y \<union> set (predict env m x) = {a, b}" and "a = 1 \<or> b = 1"
    and "proba_1_of (proba_of env m x) = Inr p1"
    and "pseudo_r2 env m True y (proba_of env m x) = Inr r2"
    and "has_predict_proba env m
           \<Longrightarrow> length (remdups y) = 2 \<and> length (predict_proba env m x) = length y"
  shows "\<exists>sc. train_scores env m mc x y = Inr (sc, predict env m x)"
    and "\<exists>sc. test_scores env m mc x y = Inr (sc, predict env m x)"
proof -
  let ?p = "predict env m x"
  from assms(1) have bin: "length (classes_of m) = 2" by simp
  from assms(3) have "set (y @ ?p) = set (classes_of m)" by (simp add: assms(1))
  from labels_are_classes [OF this] have labels: "sort (remdups (y @ ?p)) = [a, b]"
    by (simp add: assms(1))
  note cm = confusion_matrix_two_labels [OF assms(2) [symmetric] labels]
  from assms(4) have avg: "binary_average_check y ?p = Inr ()"
    by (auto simp: binary_average_check_def present_labels_def labels assms(2) Let_def)
  have auc: "binary_auc_check y q = Inr ()" if "p1 = Some q" for q
  proof -
    from that assms(5) have h: "has_predict_proba env m"
      using proba_1_of_Inr [OF assms(5)] by simp
    from that assms(5) have "length q = length (predict_proba env m x)"
      by (simp add: proba_1_of_length)
    with assms(7) [OF h] show ?thesis by (simp add: binary_auc_check_def)
  qed
  have "\<exists>sc. binary_result env y ?p r2 counts p1 = Inr sc" for counts
    using auc by (cases counts; cases p1) (simp_all add: binary_result_def avg Let_def)
  then obtain sc where
    sc: "binary_result env y ?p r2
           (count_pairs y ?p a a, count_pairs y ?p a b, count_pairs y ?p b a, count_pairs y ?p b b) p1
         = Inr sc" by blast
  show "\<exists>sc. train_scores env m mc x y = Inr (sc, ?p)"
    by (simp add: train_scores_def Let_def bin assms(5,6) cm sc)
  show "\<exists>sc. test_scores env m mc x y = Inr (sc, ?p)"
    by (simp add: test_scores_def Let_def bin assms(5,6) cm sc)
qed

lemma well_formed_total:
  assumes "well_formed env m x y"
    and "length (classes_of m) = 2 \<Longrightarrow> binary_labels_ok m"
  shows "(\<exists>sc. train_scores env m mc x y = Inr (sc, predict env m x))
       \<and> (\<exists>sc. test_scores env m mc x y = Inr (sc, predict env m x))"
proof (cases "length (classes_of m) = 2")
  case True
  then obtain a b where ab: "classes_of m = [a, b]"
    by (cases "classes_of m"; cases "tl (classes_of m)") auto
  from assms(1) have ok: "predictions_ok env m x y" and pr: "probabilities_ok env m x y"
    and y: "set y = set (classes_of m)"
    and u: "set y \<union> set (predict env m x) = set (classes_of m)"
    by (auto simp: well_formed_def)
  from ok have len: "length (predict env m x) = length y" by (simp add: predictions_ok_def)
  from u have labels: "set y \<union> set (predict env m x) = {a, b}" by (simp add: ab)
  from assms(2) [OF True] have one: "a = 1 \<or> b = 1" by (auto simp: binary_labels_ok_def ab)
  from proba_1_of_ok [OF ok] obtain p1 where p1: "proba_1_of (proba_of env m x) = Inr p1" ..
  from pseudo_r2_ok [OF assms(1) True] obtain r2 where
    r2: "pseudo_r2 env m True y (proba_of env m x) = Inr r2" ..
  have auc: "length (remdups y) = 2 \<and> length (predict_proba env m x) = length y"
    if "has_predict_proba env m"
    using that pr length_remdups_classes [OF y] True by (simp add: probabilities_ok_def)
  from binary_scores_returned [OF ab len labels one p1 r2 auc] show ?thesis by blast
next
  case False
  from assms(1) have ok: "predictions_ok env m x y" by (simp add: well_formed_def)
  from multiclass_scores_total [OF False ok] show ?thesis by simp
qed

text \<open>
  A binary target without the label 1: the inputs are well formed, every class appears
  among the true labels, and the precision call raises.
\<close>

lemma binary_without_label_1_raises:
  assumes "well_formed env m x y" and "length (classes_of m) = 2" and "1 \<notin> set (classes_of m)"
  shows "train_scores env m mc x y = Inl ValueError"
    and "test_scores env m mc x y = Inl ValueError"
proof -
  let ?p = "predict env m x"
  from assms(2) obtain a b where ab: "classes_of m = [a, b]"
    by (cases "classes_of m"; cases "tl (classes_of m)") auto
  from assms(1) have ok: "predictions_ok env m x y"
    and u: "set y \<union> set ?p = set (classes_of m)"
    by (auto simp: well_formed_def)
  from ok have len: "length y = length ?p" by (simp add: predictions_ok_def)
  from u have "set (y @ ?p) = set (classes_of m)" by simp
  from labels_are_classes [OF this] have labels: "sort (remdups (y @ ?p)) = [a, b]"
    by (simp add: ab)
  note cm = confusion_matrix_two_labels [OF len labels]
  from assms(3) have avg: "binary_average_check y ?p = Inl ValueError"
    by (auto simp: binary_average_check_def present_labels_def labels len ab Let_def)
  from proba_1_of_ok [OF ok] obtain p1 where p1: "proba_1_of (proba_of env m x) = Inr p1" ..
  from pseudo_r2_ok [OF assms(1,2)] obtain r2 where
    r2: "pseudo_r2 env m True y (proba_of env m x) = Inr r2" ..
  have br: "binary_result env y ?p r2 counts p1 = Inl ValueError" for counts
    by (cases counts) (simp add: binary_result_def avg)
  show "train_scores env m mc x y = Inl ValueError"
    by (simp add: train_scores_def Let_def assms(2) p1 r2 cm br)
  show "test_scores env m mc x y = Inl ValueError"
    by (simp add: test_scores_def Let_def assms(2) p1 r2 cm br)
qed

text \<open>
  A handle without probabilities that is not a logistic regression: the binary branch
  returns also when the true labels lack a class, as long as the predictions have it.
\<close>

lemma binary_scores_without_probabilities:
  assumes "classes_of m = [a, b]" and "length (predict env m x) = length y"
    and "set y \<union> set (predict env m x) = {a, b}" and "a = 1 \<or> b = 1"
    and "\<not> has_predict_proba env m" and "m_class m \<noteq> LogisticRegression"
  shows "\<exists>sc. train_scores env m mc x y = Inr (sc, predict env m x)"
    and "\<exists>sc. test_scores env m mc x y = Inr (sc, predict env m x)"
proof -
  from assms(5) have p1: "proba_1_of (proba_of env m x) = Inr None"
    by (simp add: proba_1_of_def proba_of_def)
  from assms(6) have r2: "pseudo_r2 env m True y (proba_of env m x) = Inr (Fin 0)"
    by (simp add: pseudo_r2_def class_name_logistic)
  from assms(5) have auc: "length (remdups y) = 2 \<and> length (predict_proba env m x) = length y"
    if "has_predict_proba env m" using that by simp
  show "\<exists>sc. train_scores env m mc x y = Inr (sc, predict env m x)"
    by (rule binary_scores_returned (1) [OF assms(1-4) p1 r2 auc])
  show "\<exists>sc. test_scores env m mc x y = Inr (sc, predict env m x)"
    by (rule binary_scores_returned (2) [OF assms(1-4) p1 r2 auc])
qed

lemma binary_result_fallout:
  assumes "binary_result env y p r2 (TN, FP, FN, TP) p1 = Inr sc"
  shows "map_of sc K_FALLOUT = Some (Num (int_true_divide FP (TN + FP)))"
    and "map_of sc K_TNR = Some (Num (np_sub (Fin 1) (int_true_divide FP (TN + FP))))"
  using assms
  by (cases p1; auto simp: binary_result_def Let_def update_conv' bindE_eq_Inr)+

lemma confusion_matrix_Inr:
  assumes "confusion_matrix y p = Inr cm"
  shows "cm = map (\<lambda>t. map (\<lambda>q. count_pairs y p t q) (sort (remdups (y @ p)))) (sort (remdups (y @ p)))"
  using assms by (auto simp: confusion_matrix_def Let_def split: if_splits)

lemma empty_negative_class_counts:
  assumes "length (classes_of m) = 2"
    and "hd (classes_of m) \<notin> set y"
    and "set y \<subseteq> set (classes_of m)" and "set p \<subseteq> set (classes_of m)"
    and "confusion_matrix y p = Inr cm" and "unpack_2x2 cm = Inr (TN, FP, FN, TP)"
  shows "TN = 0 \<and> FP = 0"
proof -
  let ?ls = "sort (remdups (y @ p))"
  from assms(1) obtain neg pos where cl: "classes_of m = [neg, pos]"
    by (cases "classes_of m"; cases "tl (classes_of m)") auto
  from confusion_matrix_Inr [OF assms(5)] unpack_2x2_Inr [OF assms(6)]
  have "map (\<lambda>t. map (count_pairs y p t) ?ls) ?ls = [[TN, FP], [FN, TP]]" by simp
  from two_by_two_labels [OF this] obtain l0 l1 where
    ls: "?ls = [l0, l1]" and c: "TN = count_pairs y p l0 l0" "FP = count_pairs y p l0 l1" by blast
  have d: "distinct ?ls" and s: "sorted ?ls" by simp_all
  from d ls have ne: "l0 \<noteq> l1" by simp
  have "set ?ls \<subseteq> {neg, pos}" using assms(3,4) cl by auto
  with ls ne have "set ?ls = {neg, pos}" by auto
  then have "set ?ls = set (classes_of m)" by (simp add: cl)
  with s d sorted_classes_of [of m] have "?ls = classes_of m"
    by (intro sorted_distinct_set_unique) simp_all
  with ls cl have "l0 = neg" by simp
  with assms(2) cl have "l0 \<notin> set y" by simp
  with c show ?thesis by (simp add: count_pairs_absent)
qed

lemma empty_negative_class_NaN:
  assumes "length (classes_of m) = 2"
    and "hd (classes_of m) \<notin> set y"
    and "set y \<subseteq> set (classes_of m)" and "set (predict env m x) \<subseteq> set (classes_of m)"
    and "train_scores env m mc x y = Inr (sc, p) \<or> test_scores env m mc x y = Inr (sc, p)"
  shows "map_of sc K_FALLOUT = Some (Num NaN) \<and> map_of sc K_TNR = Some (Num NaN)"
proof -
  from assms(5) train_scores_binary [OF assms(1)] test_scores_binary [OF assms(1)]
  obtain p1 r2 cm counts where
    cm: "confusion_matrix y (predict env m x) = Inr cm" and u: "unpack_2x2 cm = Inr counts"
    and sc: "binary_result env y (predict env m x) r2 counts p1 = Inr sc"
    by blast
  obtain TN FP FN TP where counts: "counts = (TN, FP, FN, TP)" by (cases counts)
  from empty_negative_class_counts [OF assms(1-4) cm u [unfolded counts]]
  have "TN = 0 \<and> FP = 0" .
  with binary_result_fallout [OF sc [unfolded counts]] show ?thesis
    by (simp add: zero_by_zero)
qed

text \<open>
  With a sample of the negative class among the true labels the two entries are numbers:
  the false positives among the actual negatives, and one minus that.
\<close>

lemma int_true_divide_pos: "0 < n \<Longrightarrow> int_true_divide k n = Fin (real k / real n)"
  by (simp add: int_true_divide_def np_div_def signed_zero_def)

lemma count_pairs_row:
  assumes "length y = length p" and "set p \<subseteq> {a, b}" and "a \<noteq> b"
  shows "count_pairs y p a a + count_pairs y p a b = length (filter (\<lambda>v. v = a) y)"
  using assms(1,2)
proof (induction y p rule: list_induct2)
  case Nil
  then show ?case by (simp add: count_pairs_def)
next
  case (Cons v y q p)
  then have "count_pairs y p a a + count_pairs y p a b = length (filter (\<lambda>v. v = a) y)" by simp
  moreover from Cons.prems have "q = a \<or> q = b" by simp
  ultimately show ?case using assms(3) by (auto simp: count_pairs_def)
qed

lemma binary_counts:
  assumes "classes_of m = [a, b]"
    and "set y \<subseteq> {a, b}" and "set p \<subseteq> {a, b}"
    and "confusion_matrix y p = Inr cm" and "unpack_2x2 cm = Inr (TN, FP, FN, TP)"
  shows "TN = count_pairs y p a a \<and> FP = count_pairs y p a b \<and> length y = length p"
proof -
  let ?ls = "sort (remdups (y @ p))"
  from assms(4) have len: "length y = length p"
    by (auto simp: confusion_matrix_def split: if_splits)
  from confusion_matrix_Inr [OF assms(4)] unpack_2x2_Inr [OF assms(5)]
  have "map (\<lambda>t. map (count_pairs y p t) ?ls) ?ls = [[TN, FP], [FN, TP]]" by simp
  from two_by_two_labels [OF this] obtain l0 l1 where
    ls: "?ls = [l0, l1]" and c: "TN = count_pairs y p l0 l0" "FP = count_pairs y p l0 l1" by blast
  have d: "distinct ?ls" and s: "sorted ?ls" by simp_all
  from d ls have ne: "l0 \<noteq> l1" by simp
  have "set ?ls \<subseteq> {a, b}" using assms(2,3) by auto
  with ls ne have "set ?ls = {a, b}" by auto
  then have "set ?ls = set (classes_of m)" by (simp add: assms(1))
  with s d sorted_classes_of [of m] have "?ls = classes_of m"
    by (intro sorted_distinct_set_unique) simp_all
  with ls assms(1) have "l0 = a" "l1 = b" by simp_all
  with c len show ?thesis by simp
qed

lemma negative_class_fallout:
  assumes "classes_of m = [a, b]" and "a \<in> set y"
    and "set y \<subseteq> {a, b}" and "set (predict env m x) \<subseteq> {a, b}"
    and "train_scores env m mc x y = Inr (sc, p) \<or> test_scores env m mc x y = Inr (sc, p)"
  shows "map_of sc K_FALLOUT
           = Some (Num (Fin (real (count_pairs y (predict env m x) a b)
                             / real (length (filter (\<lambda>v. v = a) y)))))"
    and "map_of sc K_TNR
           = Some (Num (Fin (1 - real (count_pairs y (predict env m x) a b)
                                 / real (length (filter (\<lambda>v. v = a) y)))))"
proof -
  let ?p = "predict env m x"
  from assms(1) have bin: "length (classes_of m) = 2" by simp
  from assms(5) train_scores_binary [OF bin] test_scores_binary [OF bin]
  obtain p1 r2 cm counts where
    cm: "confusion_matrix y ?p = Inr cm" and u: "unpack_2x2 cm = Inr counts"
    and sc: "binary_result env y ?p r2 counts p1 = Inr sc"
    by blast
  obtain TN FP FN TP where counts: "counts = (TN, FP, FN, TP)" by (cases counts)
  from binary_counts [OF assms(1,3,4) cm u [unfolded counts]]
  have tn: "TN = count_pairs y ?p a a" and fp: "FP = count_pairs y ?p a b"
    and len: "length y = length ?p" by simp_all
  from sorted_classes_of [of m] assms(1) have ab: "a \<noteq> b" by simp
  from count_pairs_row [OF len assms(4) ab] tn fp
  have row: "TN + FP = length (filter (\<lambda>v. v = a) y)" by simp
  from assms(2) have "filter (\<lambda>v. v = a) y \<noteq> []" by (simp add: filter_empty_conv)
  then have pos: "0 < length (filter (\<lambda>v. v = a) y)" by simp
  have q: "int_true_divide FP (TN + FP)
             = Fin (real (count_pairs y ?p a b) / real (length (filter (\<lambda>v. v = a) y)))"
    unfolding row by (simp add: int_true_divide_pos [OF pos] fp)
  note f = binary_result_fallout [OF sc [unfolded counts]]
  show "map_of sc K_FALLOUT
           = Some (Num (Fin (real (count_pairs y ?p a b)
                             / real (length (filter (\<lambda>v. v = a) y)))))"
    using f(1) by (simp only: q)
  show "map_of sc K_TNR
           = Some (Num (Fin (1 - real (count_pairs y ?p a b)
                                 / real (length (filter (\<lambda>v. v = a) y)))))"
    using f(2) by (simp only: q) (simp add: np_sub_def)
qed

text \<open>
  When neither the true labels nor the predictions contain the negative class, the
  confusion matrix has one row, and unpacking it raises.
\<close>

lemma single_label_raises:
  "test_scores stub_env tree_model None [[1], [2]] [1, 1] = Inl ValueError"
  by (simp add: tree_model_def stub_defs report_defs Let_def)

text \<open>
  For a binary logistic regression and true labels of a single class the log-loss of the
  pseudo R2 raises: there is no scorecard.
\<close>

lemma single_label_logistic_raises:
  assumes "m_class m = LogisticRegression" and "length (classes_of m) = 2"
    and "predictions_ok env m x y" and "length (remdups y) < 2"
  shows "train_scores env m mc x y = Inl ValueError"
    and "test_scores env m mc x y = Inl ValueError"
proof -
  from assms(1,3) have h: "has_predict_proba env m"
    by (auto simp: predictions_ok_def split: if_splits)
  from proba_1_of_ok [OF assms(3)] obtain p1 where p1: "proba_1_of (proba_of env m x) = Inr p1" ..
  from assms(4) have "log_loss_check y (Scores2D (predict_proba env m x)) = Inl ValueError"
    by (simp add: log_loss_check_def Let_def)
  with assms(1) h have r2: "pseudo_r2 env m True y (proba_of env m x) = Inl ValueError"
    by (simp add: pseudo_r2_def proba_of_def log_loss_call_def)
  show "train_scores env m mc x y = Inl ValueError"
    by (simp add: train_scores_def Let_def assms(2) p1 r2)
  show "test_scores env m mc x y = Inl ValueError"
    by (simp add: test_scores_def Let_def assms(2) p1 r2)
qed

lemma single_label_logistic_instance:
  "test_scores stub_env logistic_model None [[1], [- 2]] [1, 1] = Inl ValueError"
  by (simp add: logistic_model_def stub_defs report_defs Let_def)

section \<open>Facts about the trainer\<close>

lemma attach_and_score_Inr:
  assumes "attach_and_score env e0 x y x_test y_test ops = Inr (e, ev)"
  shows "\<exists>sc p. stored_scores env (fitted e0) (multiclass ops) x y x_test y_test = Inr (sc, p)
               \<and> e = (attached env e0 x y x_test y_test)\<lparr> est_scores := Some sc \<rparr>
               \<and> CallPredict (case x_test of Some xt \<Rightarrow> xt | None \<Rightarrow> x) \<in> set ev"
proof -
  let ?e1 = "attached env e0 x y x_test y_test"
  from assms obtain e' shown where
    r: "(if x_test \<noteq> None \<and> y_test \<noteq> None
         then my_classification_result env ?e1 (Some x) (Some y) x_test y_test ops
         else my_classification_result env ?e1 (Some x) (Some y) None None ops) = Inr (e', shown)"
    and e: "e = e'" and ev: "CallPredict (case x_test of Some xt \<Rightarrow> xt | None \<Rightarrow> x) \<in> set ev"
    by (auto simp: attach_and_score_def attached_def Let_def bindE_eq_Inr split: if_splits)
  have f: "fitted ?e1 = fitted e0" by (simp add: attached_def Let_def)
  from result_stored [OF r] f e ev show ?thesis by auto
qed

lemma fit_with_search_Some:
  assumes "fit_with_search env c x y ops ps = Inr (Some e0, ev)"
  shows "m_class (fitted e0) = c \<and> m_x (fitted e0) = x \<and> m_y (fitted e0) = y
         \<and> est_y_pred_proba e0 = None"
  using assms
  by (auto simp: fit_with_search_def Let_def bindE_eq_Inr new_estimator_def split: sum.splits)

lemma fit_direct_Inr:
  assumes "fit_direct env c x y ps = Inr (r, ev)"
  shows "\<exists>e0. r = Some e0 \<and> m_class (fitted e0) = c \<and> m_x (fitted e0) = x \<and> m_y (fitted e0) = y
         \<and> est_y_pred_proba e0 = None"
  using assms
  by (auto simp: fit_direct_def Let_def bindE_eq_Inr new_estimator_def split: option.splits)

lemma set_or_report_accepted:
  assumes "list_all (accepts env c) (map fst (fst st))"
  shows "list_all (accepts env c) (map fst (fst (set_or_report env c k v st)))"
proof (cases "accepts env c k")
  case True
  have "set (map fst (AList.update k v (fst st))) = {k} \<union> set (map fst (fst st))"
    using AList.dom_update [of k v "fst st"] by simp
  with True assms show ?thesis
    by (simp add: set_or_report_def list_all_iff del: set_map)
next
  case False
  with assms show ?thesis by (simp add: set_or_report_def)
qed

lemma direct_params_accepted:
  assumes "list_all (accepts env c) (map fst ps)"
  shows "list_all (accepts env c) (map fst (direct_params env c ps))"
  unfolding direct_params_def
  by (intro set_or_report_accepted) (simp add: assms)

text \<open>
  In the direct branch a fit that raises leaves the trainer: whatever the library, the
  job's outcome is the exception.
\<close>

lemma fit_direct_raises:
  assumes "list_all (accepts env c) (map fst ps)"
    and "fit env c (direct_params env c ps) x y = Some e"
  shows "fit_direct env c x y ps = Inl e"
proof -
  from direct_params_accepted [OF assms(1)]
  have "construct env c (direct_params env c ps) = Inr ()" by (simp add: construct_def)
  with assms(2) show ?thesis
    by (simp add: fit_direct_def Let_def direct_params_def [symmetric])
qed

lemma job_Some:
  assumes "priv_my_classification env c x y x_test y_test ops ps = Inr (Some e, ev)"
  shows "m_class (fitted e) = c \<and> m_x (fitted e) = x \<and> m_y (fitted e) = y
       \<and> (\<exists>sc p. stored_scores env (fitted e) (multiclass ops) x y x_test y_test = Inr (sc, p)
                 \<and> est_scores e = Some sc)
       \<and> est_y_pred e
           = Some (predict env (fitted e)
                     (if y_test \<noteq> None then (case x_test of Some xt \<Rightarrow> xt | None \<Rightarrow> x) else x))
       \<and> est_y_pred_proba e
           = (if has_predict_proba env (fitted e)
              then Some (predict_proba env (fitted e)
                     (if y_test \<noteq> None then (case x_test of Some xt \<Rightarrow> xt | None \<Rightarrow> x) else x))
              else None)
       \<and> CallPredict (case x_test of Some xt \<Rightarrow> xt | None \<Rightarrow> x) \<in> set ev"
proof -
  from assms obtain e0 ev0 shown where
    f: "(if cv ops > 0 then fit_with_search env c x y ops ps else fit_direct env c x y ps)
          = Inr (Some e0, ev0)"
    and a: "attach_and_score env e0 x y x_test y_test ops = Inr (e, shown)"
    and ev: "ev = ev0 @ shown"
    by (auto simp: priv_my_classification_def bindE_eq_Inr split: option.splits)
  from f have m: "m_class (fitted e0) = c \<and> m_x (fitted e0) = x \<and> m_y (fitted e0) = y
         \<and> est_y_pred_proba e0 = None"
  proof (cases "cv ops > 0")
    case True
    with f show ?thesis by (simp add: fit_with_search_Some)
  next
    case False
    with f have "fit_direct env c x y ps = Inr (Some e0, ev0)" by simp
    from fit_direct_Inr [OF this] show ?thesis by simp
  qed
  from attach_and_score_Inr [OF a] obtain sc p where
    s: "stored_scores env (fitted e0) (multiclass ops) x y x_test y_test = Inr (sc, p)"
    and e: "e = (attached env e0 x y x_test y_test)\<lparr> est_scores := Some sc \<rparr>"
    and c: "CallPredict (case x_test of Some xt \<Rightarrow> xt | None \<Rightarrow> x) \<in> set shown" by blast
  have fe: "fitted e = fitted e0" by (simp add: e attached_def Let_def)
  show ?thesis
    using m s c by (simp add: fe ev) (simp add: e attached_def Let_def)
qed

text \<open>Without \<open>is_print\<close> the trainer hands no table to the rendering collaborator.\<close>

lemma fit_direct_no_table:
  assumes "fit_direct env c x y ps = Inr (r, ev)"
  shows "filter is_table ev = []"
  using assms
  by (auto simp: fit_direct_def Let_def bindE_eq_Inr set_or_report_def
           split: option.splits if_splits)

lemma fit_with_search_no_table:
  assumes "fit_with_search env c x y ops ps = Inr (r, ev)"
  shows "filter is_table ev = []"
  using assms
  by (auto simp: fit_with_search_def Let_def bindE_eq_Inr set_if_accepted_def
           split: sum.splits if_splits)

lemma result_no_table:
  assumes "my_classification_result env e0 x_train y_train x_test y_test ops = Inr (e, evs)"
    and "\<not> is_print ops"
  shows "filter is_table evs = []"
  using result_tables [OF assms(1)] assms(2) by auto

lemma attach_and_score_no_table:
  assumes "attach_and_score env e0 x y x_test y_test ops = Inr (e, ev)" and "\<not> is_print ops"
  shows "filter is_table ev = []"
proof -
  let ?e1 = "attached env e0 x y x_test y_test"
  from assms obtain e' shown where
    r: "(if x_test \<noteq> None \<and> y_test \<noteq> None
         then my_classification_result env ?e1 (Some x) (Some y) x_test y_test ops
         else my_classification_result env ?e1 (Some x) (Some y) None None ops) = Inr (e', shown)"
    and ev: "filter is_table ev = filter is_table shown"
    by (auto simp: attach_and_score_def attached_def Let_def bindE_eq_Inr split: if_splits)
  from r assms(2) have "filter is_table shown = []"
    by (auto simp: result_no_table split: if_splits)
  with ev show ?thesis by simp
qed

lemma quiet_job_no_table:
  assumes "priv_my_classification env c x y x_test y_test ops ps = Inr (r, ev)"
    and "\<not> is_print ops"
  shows "filter is_table ev = []"
proof -
  from assms(1) obtain fr ev0 where
    f: "(if cv ops > 0 then fit_with_search env c x y ops ps else fit_direct env c x y ps)
          = Inr (fr, ev0)"
    and rest: "(case fr of
                  None \<Rightarrow> Inr (None, ev0)
                | Some estimator \<Rightarrow>
                    bindE (attach_and_score env estimator x y x_test y_test ops)
                      (\<lambda>(estimator, shown). Inr (Some estimator, ev0 @ shown))) = Inr (r, ev)"
    by (auto simp: priv_my_classification_def bindE_eq_Inr)
  from f have t0: "filter is_table ev0 = []"
    by (auto simp: fit_with_search_no_table fit_direct_no_table split: if_splits)
  show ?thesis
  proof (cases fr)
    case None
    with rest t0 show ?thesis by simp
  next
    case (Some e0)
    with rest obtain e shown where
      a: "attach_and_score env e0 x y x_test y_test ops = Inr (e, shown)" and ev: "ev = ev0 @ shown"
      by (auto simp: bindE_eq_Inr)
    from attach_and_score_no_table [OF a assms(2)] t0 ev show ?thesis by simp
  qed
qed

lemma job_direct_not_None:
  assumes "cv ops \<le> 0" and "priv_my_classification env c x y x_test y_test ops ps = Inr (r, ev)"
  shows "r \<noteq> None"
  using assms
  by (auto simp: priv_my_classification_def bindE_eq_Inr split: option.splits dest: fit_direct_Inr)

section \<open>Facts about the dispatcher\<close>

lemma submitted_cases:
  assumes "(c, j) \<in> set (submitted algorithm)"
  shows "(c, j) \<in> {(LogisticRegression, my_logistic_classification),
                   (KNeighborsClassifier, my_knn_classification),
                   (SVC, my_svc_classification),
                   (GaussianNB, my_nb_classification),
                   (DecisionTreeClassifier, my_dtree_classification),
                   (SGDClassifier, my_sgd_classification)}"
  using assms by (auto simp: submitted_def split: if_splits)

lemma keyword_twice_iff: "keyword_twice names ps \<longleftrightarrow> (\<exists>k \<in> fst ` set ps. k \<in> set names)"
  by (auto simp: keyword_twice_def list_ex_iff)

lemma call_keywords_Inr: "call_keywords names ps = Inr u \<longleftrightarrow> \<not> keyword_twice names ps"
  by (simp add: call_keywords_def)

lemma dispatcher_keys_unbound:
  assumes "\<not> keyword_twice dispatcher_keywords ps"
  shows "''multiclass'' \<notin> fst ` set ps" and "''sort'' \<notin> fst ` set ps"
  using assms
  by (auto simp: keyword_twice_iff dispatcher_keywords_def data_keywords_def option_keywords_def)

lemma keys_delete: "fst ` set (AList.delete k al) = fst ` set al - {k}"
  using AList.delete_keys [of k al] by (metis set_map set_removeAll)

lemma svc_params_unbound:
  assumes "k \<notin> fst ` set ps" and "k = ''multiclass'' \<or> k = ''sort''"
  shows "k \<notin> fst ` set (grid_or SVC folds
           (AList.delete ''report'' (AList.delete ''pr'' (AList.delete ''roc''
              (AList.delete ''hist'' ps)))))"
  using assms by (auto simp: grid_or_def default_grid_def keys_delete)

lemma bound_text_None: "k \<notin> fst ` set ps \<Longrightarrow> bound_text ps k = None"
  by (simp add: bound_text_def map_of_eq_None_iff [THEN iffD2])

text \<open>
  A job the dispatcher submits, once the submit call is accepted, is the trainer run
  with the options and the parameters of the wrapper.
\<close>

lemma submitted_job:
  assumes "(c, j) \<in> set (submitted algorithm)"
    and "\<not> keyword_twice (submit_keywords c) ps"
    and "''multiclass'' \<notin> fst ` set ps" and "''sort'' \<notin> fst ` set ps"
  shows "j env x y x_test y_test ops ps
           = priv_my_classification env c x y x_test y_test (job_ops c ops) (job_params c ops ps)"
proof (cases "c = SVC")
  case True
  let ?q = "grid_or SVC (cv ops)
              (AList.delete ''report'' (AList.delete ''pr'' (AList.delete ''roc''
                 (AList.delete ''hist'' ps))))"
  from True assms(1) submitted_cases [OF assms(1)] have j: "j = my_svc_classification" by auto
  from assms(3,4) have u: "''multiclass'' \<notin> fst ` set ?q" "''sort'' \<notin> fst ` set ?q"
    by (simp_all add: svc_params_unbound)
  from u have d: "AList.delete ''sort'' (AList.delete ''multiclass'' ?q) = ?q" by simp
  from assms(2) True have k: "call_keywords svc_keywords ps = Inr ()"
    by (simp add: call_keywords_def submit_keywords_def)
  show ?thesis
    unfolding j my_svc_classification_def k Let_def True
    by (simp add: d bound_text_None [OF u(1)] bound_text_None [OF u(2)] job_ops_def job_params_def)
next
  case False
  with assms(2) have k: "call_keywords wrapper_keywords ps = Inr ()"
    by (simp add: call_keywords_def submit_keywords_def)
  from False submitted_cases [OF assms(1)] show ?thesis
    by (auto simp: job_ops_def job_params_def my_logistic_classification_def
          my_knn_classification_def my_nb_classification_def my_dtree_classification_def
          my_sgd_classification_def k)
qed

text \<open>A submit call that is not accepted: the wrapper called that way raises as well.\<close>

lemma wrapper_rejects:
  assumes "(c, j) \<in> set (submitted algorithm)" and "keyword_twice (submit_keywords c) ps"
  shows "j env x y x_test y_test ops ps = Inl TypeError"
  using submitted_cases [OF assms(1)] assms(2)
  by (auto simp: submit_keywords_def call_keywords_def my_logistic_classification_def
        my_knn_classification_def my_svc_classification_def my_nb_classification_def
        my_dtree_classification_def my_sgd_classification_def)

text \<open>
  Whatever a wrapper returns, the trainer returned it, run with the wrapper's \<open>cv\<close> and
  \<open>is_print\<close>.
\<close>

lemma submitted_job_Inr:
  assumes "(c, j) \<in> set (submitted algorithm)"
    and "j env x y x_test y_test ops ps = Inr r"
  shows "\<exists>ops' ps'. cv ops' = cv ops \<and> is_print ops' = is_print ops
           \<and> priv_my_classification env c x y x_test y_test ops' ps' = Inr r"
proof -
  have plain: "\<exists>ops' ps'. cv ops' = cv ops \<and> is_print ops' = is_print ops
                 \<and> priv_my_classification env c x y x_test y_test ops' ps' = Inr r"
    if "bindE (call_keywords names ps)
          (\<lambda>bound. priv_my_classification env c x y x_test y_test ops1 ps1) = Inr r"
      and "cv ops1 = cv ops \<and> is_print ops1 = is_print ops" for names ops1 ps1
    using that by (auto simp: bindE_eq_Inr)
  from submitted_cases [OF assms(1)] consider
      "c = LogisticRegression" "j = my_logistic_classification"
    | "c = KNeighborsClassifier" "j = my_knn_classification"
    | "c = SVC" "j = my_svc_classification"
    | "c = GaussianNB" "j = my_nb_classification"
    | "c = DecisionTreeClassifier" "j = my_dtree_classification"
    | "c = SGDClassifier" "j = my_sgd_classification"
    by auto
  then show ?thesis
  proof cases
    case 1
    with assms(2) show ?thesis
      by (intro plain [of wrapper_keywords ops]) (simp_all add: my_logistic_classification_def)
  next
    case 2
    with assms(2) show ?thesis
      by (intro plain [of wrapper_keywords ops]) (simp_all add: my_knn_classification_def)
  next
    case 3
    note run = assms(2) [unfolded 3(2) my_svc_classification_def Let_def]
    from plain [unfolded 3(1), OF run] 3(1) show ?thesis by simp
  next
    case 4
    with assms(2) show ?thesis
      by (intro plain [of wrapper_keywords "ops\<lparr> conf_matrix := True \<rparr>"])
         (simp_all add: my_nb_classification_def)
  next
    case 5
    with assms(2) show ?thesis
      by (intro plain [of wrapper_keywords ops]) (simp_all add: my_dtree_classification_def)
  next
    case 6
    with assms(2) show ?thesis
      by (intro plain [of wrapper_keywords ops]) (simp_all add: my_sgd_classification_def)
  qed
qed

lemma job_ops_cv [simp]: "cv (job_ops c ops) = cv ops"
  by (cases c) (simp_all add: job_ops_def)

lemma job_ops_multiclass: "multiclass (job_ops c ops) = (if c = SVC then None else multiclass ops)"
  by (cases c) (simp_all add: job_ops_def)

lemma distinct_submitted: "distinct (map fst (submitted algorithm))"
  by (simp add: submitted_def)

lemma submitted_fun:
  assumes "(c, j) \<in> set (submitted algorithm)" and "(c, j') \<in> set (submitted algorithm)"
  shows "j = j'"
  using submitted_cases [OF assms(1)] submitted_cases [OF assms(2)] by auto

lemma mset_as_completed: "mset (as_completed finish_time ps) = mset ps"
proof -
  let ?zs = "zip (map finish_time [0..<length ps]) ps"
  have "mset (as_completed finish_time ps) = image_mset snd (mset (sort_key fst ?zs))"
    by (simp add: as_completed_def)
  also have "\<dots> = image_mset snd (mset ?zs)" by simp
  also have "\<dots> = mset (map snd ?zs)" by (simp only: mset_map)
  also have "map snd ?zs = ps" by simp
  finally show ?thesis .
qed

lemma mset_succeeded: "mset (succeeded outs) = (\<Sum>p\<in>#mset outs. mset (returned p))"
  by (induction outs) (simp_all add: succeeded_def)

lemma mset_succeeded_as_completed:
  "mset (succeeded (as_completed finish_time ps)) = mset (succeeded ps)"
  by (simp add: mset_succeeded mset_as_completed)

lemma set_succeeded: "e \<in> set (succeeded outs) \<longleftrightarrow> (\<exists>ev. Inr (Some e, ev) \<in> set outs)"
  by (induction outs) (auto simp: succeeded_def returned_def split: sum.splits option.splits)

lemma fold_update_fresh:
  assumes "distinct (map est_name es)" and "est_name ` set es \<inter> fst ` set al = {}"
  shows "fold (\<lambda>e. AList.update (est_name e) e) es al = al @ map (\<lambda>e. (est_name e, e)) es"
  using assms
proof (induction es arbitrary: al)
  case Nil
  then show ?case by simp
next
  case (Cons e es)
  from Cons.prems have fresh: "est_name e \<notin> fst ` set al" by auto
  have "fold (\<lambda>e. AList.update (est_name e) e) (e # es) al
          = fold (\<lambda>e. AList.update (est_name e) e) es (al @ [(est_name e, e)])"
    by (simp add: update_fresh [OF fresh])
  also have "\<dots> = (al @ [(est_name e, e)]) @ map (\<lambda>e. (est_name e, e)) es"
    using Cons.prems by (intro Cons.IH) auto
  finally show ?case by simp
qed

lemma collect_Inr:
  assumes "collect outs acc = Inr acc'"
  shows "estimator_names acc' = estimator_names acc @ map est_name (succeeded outs)
       \<and> results acc' = results acc @ map (\<lambda>e. the (est_scores e)) (succeeded outs)
       \<and> estimators acc' = fold (\<lambda>e. AList.update (est_name e) e) (succeeded outs) (estimators acc)"
  using assms
proof (induction outs arbitrary: acc)
  case Nil
  then show ?case by (simp add: succeeded_def)
next
  case (Cons p outs)
  show ?case
  proof (cases p)
    case (Inl e)
    with Cons.prems show ?thesis by simp
  next
    case (Inr r)
    show ?thesis
    proof (cases "fst r")
      case None
      with Inr Cons.prems have "collect outs acc = Inr acc'" by simp
      from Cons.IH [OF this] show ?thesis
        using Inr None by (simp add: succeeded_def returned_def)
    next
      case (Some e)
      with Inr Cons.prems obtain sc where sc: "est_scores e = Some sc"
        by (cases "est_scores e") auto
      let ?acc = "\<lparr> results = results acc @ [sc],
                     estimators = AList.update (class_name (m_class (fitted e))) e (estimators acc),
                     estimator_names = estimator_names acc @ [class_name (m_class (fitted e))] \<rparr>"
      from Inr Some sc Cons.prems have "collect outs ?acc = Inr acc'" by (simp add: Let_def)
      from Cons.IH [OF this] show ?thesis
        using Inr Some sc by (simp add: succeeded_def returned_def est_name_def)
    qed
  qed
qed

lemma collect_Inl:
  assumes "Inl e \<in> set outs"
  shows "\<exists>e'. collect outs acc = Inl e'"
  using assms
proof (induction outs arbitrary: acc)
  case Nil
  then show ?case by simp
next
  case (Cons p outs)
  show ?case
  proof (cases "p = Inl e")
    case True
    then show ?thesis by simp
  next
    case False
    with Cons.prems have "Inl e \<in> set outs" by simp
    from Cons.IH [OF this] show ?thesis
      by (auto simp: Let_def split: sum.splits option.splits)
  qed
qed

text \<open>A job that raises makes the dispatcher raise, whatever the other jobs do.\<close>

lemma dispatcher_raises:
  assumes "Inl e \<in> set (processes env x_train y_train x_test y_test ops algorithm params)"
  shows "\<exists>e'. my_classification env finish_time x_train y_train x_test y_test ops algorithm params = Inl e'"
proof -
  let ?ps = "processes env x_train y_train x_test y_test ops algorithm params"
  from assms have "Inl e \<in># mset (as_completed finish_time ?ps)"
    by (simp add: mset_as_completed)
  then have "Inl e \<in> set (as_completed finish_time ?ps)" by simp
  from collect_Inl [OF this] obtain e' where
    "collect (as_completed finish_time ?ps) \<lparr> results = [], estimators = [], estimator_names = [] \<rparr>
       = Inl e'" by blast
  then show ?thesis
    by (cases "call_keywords dispatcher_keywords params"; cases "submit_all algorithm params")
       (simp_all add: my_classification_def)
qed

lemma submit_all_Inr:
  "submit_all algorithm ps = Inr u
     \<longleftrightarrow> (\<forall>cj \<in> set (submitted algorithm). \<not> keyword_twice (submit_keywords (fst cj)) ps)"
  by (auto simp: submit_all_def list_ex_iff)

lemma direct_fit_failure_escapes:
  assumes "cv ops \<le> 0" and "(c, j) \<in> set (submitted algorithm)"
    and "list_all (accepts env c) (map fst (job_params c ops params))"
    and "fit env c (direct_params env c (job_params c ops params)) x_train y_train = Some e"
  shows "\<exists>e'. my_classification env finish_time x_train y_train x_test y_test ops algorithm params
              = Inl e'"
proof (cases "call_keywords dispatcher_keywords params")
  case (Inl t)
  then show ?thesis by (simp add: my_classification_def)
next
  case (Inr u)
  then have un: "''multiclass'' \<notin> fst ` set params" "''sort'' \<notin> fst ` set params"
    by (simp_all add: call_keywords_Inr dispatcher_keys_unbound)
  show ?thesis
  proof (cases "submit_all algorithm params")
    case (Inl t)
    with Inr show ?thesis by (simp add: my_classification_def)
  next
    case sub: (Inr v)
    with assms(2) have nk: "\<not> keyword_twice (submit_keywords c) params"
      by (auto simp: submit_all_Inr)
    let ?ops = "ops\<lparr> is_print := False \<rparr>"
    have p: "job_params c ?ops params = job_params c ops params"
      by (cases c) (simp_all add: job_params_def)
    from assms(1) have "\<not> 0 < cv (job_ops c ?ops)" by simp
    then have "\<exists>e'. priv_my_classification env c x_train y_train x_test y_test (job_ops c ?ops)
                 (job_params c ?ops params) = Inl e'"
      by (cases "call_keywords trainer_keywords (job_params c ops params)")
         (simp_all add: priv_my_classification_def p fit_direct_raises [OF assms(3,4)])
    with assms(2) obtain e' where "j env x_train y_train x_test y_test ?ops params = Inl e'"
      by (auto simp: submitted_job [OF assms(2) nk un])
    with assms(2) have "Inl e' \<in> set (processes env x_train y_train x_test y_test ops algorithm params)"
      by (force simp: processes_def)
    from dispatcher_raises [OF this] show ?thesis .
  qed
qed

lemma collect_all_None:
  assumes "list_all (\<lambda>p. \<exists>ev. p = Inr (None, ev)) outs"
  shows "collect outs acc = Inr acc"
  using assms by (induction outs arbitrary: acc) auto

text \<open>
  When every job returns \<open>None\<close> (each search failed and was caught), the dispatcher
  returns the empty dictionary and prints the empty table.
\<close>

lemma all_jobs_None_empty_report:
  assumes "\<not> keyword_twice dispatcher_keywords params"
    and "list_all (\<lambda>p. \<exists>ev. p = Inr (None, ev))
           (processes env x_train y_train x_test y_test ops algorithm params)"
  shows "my_classification env finish_time x_train y_train x_test y_test ops algorithm params
           = Inr ([], [PrettyTable \<lparr> t_index = [], t_columns = [], t_cells = [] \<rparr>])"
proof -
  let ?ps = "processes env x_train y_train x_test y_test ops algorithm params"
  have sub: "submit_all algorithm params = Inr ()"
  proof -
    have "\<not> keyword_twice (submit_keywords (fst cj)) params"
      if m: "cj \<in> set (submitted algorithm)" for cj
    proof
      assume k: "keyword_twice (submit_keywords (fst cj)) params"
      obtain c j where cj: "cj = (c, j)" by (cases cj)
      from m k cj have "j env x_train y_train x_test y_test (ops\<lparr> is_print := False \<rparr>) params
                          = Inl TypeError"
        by (simp add: wrapper_rejects)
      with m cj have "Inl TypeError \<in> set ?ps" by (force simp: processes_def)
      with assms(2) show False by (auto simp: list_all_iff)
    qed
    then show ?thesis by (simp add: submit_all_Inr)
  qed
  have "set (as_completed finish_time ?ps) = set ?ps"
    using mset_as_completed [of finish_time ?ps] by (rule mset_eq_setD)
  with assms(2) have "list_all (\<lambda>p. \<exists>ev. p = Inr (None, ev)) (as_completed finish_time ?ps)"
    by (simp add: list_all_iff)
  from collect_all_None [OF this] assms(1) sub show ?thesis
    by (simp add: my_classification_def DataFrame_of_empty call_keywords_def)
qed

lemma submitted_empty_list: "submitted (Some []) = submitted None"
  by (simp add: submitted_def wanted_def)

lemma submitted_all:
  "map fst (submitted None)
     = [LogisticRegression, KNeighborsClassifier, SVC, GaussianNB, DecisionTreeClassifier,
        SGDClassifier]"
  by (simp add: submitted_def wanted_def)

lemma submitted_unknown:
  assumes "names \<noteq> []"
    and "set names \<inter> {''logistic'', ''knn'', ''svc'', ''nb'', ''dtree'', ''sgd''} = {}"
  shows "submitted (Some names) = []"
  using assms by (auto simp: submitted_def wanted_def)

lemma returned_cases: "returned p = [] \<or> (\<exists>e ev. p = Inr (Some e, ev) \<and> returned p = [e])"
  by (cases p) (auto simp: returned_def split: option.splits prod.splits)

text \<open>A job the dispatcher runs displays no table.\<close>

lemma dispatcher_job_no_table:
  assumes "(c, j) \<in> set (submitted algorithm)"
    and "j env x y x_test y_test (ops\<lparr> is_print := False \<rparr>) ps = Inr (r, ev)"
  shows "filter is_table ev = []"
proof -
  from submitted_job_Inr [OF assms] obtain ops' ps' where
    q: "is_print ops' = is_print (ops\<lparr> is_print := False \<rparr>)"
    and p: "priv_my_classification env c x y x_test y_test ops' ps' = Inr (r, ev)" by blast
  from q have "\<not> is_print ops'" by simp
  from quiet_job_no_table [OF p this] show ?thesis .
qed

lemma submitted_job_class:
  assumes "(c, j) \<in> set (submitted algorithm)"
    and "j env x y x_test y_test ops ps = Inr (Some e, ev)"
  shows "m_class (fitted e) = c \<and> m_x (fitted e) = x \<and> m_y (fitted e) = y"
proof -
  from submitted_job_Inr [OF assms] obtain ops' ps' where
    "priv_my_classification env c x y x_test y_test ops' ps' = Inr (Some e, ev)" by blast
  from job_Some [OF this] show ?thesis by simp
qed

lemma submitted_job_Some:
  assumes "(c, j) \<in> set (submitted algorithm)"
    and "\<not> keyword_twice (submit_keywords c) ps"
    and "''multiclass'' \<notin> fst ` set ps" and "''sort'' \<notin> fst ` set ps"
    and "j env x y x_test y_test ops ps = Inr (Some e, ev)"
  shows "m_class (fitted e) = c \<and> m_x (fitted e) = x \<and> m_y (fitted e) = y
       \<and> (\<exists>sc p. stored_scores env (fitted e) (if c = SVC then None else multiclass ops)
                     x y x_test y_test = Inr (sc, p)
                 \<and> est_scores e = Some sc)"
proof -
  from assms have "priv_my_classification env c x y x_test y_test (job_ops c ops) (job_params c ops ps)
                     = Inr (Some e, ev)"
    by (simp add: submitted_job)
  from job_Some [OF this] show ?thesis by (simp add: job_ops_multiclass)
qed

lemma distinct_succeeded_processes:
  "distinct (map est_name (succeeded (processes env x y x_test y_test ops algorithm ps)))"
proof -
  let ?run = "\<lambda>cj. snd cj env x y x_test y_test (ops\<lparr> is_print := False \<rparr>) ps"
  let ?g = "\<lambda>cj. map est_name (returned (?run cj))"
  let ?f = "\<lambda>cj. class_name (fst cj)"
  have eq: "map est_name (succeeded (processes env x y x_test y_test ops algorithm ps))
              = concat (map ?g (submitted algorithm))"
    by (simp add: succeeded_def processes_def map_concat comp_def)
  have d: "distinct (map ?f (submitted algorithm))"
  proof -
    have "inj_on class_name (set (map fst (submitted algorithm)))"
      by (rule inj_onI) (rule class_name_inj)
    with distinct_submitted [of algorithm]
    have "distinct (map class_name (map fst (submitted algorithm)))"
      by (simp only: distinct_map)
    then show ?thesis by (simp add: comp_def)
  qed
  have g: "?g cj = [] \<or> ?g cj = [?f cj]" if "cj \<in> set (submitted algorithm)" for cj
  proof -
    obtain c j where cj: "cj = (c, j)" by (cases cj)
    from returned_cases [of "?run cj"] show ?thesis
    proof
      assume "returned (?run cj) = []"
      then show ?thesis by simp
    next
      assume "\<exists>e ev. ?run cj = Inr (Some e, ev) \<and> returned (?run cj) = [e]"
      then obtain e ev where r: "?run cj = Inr (Some e, ev)" "returned (?run cj) = [e]" by blast
      from that r(1) cj have "m_class (fitted e) = c"
        using submitted_job_class [of c j algorithm env x y x_test y_test "ops\<lparr> is_print := False \<rparr>" ps e ev]
        by simp
      with r(2) cj show ?thesis by (simp add: est_name_def)
    qed
  qed
  from distinct_concat_map [of ?f "submitted algorithm" ?g, OF d g] eq show ?thesis by simp
qed

lemma distinct_succeeded_as_completed:
  "distinct (map est_name
     (succeeded (as_completed finish_time (processes env x y x_test y_test ops algorithm ps))))"
proof -
  let ?ps = "processes env x y x_test y_test ops algorithm ps"
  have "mset (map est_name (succeeded (as_completed finish_time ?ps)))
          = mset (map est_name (succeeded ?ps))"
    by (simp only: mset_map mset_succeeded_as_completed)
  from mset_eq_imp_distinct_iff [OF this] distinct_succeeded_processes show ?thesis by blast
qed

text \<open>What the dispatcher returns, when it returns.\<close>

lemma my_classification_Inr:
  assumes "my_classification env finish_time x y x_test y_test ops algorithm ps = Inr (ests, evs)"
  shows "ests = map (\<lambda>e. (est_name e, e))
                  (succeeded (as_completed finish_time (processes env x y x_test y_test ops algorithm ps)))
       \<and> evs = [PrettyTable (DataFrame_of
                  (map (\<lambda>e. the (est_scores e))
                     (succeeded (as_completed finish_time (processes env x y x_test y_test ops algorithm ps))))
                  (map est_name
                     (succeeded (as_completed finish_time (processes env x y x_test y_test ops algorithm ps)))))]"
proof -
  let ?outs = "as_completed finish_time (processes env x y x_test y_test ops algorithm ps)"
  from assms obtain acc where
    c: "collect ?outs \<lparr> results = [], estimators = [], estimator_names = [] \<rparr> = Inr acc"
    and r: "ests = estimators acc"
           "evs = [PrettyTable (DataFrame_of (results acc) (estimator_names acc))]"
    by (auto simp: my_classification_def bindE_eq_Inr Let_def)
  from collect_Inr [OF c] have
    n: "estimator_names acc = map est_name (succeeded ?outs)"
    and s: "results acc = map (\<lambda>e. the (est_scores e)) (succeeded ?outs)"
    and e: "estimators acc = fold (\<lambda>e. AList.update (est_name e) e) (succeeded ?outs) []"
    by simp_all
  have "fold (\<lambda>e. AList.update (est_name e) e) (succeeded ?outs) []
          = [] @ map (\<lambda>e. (est_name e, e)) (succeeded ?outs)"
    by (rule fold_update_fresh) (simp_all add: distinct_succeeded_as_completed)
  with r n s e show ?thesis by simp
qed

lemma succeeded_from_job:
  assumes "e \<in> set (succeeded (as_completed finish_time (processes env x y x_test y_test ops algorithm ps)))"
  shows "\<exists>c j ev. (c, j) \<in> set (submitted algorithm)
                 \<and> j env x y x_test y_test (ops\<lparr> is_print := False \<rparr>) ps = Inr (Some e, ev)"
proof -
  let ?ps = "processes env x y x_test y_test ops algorithm ps"
  have "set (succeeded (as_completed finish_time ?ps)) = set (succeeded ?ps)"
    using mset_succeeded_as_completed [of finish_time ?ps] by (rule mset_eq_setD)
  with assms have "e \<in> set (succeeded ?ps)" by simp
  then obtain ev where "Inr (Some e, ev) \<in> set ?ps" by (auto simp: set_succeeded)
  then obtain cj where m: "cj \<in> set (submitted algorithm)"
    and r: "snd cj env x y x_test y_test (ops\<lparr> is_print := False \<rparr>) ps = Inr (Some e, ev)"
    by (auto simp: processes_def)
  obtain c j where "cj = (c, j)" by (cases cj)
  with m r show ?thesis by auto
qed

lemma my_classification_accepted:
  assumes "my_classification env finish_time x y x_test y_test ops algorithm ps = Inr r"
  shows "\<not> keyword_twice dispatcher_keywords ps"
    and "\<And>c j. (c, j) \<in> set (submitted algorithm) \<Longrightarrow> \<not> keyword_twice (submit_keywords c) ps"
proof -
  from assms obtain u v where "call_keywords dispatcher_keywords ps = Inr u"
    and s: "submit_all algorithm ps = Inr v"
    by (auto simp: my_classification_def bindE_eq_Inr)
  then show "\<not> keyword_twice dispatcher_keywords ps" by (simp add: call_keywords_Inr)
  fix c j assume "(c, j) \<in> set (submitted algorithm)"
  with s show "\<not> keyword_twice (submit_keywords c) ps" by (auto simp: submit_all_Inr)
qed

lemma dispatcher_entry:
  assumes "my_classification env finish_time x_train y_train x_test y_test ops algorithm params
             = Inr (ests, evs)"
    and "(n, e) \<in> set ests"
  shows "\<exists>c j sc p. (c, j) \<in> set (submitted algorithm) \<and> n = class_name c
           \<and> m_class (fitted e) = c \<and> m_y (fitted e) = y_train
           \<and> est_scores e = Some sc
           \<and> stored_scores env (fitted e) (if c = SVC then None else multiclass ops)
                x_train y_train x_test y_test = Inr (sc, p)"
proof -
  let ?outs = "as_completed finish_time (processes env x_train y_train x_test y_test ops algorithm params)"
  from my_classification_Inr [OF assms(1)] assms(2)
  have e: "e \<in> set (succeeded ?outs)" and n: "n = est_name e" by auto
  from succeeded_from_job [OF e] obtain c j ev where
    sub: "(c, j) \<in> set (submitted algorithm)"
    and some: "j env x_train y_train x_test y_test (ops\<lparr> is_print := False \<rparr>) params = Inr (Some e, ev)"
    by blast
  have mc: "multiclass (ops\<lparr> is_print := False \<rparr>) = multiclass ops" by simp
  note acc = my_classification_accepted [OF assms(1)]
  note un = dispatcher_keys_unbound [OF acc(1)]
  from submitted_job_Some [OF sub acc(2) [OF sub] un some] obtain sc p where
    "m_class (fitted e) = c" "m_y (fitted e) = y_train" "est_scores e = Some sc"
    "stored_scores env (fitted e) (if c = SVC then None else multiclass ops)
       x_train y_train x_test y_test = Inr (sc, p)"
    unfolding mc by blast
  with sub n show ?thesis unfolding est_name_def by blast
qed

lemma submitted_logistic_dtree:
  assumes "set names = {''logistic'', ''dtree''}"
  shows "submitted (Some names)
           = [(LogisticRegression, my_logistic_classification),
              (DecisionTreeClassifier, my_dtree_classification)]"
proof -
  have "''logistic'' \<in> set names" and "''dtree'' \<in> set names"
    and "''knn'' \<notin> set names" and "''svc'' \<notin> set names"
    and "''nb'' \<notin> set names" and "''sgd'' \<notin> set names"
    unfolding assms by simp_all
  moreover from this have "names \<noteq> []" by auto
  ultimately have
    "wanted (Some names) ''logistic''" "wanted (Some names) ''dtree''"
    "\<not> wanted (Some names) ''knn''" "\<not> wanted (Some names) ''svc''"
    "\<not> wanted (Some names) ''nb''" "\<not> wanted (Some names) ''sgd''"
    by (simp_all add: wanted_def)
  then show ?thesis by (simp add: submitted_def)
qed

lemma dispatcher_Inr_no_job_raised:
  assumes "my_classification env finish_time x y x_test y_test ops algorithm ps = Inr r"
    and "p \<in> set (processes env x y x_test y_test ops algorithm ps)"
  shows "\<exists>res. p = Inr res"
proof (cases p)
  case (Inl e)
  with assms(2) dispatcher_raises [of e env x y x_test y_test ops algorithm ps finish_time] assms(1)
  show ?thesis by auto
next
  case (Inr res)
  then show ?thesis by simp
qed

lemma direct_job_returns_estimator:
  assumes "(c, j) \<in> set (submitted algorithm)" and "cv ops \<le> 0"
    and "j env x y x_test y_test ops ps = Inr (r, ev)"
  shows "\<exists>e. r = Some e"
proof -
  from submitted_job_Inr [OF assms(1,3)] obtain ops' ps' where
    c: "cv ops' = cv ops"
    and p: "priv_my_classification env c x y x_test y_test ops' ps' = Inr (r, ev)" by blast
  from c assms(2) have "cv ops' \<le> 0" by simp
  from job_direct_not_None [OF this p] show ?thesis by auto
qed

lemma length_succeeded_as_completed:
  "length (succeeded (as_completed finish_time ps)) = length (succeeded ps)"
  using mset_succeeded_as_completed [of finish_time ps] by (rule mset_eq_length)

lemma all_direct_jobs_succeed:
  assumes "my_classification env finish_time x y x_test y_test ops algorithm ps = Inr r"
    and "cv ops \<le> 0"
  shows "length (succeeded (processes env x y x_test y_test ops algorithm ps))
           = length (submitted algorithm)"
proof -
  let ?run = "\<lambda>cj. snd cj env x y x_test y_test (ops\<lparr> is_print := False \<rparr>) ps"
  have one: "length (returned (?run cj)) = 1" if m: "cj \<in> set (submitted algorithm)" for cj
  proof -
    obtain c j where cj: "cj = (c, j)" by (cases cj)
    from m have "?run cj \<in> set (processes env x y x_test y_test ops algorithm ps)"
      by (simp add: processes_def)
    from dispatcher_Inr_no_job_raised [OF assms(1) this] obtain res where res: "?run cj = Inr res" ..
    obtain r' ev where rv: "res = (r', ev)" by (cases res)
    from m cj res rv assms(2)
      direct_job_returns_estimator [of c j algorithm "ops\<lparr> is_print := False \<rparr>" env x y x_test y_test ps r' ev]
    obtain e where "r' = Some e" by auto
    with res rv show ?thesis by (simp add: returned_def)
  qed
  have "length (succeeded (processes env x y x_test y_test ops algorithm ps))
          = sum_list (map (\<lambda>cj. length (returned (?run cj))) (submitted algorithm))"
    by (simp add: succeeded_def processes_def length_concat comp_def)
  also have "\<dots> = sum_list (map (\<lambda>cj. 1) (submitted algorithm))"
    using one by (intro arg_cong [where f = sum_list] map_cong) simp_all
  also have "\<dots> = length (submitted algorithm)" by (simp add: sum_list_triv)
  finally show ?thesis .
qed

text \<open>
  An \<^verbatim>\<open>is_print\<close> entry among the hyperparameters: the first submit call repeats the
  keyword, and the dispatcher raises before any job runs.
\<close>

lemma is_print_keyword_raises:
  assumes "''is_print'' \<in> fst ` set params" and "submitted algorithm \<noteq> []"
  shows "my_classification env finish_time x_train y_train x_test y_test ops algorithm params
           = Inl TypeError"
proof (cases "keyword_twice dispatcher_keywords params")
  case True
  then show ?thesis by (simp add: my_classification_def call_keywords_def)
next
  case False
  from assms(2) obtain cj where cj: "cj \<in> set (submitted algorithm)" by (cases "submitted algorithm") auto
  have "''is_print'' \<in> set (submit_keywords (fst cj))"
    by (simp add: submit_keywords_def svc_keywords_def wrapper_keywords_def)
  with assms(1) have "keyword_twice (submit_keywords (fst cj)) params"
    unfolding keyword_twice_iff by blast
  with cj have "submit_all algorithm params = Inl TypeError"
    by (auto simp: submit_all_def list_ex_iff)
  with False show ?thesis by (simp add: my_classification_def call_keywords_def)
qed

text \<open>
  The SVC wrapper called on its own with a \<^verbatim>\<open>multiclass\<close> entry among its keywords: the
  entry reaches the trainer as its selector, and the scorecard has the one-vs-rest AUC
  only.
\<close>

lemma svc_wrapper_binds_multiclass:
  "outcome_keys (my_svc_classification stub_env [[- 1], [1], [2], [- 3]] [0, 1, 2, 0] None None
                   (stub_ops\<lparr> is_print := False \<rparr>)
                   [(''multiclass'', PStr ''ovr''), (''probability'', PBool True)])
     = [K_ACCURACY, K_PRECISION, K_RECALL, K_F1, K_AUC_OVR]"
  by (simp add: outcome_keys_def job_defs stub_defs report_defs Let_def)

lemma collect_returns:
  assumes "\<And>p. p \<in> set outs
             \<Longrightarrow> \<exists>r ev. p = Inr (r, ev) \<and> (\<forall>e. r = Some e \<longrightarrow> est_scores e \<noteq> None)"
  shows "\<exists>acc'. collect outs acc = Inr acc'"
  using assms
proof (induction outs arbitrary: acc)
  case Nil
  then show ?case by simp
next
  case (Cons p outs)
  from Cons.prems [of p] obtain r ev where
    p: "p = Inr (r, ev)" and sc: "\<forall>e. r = Some e \<longrightarrow> est_scores e \<noteq> None" by auto
  have rest: "\<exists>acc'. collect outs a = Inr acc'" for a
    using Cons.prems by (intro Cons.IH) simp
  show ?case
  proof (cases r)
    case None
    with p rest show ?thesis by simp
  next
    case (Some e)
    with sc obtain s where "est_scores e = Some s" by auto
    with p Some rest show ?thesis by (simp add: Let_def)
  qed
qed

text \<open>
  The dispatcher returns when its keywords are accepted and no job raises: it raises only
  what a submit call or a job raises.
\<close>

lemma dispatcher_returns:
  assumes "\<not> keyword_twice dispatcher_keywords params"
    and "\<And>p. p \<in> set (processes env x_train y_train x_test y_test ops algorithm params)
           \<Longrightarrow> \<exists>r. p = Inr r"
  shows "\<exists>ests evs. my_classification env finish_time x_train y_train x_test y_test ops algorithm params
                     = Inr (ests, evs)"
proof -
  let ?ps = "processes env x_train y_train x_test y_test ops algorithm params"
  let ?quiet = "ops\<lparr> is_print := False \<rparr>"
  have sub: "submit_all algorithm params = Inr ()"
  proof -
    have "\<not> keyword_twice (submit_keywords (fst cj)) params"
      if m: "cj \<in> set (submitted algorithm)" for cj
    proof
      assume k: "keyword_twice (submit_keywords (fst cj)) params"
      obtain c j where cj: "cj = (c, j)" by (cases cj)
      from m k cj have "j env x_train y_train x_test y_test ?quiet params = Inl TypeError"
        by (simp add: wrapper_rejects)
      with m cj have "Inl TypeError \<in> set ?ps" by (force simp: processes_def)
      with assms(2) show False by fastforce
    qed
    then show ?thesis by (simp add: submit_all_Inr)
  qed
  have ok: "\<exists>r ev. p = Inr (r, ev) \<and> (\<forall>e. r = Some e \<longrightarrow> est_scores e \<noteq> None)"
    if m: "p \<in> set (as_completed finish_time ?ps)" for p
  proof -
    have "set (as_completed finish_time ?ps) = set ?ps"
      using mset_as_completed [of finish_time ?ps] by (rule mset_eq_setD)
    with m have mp: "p \<in> set ?ps" by simp
    from assms(2) [OF mp] obtain r ev where p: "p = Inr (r, ev)" by fastforce
    from mp obtain cj where cj: "cj \<in> set (submitted algorithm)"
      and run: "snd cj env x_train y_train x_test y_test ?quiet params = p"
      by (auto simp: processes_def)
    obtain c j where c: "cj = (c, j)" by (cases cj)
    have "est_scores e \<noteq> None" if "r = Some e" for e
    proof -
      from cj c have m': "(c, j) \<in> set (submitted algorithm)" by simp
      from c run p that have "j env x_train y_train x_test y_test ?quiet params = Inr (Some e, ev)"
        by simp
      from submitted_job_Inr [OF m' this] obtain ops' ps' where
        "priv_my_classification env c x_train y_train x_test y_test ops' ps' = Inr (Some e, ev)"
        by blast
      from job_Some [OF this] show ?thesis by auto
    qed
    with p show ?thesis by blast
  qed
  from collect_returns [OF ok] obtain acc where
    "collect (as_completed finish_time ?ps) \<lparr> results = [], estimators = [], estimator_names = [] \<rparr>
       = Inr acc" by blast
  with assms(1) sub show ?thesis
    by (simp add: my_classification_def call_keywords_def Let_def)
qed

section \<open>The claims\<close>

subsection \<open>C1\<close>

text \<open>
  C1. The claim fails on the code. With \<open>cv = 0\<close> the logistic regression is fitted
  directly; its fit raises (an \<^verbatim>\<open>l1\<close> penalty with the default solver), nothing catches
  it, and the dispatcher raises, although the SGD job has finished with a result.
\<close>

theorem C1_fit_failure_leaves_dispatcher:
  "my_logistic_classification stub_env [[- 1], [1], [2], [- 3]] [0, 1, 1, 0] None None
      (stub_ops\<lparr> is_print := False \<rparr>) [(''penalty'', PStr ''l1'')] = Inl ValueError
   \<and> length (succeeded [my_sgd_classification stub_env [[- 1], [1], [2], [- 3]] [0, 1, 1, 0] None None
      (stub_ops\<lparr> is_print := False \<rparr>) [(''penalty'', PStr ''l1'')]]) = 1
   \<and> my_classification stub_env (\<lambda>i. 1 - i) [[- 1], [1], [2], [- 3]] [0, 1, 1, 0] None None
        stub_ops (Some [''logistic'', ''sgd'']) [(''penalty'', PStr ''l1'')] = Inl ValueError"
  by (simp add: dispatch_defs job_defs stub_defs report_defs succeeded_def returned_def Let_def)

subsection \<open>C2\<close>

text \<open>
  C2. When the dispatcher returns, the rows of the printed table and the entries of the
  returned dictionary are the jobs that returned an estimator, in the order in which
  the jobs completed (\<open>as_completed\<close>), under their class names; a submitted job that
  returned \<open>None\<close> has no row and no entry.
\<close>

theorem C2_rows_are_results_in_completion_order:
  assumes "my_classification env finish_time x_train y_train x_test y_test ops algorithm params
             = Inr (ests, evs)"
  shows "\<exists>tbl. evs = [PrettyTable tbl]
           \<and> t_index tbl
               = map est_name (succeeded (as_completed finish_time
                   (processes env x_train y_train x_test y_test ops algorithm params)))
           \<and> ests
               = map (\<lambda>e. (est_name e, e)) (succeeded (as_completed finish_time
                   (processes env x_train y_train x_test y_test ops algorithm params)))
           \<and> (\<forall>c j ev. (c, j) \<in> set (submitted algorithm)
                  \<and> j env x_train y_train x_test y_test (ops\<lparr> is_print := False \<rparr>) params
                      = Inr (None, ev)
                \<longrightarrow> class_name c \<notin> set (t_index tbl) \<and> class_name c \<notin> fst ` set ests)"
proof -
  let ?outs = "as_completed finish_time (processes env x_train y_train x_test y_test ops algorithm params)"
  let ?tbl = "DataFrame_of (map (\<lambda>e. the (est_scores e)) (succeeded ?outs))
                (map est_name (succeeded ?outs))"
  from my_classification_Inr [OF assms] have
    ests: "ests = map (\<lambda>e. (est_name e, e)) (succeeded ?outs)" and evs: "evs = [PrettyTable ?tbl]"
    by simp_all
  have absent: "class_name c \<notin> est_name ` set (succeeded ?outs)"
    if sub: "(c, j) \<in> set (submitted algorithm)"
      and none: "j env x_train y_train x_test y_test (ops\<lparr> is_print := False \<rparr>) params = Inr (None, ev)"
    for c j ev
  proof
    assume "class_name c \<in> est_name ` set (succeeded ?outs)"
    then obtain e where e: "e \<in> set (succeeded ?outs)" and n: "est_name e = class_name c" by auto
    from succeeded_from_job [OF e] obtain c' j' ev' where
      sub': "(c', j') \<in> set (submitted algorithm)"
      and some: "j' env x_train y_train x_test y_test (ops\<lparr> is_print := False \<rparr>) params = Inr (Some e, ev')"
      by blast
    from submitted_job_class [OF sub' some] have "m_class (fitted e) = c'" by simp
    with n have "c' = c" by (auto simp: est_name_def dest: class_name_inj)
    with sub sub' have "j' = j" by (auto dest: submitted_fun)
    with some none show False by simp
  qed
  have "fst ` set ests = est_name ` set (succeeded ?outs)"
    by (auto simp: ests image_iff)
  with absent evs ests show ?thesis
    by (intro exI [of _ ?tbl]) (auto simp: t_index_DataFrame_of)
qed

theorem C2_witness:
  "\<exists>ests tbl.
      my_classification stub_env (\<lambda>i. 5 - i) [[- 1], [1], [2], [- 3]] [0, 1, 1, 0] None None
        (stub_ops\<lparr> cv := 3 \<rparr>) (Some [''logistic'', ''knn'', ''dtree'', ''svc''])
        [(''C'', PList [PInt 1, PInt 2])] = Inr (ests, [PrettyTable tbl])
    \<and> t_index tbl = [''SVC'', ''LogisticRegression'']
    \<and> map fst ests = [''SVC'', ''LogisticRegression'']
    \<and> (KNeighborsClassifier, my_knn_classification)
         \<in> set (submitted (Some [''logistic'', ''knn'', ''dtree'', ''svc'']))
    \<and> ''KNeighborsClassifier'' \<notin> set (t_index tbl)
    \<and> ''KNeighborsClassifier'' \<notin> fst ` set ests"
proof -
  let ?x = "[[- 1], [1], [2], [- 3]] :: DataFrame" and ?y = "[0, 1, 1, 0] :: Series"
  let ?alg = "Some [''logistic'', ''knn'', ''dtree'', ''svc'']"
  let ?ps = "[(''C'', PList [PInt 1, PInt 2])]"
  have "\<exists>ests evs. my_classification stub_env (\<lambda>i. 5 - i) ?x ?y None None
        (stub_ops\<lparr> cv := 3 \<rparr>) ?alg ?ps = Inr (ests, evs)"
    by (simp add: dispatch_defs job_defs stub_defs report_defs Let_def)
  then obtain ests evs where run: "my_classification stub_env (\<lambda>i. 5 - i) ?x ?y None None
        (stub_ops\<lparr> cv := 3 \<rparr>) ?alg ?ps = Inr (ests, evs)" by blast
  have names: "map est_name (succeeded (as_completed (\<lambda>i. 5 - i)
                 (processes stub_env ?x ?y None None (stub_ops\<lparr> cv := 3 \<rparr>) ?alg ?ps)))
               = [''SVC'', ''LogisticRegression'']"
    by (simp add: dispatch_defs job_defs stub_defs report_defs succeeded_def returned_def
          est_name_def Let_def)
  have knn: "(KNeighborsClassifier, my_knn_classification) \<in> set (submitted ?alg)"
    by (simp add: submitted_def wanted_def)
  have "\<exists>ev. my_knn_classification stub_env ?x ?y None None (stub_ops\<lparr> cv := 3, is_print := False \<rparr>) ?ps
          = Inr (None, ev)"
    by (simp add: job_defs stub_defs Let_def)
  then obtain ev where none: "my_knn_classification stub_env ?x ?y None None
          ((stub_ops\<lparr> cv := 3 \<rparr>)\<lparr> is_print := False \<rparr>) ?ps = Inr (None, ev)" by auto
  from C2_rows_are_results_in_completion_order [OF run] obtain tbl where
    t: "evs = [PrettyTable tbl]"
       "t_index tbl = map est_name (succeeded (as_completed (\<lambda>i. 5 - i)
                 (processes stub_env ?x ?y None None (stub_ops\<lparr> cv := 3 \<rparr>) ?alg ?ps)))"
       "ests = map (\<lambda>e. (est_name e, e)) (succeeded (as_completed (\<lambda>i. 5 - i)
                 (processes stub_env ?x ?y None None (stub_ops\<lparr> cv := 3 \<rparr>) ?alg ?ps)))"
       "\<forall>c j ev. (c, j) \<in> set (submitted ?alg)
                  \<and> j stub_env ?x ?y None None ((stub_ops\<lparr> cv := 3 \<rparr>)\<lparr> is_print := False \<rparr>) ?ps
                      = Inr (None, ev)
                \<longrightarrow> class_name c \<notin> set (t_index tbl) \<and> class_name c \<notin> fst ` set ests"
    by blast
  from t(4) knn none have "class_name KNeighborsClassifier \<notin> set (t_index tbl)
       \<and> class_name KNeighborsClassifier \<notin> fst ` set ests" by blast
  moreover have "map fst ests = [''SVC'', ''LogisticRegression'']"
    using t(3) names by (simp add: comp_def)
  ultimately show ?thesis using run t(1) t(2) names knn by auto
qed

subsection \<open>C3\<close>

text \<open>
  C3. The claim fails on the code, by the defect of C1. With \<open>cv = 0\<close> and \<^verbatim>\<open>C=0\<close> both
  fits raise: no job succeeds, and the dispatcher raises instead of returning an empty
  report.
\<close>

theorem C3_no_job_succeeds_dispatcher_raises:
  "succeeded (processes stub_env [[- 1], [1], [2], [- 3]] [0, 1, 1, 0] None None stub_ops
                (Some [''logistic'', ''svc'']) [(''C'', PInt 0)]) = []
   \<and> my_classification stub_env (\<lambda>i. i) [[- 1], [1], [2], [- 3]] [0, 1, 1, 0] None None
        stub_ops (Some [''logistic'', ''svc'']) [(''C'', PInt 0)] = Inl ValueError"
  by (simp add: dispatch_defs job_defs stub_defs succeeded_def returned_def Let_def)

subsection \<open>C4\<close>

text \<open>
  C4, as amended. For a training target of two classes, the algorithms \<open>logistic\<close> and
  \<open>dtree\<close>, \<open>cv = 0\<close> and any fixed hyperparameters, a report the dispatcher returns has
  exactly two rows, the two class names; each scorecard has exactly the keys pseudo R2,
  accuracy, precision, recall, fallout, specificity and F1, and after them the AUC key
  exactly when the fitted estimator has \<^verbatim>\<open>predict_proba\<close>.
\<close>

theorem C4_two_rows_and_binary_keys:
  assumes "card (set y_train) = 2" and "cv ops = 0"
    and "set names = {''logistic'', ''dtree''}"
    and "my_classification env finish_time x_train y_train x_test y_test ops (Some names) params
           = Inr (ests, evs)"
  shows "\<exists>tbl. evs = [PrettyTable tbl] \<and> length (t_index tbl) = 2 \<and> length ests = 2
           \<and> set (t_index tbl) = {''LogisticRegression'', ''DecisionTreeClassifier''}
           \<and> map fst ests = t_index tbl
           \<and> (\<forall>n e. (n, e) \<in> set ests
                \<longrightarrow> (\<exists>sc. est_scores e = Some sc
                      \<and> map fst sc
                          = [K_PSEUDO_R2, K_ACCURACY, K_PRECISION, K_RECALL, K_FALLOUT, K_TNR, K_F1]
                            @ (if has_predict_proba env (fitted e) then [K_AUC] else [])))"
proof -
  let ?ps = "processes env x_train y_train x_test y_test ops (Some names) params"
  let ?outs = "as_completed finish_time ?ps"
  note sub = submitted_logistic_dtree [OF assms(3)]
  define tbl where "tbl = DataFrame_of (map (\<lambda>e. the (est_scores e)) (succeeded ?outs))
                                        (map est_name (succeeded ?outs))"
  from my_classification_Inr [OF assms(4)] have
    t: "evs = [PrettyTable tbl]" "t_index tbl = map est_name (succeeded ?outs)"
       "ests = map (\<lambda>e. (est_name e, e)) (succeeded ?outs)"
    by (simp_all add: tbl_def t_index_DataFrame_of)
  from assms(2) have cv: "cv ops \<le> 0" by simp
  have len: "length (succeeded ?outs) = 2"
    by (simp add: length_succeeded_as_completed all_direct_jobs_succeed [OF assms(4) cv] sub)
  have names: "set (map est_name (succeeded ?outs)) = {''LogisticRegression'', ''DecisionTreeClassifier''}"
  proof -
    have d: "distinct (map est_name (succeeded ?outs))" by (rule distinct_succeeded_as_completed)
    have s: "set (map est_name (succeeded ?outs)) \<subseteq> {''LogisticRegression'', ''DecisionTreeClassifier''}"
    proof
      fix n assume "n \<in> set (map est_name (succeeded ?outs))"
      then obtain e where e: "e \<in> set (succeeded ?outs)" and n: "n = est_name e" by auto
      from succeeded_from_job [OF e] obtain c j ev where
        m: "(c, j) \<in> set (submitted (Some names))"
        and r: "j env x_train y_train x_test y_test (ops\<lparr> is_print := False \<rparr>) params = Inr (Some e, ev)"
        by blast
      from submitted_job_class [OF m r] have "m_class (fitted e) = c" by simp
      with m n show "n \<in> {''LogisticRegression'', ''DecisionTreeClassifier''}"
        by (auto simp: sub est_name_def)
    qed
    from distinct_card [OF d] len have "card (set (map est_name (succeeded ?outs))) = 2"
      by simp
    then show ?thesis
      by (intro card_subset_eq [OF _ s]) simp_all
  qed
  have keys: "\<exists>sc. est_scores e = Some sc
                \<and> map fst sc
                    = [K_PSEUDO_R2, K_ACCURACY, K_PRECISION, K_RECALL, K_FALLOUT, K_TNR, K_F1]
                      @ (if has_predict_proba env (fitted e) then [K_AUC] else [])"
    if mem: "(n, e) \<in> set ests" for n e
  proof -
    from dispatcher_entry [OF assms(4) mem] obtain c sc p where
      y: "m_y (fitted e) = y_train" and s: "est_scores e = Some sc"
      and st: "stored_scores env (fitted e) (if c = SVC then None else multiclass ops)
                 x_train y_train x_test y_test = Inr (sc, p)" by blast
    from y assms(1) have "length (classes_of (fitted e)) = 2" by (simp add: length_classes_of)
    with stored_scores_keys [OF st] have "map fst sc = binary_keys (has_predict_proba env (fitted e))"
      by (simp add: score_keys_def)
    with s show ?thesis by (simp add: binary_keys_def)
  qed
  from t len names keys show ?thesis
    by (intro exI [of _ tbl]) (auto simp: comp_def)
qed

text \<open>
  C4, as stated, fails: the scorecards have the pseudo R2 key as well, and the decision
  tree, which has probabilities, has the AUC key too.
\<close>

theorem C4_counterexample:
  "report_keys (my_classification stub_env (\<lambda>i. i) [[- 1], [1], [2], [- 3]] [0, 1, 1, 0] None None
                  stub_ops (Some [''logistic'', ''dtree'']) [])
     = [(''LogisticRegression'',
         [K_PSEUDO_R2, K_ACCURACY, K_PRECISION, K_RECALL, K_FALLOUT, K_TNR, K_F1, K_AUC]),
        (''DecisionTreeClassifier'',
         [K_PSEUDO_R2, K_ACCURACY, K_PRECISION, K_RECALL, K_FALLOUT, K_TNR, K_F1, K_AUC])]"
  by (simp add: report_keys_def dispatch_defs job_defs stub_defs report_defs Let_def)

theorem C4_witness:
  "card (set [0, 1, 1, 0 :: int]) = 2 \<and> cv stub_ops = 0
   \<and> set [''logistic'', ''dtree''] = {''logistic'', ''dtree''}
   \<and> (\<exists>e1 e2 tbl sc.
         my_classification stub_env (\<lambda>i. i) [[- 1], [1], [2], [- 3]] [0, 1, 1, 0] None None
           stub_ops (Some [''logistic'', ''dtree'']) []
           = Inr ([(''LogisticRegression'', e1), (''DecisionTreeClassifier'', e2)], [PrettyTable tbl])
       \<and> length (t_index tbl) = 2
       \<and> set (t_index tbl) = {''LogisticRegression'', ''DecisionTreeClassifier''}
       \<and> has_predict_proba stub_env (fitted e2)
       \<and> est_scores e2 = Some sc
       \<and> map fst sc
           = [K_PSEUDO_R2, K_ACCURACY, K_PRECISION, K_RECALL, K_FALLOUT, K_TNR, K_F1, K_AUC])"
proof -
  let ?x = "[[- 1], [1], [2], [- 3]] :: DataFrame" and ?y = "[0, 1, 1, 0] :: Series"
  have c: "card (set ?y) = 2" unfolding List.card_set by simp
  have v: "cv stub_ops = 0" by (simp add: stub_ops_def)
  have n: "set [''logistic'', ''dtree''] = {''logistic'', ''dtree''}" by simp
  have "\<exists>e1 e2 evs. my_classification stub_env (\<lambda>i. i) ?x ?y None None
           stub_ops (Some [''logistic'', ''dtree'']) []
           = Inr ([(''LogisticRegression'', e1), (''DecisionTreeClassifier'', e2)], evs)
         \<and> has_predict_proba stub_env (fitted e2)"
    by (simp add: dispatch_defs job_defs stub_defs report_defs Let_def)
  then obtain e1 e2 evs where run: "my_classification stub_env (\<lambda>i. i) ?x ?y None None
           stub_ops (Some [''logistic'', ''dtree'']) []
           = Inr ([(''LogisticRegression'', e1), (''DecisionTreeClassifier'', e2)], evs)"
    and h: "has_predict_proba stub_env (fitted e2)" by blast
  from C4_two_rows_and_binary_keys [OF c v n run] obtain tbl where
    t: "evs = [PrettyTable tbl]" "length (t_index tbl) = 2"
       "set (t_index tbl) = {''LogisticRegression'', ''DecisionTreeClassifier''}"
       "\<forall>n e. (n, e) \<in> set [(''LogisticRegression'', e1), (''DecisionTreeClassifier'', e2)]
                \<longrightarrow> (\<exists>sc. est_scores e = Some sc
                      \<and> map fst sc
                          = [K_PSEUDO_R2, K_ACCURACY, K_PRECISION, K_RECALL, K_FALLOUT, K_TNR, K_F1]
                            @ (if has_predict_proba stub_env (fitted e) then [K_AUC] else []))"
    by blast
  have mem: "(''DecisionTreeClassifier'', e2)
          \<in> set [(''LogisticRegression'', e1), (''DecisionTreeClassifier'', e2)]" by simp
  note inst = t(4) [THEN spec [where x = "''DecisionTreeClassifier''"], THEN spec [where x = e2]]
  from inst mem have "\<exists>sc. est_scores e2 = Some sc
                      \<and> map fst sc
                          = [K_PSEUDO_R2, K_ACCURACY, K_PRECISION, K_RECALL, K_FALLOUT, K_TNR, K_F1]
                            @ (if has_predict_proba stub_env (fitted e2) then [K_AUC] else [])"
    by (rule mp)
  then obtain sc where
    k0: "est_scores e2 = Some sc"
        "map fst sc = [K_PSEUDO_R2, K_ACCURACY, K_PRECISION, K_RECALL, K_FALLOUT, K_TNR, K_F1]
                        @ (if has_predict_proba stub_env (fitted e2) then [K_AUC] else [])"
    by blast
  have k1: "map fst sc = [K_PSEUDO_R2, K_ACCURACY, K_PRECISION, K_RECALL, K_FALLOUT, K_TNR, K_F1, K_AUC]"
    unfolding k0(2) by (simp add: h)
  note k = k0(1) k1
  have r: "my_classification stub_env (\<lambda>i. i) ?x ?y None None
           stub_ops (Some [''logistic'', ''dtree'']) []
           = Inr ([(''LogisticRegression'', e1), (''DecisionTreeClassifier'', e2)], [PrettyTable tbl])"
    using run t(1) by simp
  show ?thesis
    apply (intro conjI c v n)
    apply (rule exI [of _ e1], rule exI [of _ e2], rule exI [of _ tbl], rule exI [of _ sc])
    apply (intro conjI r t(2) t(3) h k)
    done
qed

subsection \<open>C5\<close>

text \<open>
  C5. For a target of more than two classes and predictions that fit the labels, the
  training scorecard has the micro-averaged recall, the validation scorecard the
  macro-averaged recall, and both have macro-averaged precision and F1.
\<close>

theorem C5_multiclass_recall_micro_on_train_macro_on_validation:
  assumes "2 < length (classes_of m)"
    and "predictions_ok env m x_train y_train"
    and "predictions_ok env m x_test y_test"
  shows "\<exists>tr te.
           train_scores env m mc x_train y_train = Inr (tr, predict env m x_train)
         \<and> test_scores env m mc x_test y_test = Inr (te, predict env m x_test)
         \<and> map_of tr K_RECALL = Some (Num (recall_score env y_train (predict env m x_train) ''micro''))
         \<and> map_of te K_RECALL = Some (Num (recall_score env y_test (predict env m x_test) ''macro''))
         \<and> map_of tr K_PRECISION
             = Some (Num (precision_score env y_train (predict env m x_train) ''macro''))
         \<and> map_of te K_PRECISION
             = Some (Num (precision_score env y_test (predict env m x_test) ''macro''))
         \<and> map_of tr K_F1 = Some (Num (f1_score env y_train (predict env m x_train) ''macro''))
         \<and> map_of te K_F1 = Some (Num (f1_score env y_test (predict env m x_test) ''macro''))"
proof -
  from assms(1) have nb: "length (classes_of m) \<noteq> 2" by simp
  show ?thesis
    by (simp add: multiclass_scores_total [OF nb assms(2)] multiclass_scores_total [OF nb assms(3)]
          multiclass_result_train_def multiclass_result_test_def map_of_add_multiclass_auc)
qed

theorem C5_witness:
  "2 < length (classes_of three_class_model)
   \<and> predictions_ok stub_env three_class_model [[- 1], [1], [2], [- 3]] [0, 1, 2, 0]
   \<and> predictions_ok stub_env three_class_model [[5], [- 5]] [2, 1]
   \<and> (\<exists>tr te.
         train_scores stub_env three_class_model None [[- 1], [1], [2], [- 3]] [0, 1, 2, 0]
           = Inr (tr, [0, 2, 2, 0])
       \<and> test_scores stub_env three_class_model None [[5], [- 5]] [2, 1] = Inr (te, [2, 0])
       \<and> map_of tr K_RECALL = Some (Num (Fin (1 / 4)))
       \<and> map_of te K_RECALL = Some (Num (Fin (1 / 2))))"
proof -
  have c: "2 < length (classes_of three_class_model)"
    by (simp add: three_class_model_def classes_of_def)
  have p1: "predictions_ok stub_env three_class_model [[- 1], [1], [2], [- 3]] [0, 1, 2, 0]"
    by (simp add: predictions_ok_def three_class_model_def stub_defs classes_of_def)
  have p2: "predictions_ok stub_env three_class_model [[5], [- 5]] [2, 1]"
    by (simp add: predictions_ok_def three_class_model_def stub_defs classes_of_def)
  have e1: "predict stub_env three_class_model [[- 1], [1], [2], [- 3]] = [0, 2, 2, 0]"
    by (simp add: three_class_model_def stub_defs classes_of_def)
  have e2: "predict stub_env three_class_model [[5], [- 5]] = [2, 0]"
    by (simp add: three_class_model_def stub_defs classes_of_def)
  have r1: "recall_score stub_env [0, 1, 2, 0] [0, 2, 2, 0] ''micro'' = Fin (1 / 4)"
    by (simp add: stub_env_def)
  have r2: "recall_score stub_env [2, 1] [2, 0] ''macro'' = Fin (1 / 2)"
    by (simp add: stub_env_def)
  from C5_multiclass_recall_micro_on_train_macro_on_validation [OF c p1 p2, of None]
  show ?thesis using c p1 p2 by (simp only: e1 e2 r1 r2) blast
qed

subsection \<open>C6\<close>

text \<open>
  C6. For a binary target the pseudo R2 entry of a split's scorecard is, for a logistic
  regression, one minus the quotient of the unnormalized log-loss of the fitted model and
  the unnormalized log-loss of the null model that predicts the mean of the split's
  labels for every sample, and zero for every other class. The displayed table is the
  table the metric reporter prints (lines 439 to 447): when it prints, the rows of that
  table are the keys of the scorecards, and the pseudo R2 row is absent exactly when the
  class is not the logistic regression; when it does not print, it displays no table,
  and so does no job that the dispatcher runs.
\<close>

theorem C6_pseudo_r2_entry_and_display:
  assumes "length (classes_of m) = 2"
  shows "(train_scores env m mc x y = Inr (sc, p)
           \<longrightarrow> map_of sc K_PSEUDO_R2 = Some (Num (spec_pseudo_r2 env m x y)))
       \<and> (test_scores env m mc x' y' = Inr (sc', p')
           \<longrightarrow> map_of sc' K_PSEUDO_R2 = Some (Num (spec_pseudo_r2 env m x' y')))
       \<and> (fitted e0 = m
            \<and> my_classification_result env e0 x_train y_train x_test y_test ops = Inr (e, evs)
           \<longrightarrow> (if is_print ops
                then \<exists>tbl. filter is_table evs = [PrettyTable tbl]
                       \<and> t_index tbl
                           = (if m_class m = LogisticRegression then [K_PSEUDO_R2] else [])
                             @ [K_ACCURACY, K_PRECISION, K_RECALL, K_FALLOUT, K_TNR, K_F1]
                             @ (if has_predict_proba env m then [K_AUC] else [])
                       \<and> t_columns tbl = reported_names x_train y_train x_test y_test
                else filter is_table evs = []))
       \<and> ((c, j) \<in> set (submitted algorithm)
            \<and> j env x y x_test y_test (ops\<lparr> is_print := False \<rparr>) params = Inr (r, jev)
           \<longrightarrow> filter is_table jev = [])"
proof (intro conjI impI)
  assume "(c, j) \<in> set (submitted algorithm)
            \<and> j env x y x_test y_test (ops\<lparr> is_print := False \<rparr>) params = Inr (r, jev)"
  then show "filter is_table jev = []"
    using dispatcher_job_no_table [of c j algorithm env x y x_test y_test ops params r jev]
    by simp
next
  assume "train_scores env m mc x y = Inr (sc, p)"
  then show "map_of sc K_PSEUDO_R2 = Some (Num (spec_pseudo_r2 env m x y))"
    by (rule binary_scores_pseudo_r2 (1) [OF assms])
next
  assume "test_scores env m mc x' y' = Inr (sc', p')"
  then show "map_of sc' K_PSEUDO_R2 = Some (Num (spec_pseudo_r2 env m x' y'))"
    by (rule binary_scores_pseudo_r2 (2) [OF assms])
next
  assume a: "fitted e0 = m
            \<and> my_classification_result env e0 x_train y_train x_test y_test ops = Inr (e, evs)"
  then have f: "fitted e0 = m"
    and r: "my_classification_result env e0 x_train y_train x_test y_test ops = Inr (e, evs)"
    by simp_all
  from assms f have b: "length (classes_of (fitted e0)) = 2" by simp
  note d = displayed_table_binary [OF b r, unfolded f]
  show "if is_print ops
        then \<exists>tbl. filter is_table evs = [PrettyTable tbl]
               \<and> t_index tbl
                   = (if m_class m = LogisticRegression then [K_PSEUDO_R2] else [])
                     @ [K_ACCURACY, K_PRECISION, K_RECALL, K_FALLOUT, K_TNR, K_F1]
                     @ (if has_predict_proba env m then [K_AUC] else [])
               \<and> t_columns tbl = reported_names x_train y_train x_test y_test
        else filter is_table evs = []"
  proof (cases "is_print ops")
    case True
    with d(1) have "filter is_table evs
        = [PrettyTable (transpose_table (displayed_scores m
             (the_scores env m (multiclass ops) x_train y_train x_test y_test)
             (reported_names x_train y_train x_test y_test)))]" by simp
    with d(2,3) True show ?thesis by simp
  next
    case False
    with d(1) show ?thesis by simp
  qed
qed

theorem C6_witness:
  "length (classes_of logistic_model) = 2 \<and> length (classes_of tree_model) = 2
   \<and> (\<exists>sc p sc' p' e evs tbl.
        train_scores stub_env logistic_model None [[- 1], [1], [2], [- 3]] [0, 1, 1, 0] = Inr (sc, p)
      \<and> map_of sc K_PSEUDO_R2 = Some (Num (Fin (3 / 4)))
      \<and> test_scores stub_env logistic_model None [[4], [- 4]] [1, 0] = Inr (sc', p')
      \<and> map_of sc' K_PSEUDO_R2 = Some (Num (Fin (3 / 4)))
      \<and> is_print stub_ops
      \<and> my_classification_result stub_env (new_estimator logistic_model)
           (Some [[- 1], [1], [2], [- 3]]) (Some [0, 1, 1, 0]) (Some [[4], [- 4]]) (Some [1, 0])
           stub_ops = Inr (e, evs)
      \<and> filter is_table evs = [PrettyTable tbl]
      \<and> t_index tbl
          = [K_PSEUDO_R2, K_ACCURACY, K_PRECISION, K_RECALL, K_FALLOUT, K_TNR, K_F1, K_AUC]
      \<and> t_columns tbl = [''train'', ''test'', ''description''])
   \<and> (\<exists>sc p e evs tbl.
        train_scores stub_env tree_model None [[- 1], [1], [2], [- 3]] [0, 1, 1, 0] = Inr (sc, p)
      \<and> map_of sc K_PSEUDO_R2 = Some (Num (Fin 0))
      \<and> my_classification_result stub_env (new_estimator tree_model)
           (Some [[- 1], [1], [2], [- 3]]) (Some [0, 1, 1, 0]) None None stub_ops = Inr (e, evs)
      \<and> filter is_table evs = [PrettyTable tbl]
      \<and> t_index tbl = [K_ACCURACY, K_PRECISION, K_RECALL, K_FALLOUT, K_TNR, K_F1, K_AUC]
      \<and> t_columns tbl = [''train'', ''description''])
   \<and> (\<exists>e evs.
        my_classification_result stub_env (new_estimator tree_model)
           (Some [[- 1], [1], [2], [- 3]]) (Some [0, 1, 1, 0]) None None
           (stub_ops\<lparr> is_print := False \<rparr>) = Inr (e, evs)
      \<and> filter is_table evs = [])
   \<and> (DecisionTreeClassifier, my_dtree_classification) \<in> set (submitted (Some [''dtree'']))
   \<and> (\<exists>r jev.
        my_dtree_classification stub_env [[- 1], [1], [2], [- 3]] [0, 1, 1, 0] None None
          (stub_ops\<lparr> is_print := False \<rparr>) [] = Inr (r, jev)
      \<and> filter is_table jev = [])"
proof -
  let ?x = "[[- 1], [1], [2], [- 3]] :: DataFrame" and ?y = "[0, 1, 1, 0] :: Series"
  let ?xt = "[[4], [- 4]] :: DataFrame" and ?yt = "[1, 0] :: Series"
  have b: "length (classes_of logistic_model) = 2"
    by (simp add: logistic_model_def classes_of_def)
  have bt: "length (classes_of tree_model) = 2"
    by (simp add: tree_model_def classes_of_def)
  have "\<exists>sc p. train_scores stub_env logistic_model None ?x ?y = Inr (sc, p)"
    by (simp add: logistic_model_def stub_defs report_defs Let_def)
  then obtain sc p where tr: "train_scores stub_env logistic_model None ?x ?y = Inr (sc, p)" by blast
  have "\<exists>sc p. test_scores stub_env logistic_model None ?xt ?yt = Inr (sc, p)"
    by (simp add: logistic_model_def stub_defs report_defs Let_def)
  then obtain sc' p' where te: "test_scores stub_env logistic_model None ?xt ?yt = Inr (sc', p')" by blast
  have "\<exists>e evs. my_classification_result stub_env (new_estimator logistic_model)
           (Some ?x) (Some ?y) (Some ?xt) (Some ?yt) stub_ops = Inr (e, evs)"
    using tr te
    by (simp add: my_classification_result_def Let_def run_split_def split_of_def split_row_def
          matrix_shown_def curves_shown_def stub_ops_def new_estimator_def)
  then obtain e evs where r: "my_classification_result stub_env (new_estimator logistic_model)
           (Some ?x) (Some ?y) (Some ?xt) (Some ?yt) stub_ops = Inr (e, evs)" by blast
  have "\<exists>sc p. train_scores stub_env tree_model None ?x ?y = Inr (sc, p)"
    by (simp add: tree_model_def stub_defs report_defs Let_def)
  then obtain tsc tp where ttr: "train_scores stub_env tree_model None ?x ?y = Inr (tsc, tp)" by blast
  have "\<exists>e evs. my_classification_result stub_env (new_estimator tree_model)
           (Some ?x) (Some ?y) None None stub_ops = Inr (e, evs)"
    using ttr
    by (simp add: my_classification_result_def Let_def run_split_def split_of_def split_row_def
          matrix_shown_def curves_shown_def stub_ops_def new_estimator_def)
  then obtain te1 tevs1 where tr1: "my_classification_result stub_env (new_estimator tree_model)
           (Some ?x) (Some ?y) None None stub_ops = Inr (te1, tevs1)" by blast
  have "\<exists>e evs. my_classification_result stub_env (new_estimator tree_model)
           (Some ?x) (Some ?y) None None (stub_ops\<lparr> is_print := False \<rparr>) = Inr (e, evs)"
    using ttr
    by (simp add: my_classification_result_def Let_def run_split_def split_of_def split_row_def
          matrix_shown_def curves_shown_def stub_ops_def new_estimator_def)
  then obtain te2 tevs2 where tr2: "my_classification_result stub_env (new_estimator tree_model)
           (Some ?x) (Some ?y) None None (stub_ops\<lparr> is_print := False \<rparr>) = Inr (te2, tevs2)" by blast
  have f: "fitted (new_estimator logistic_model) = logistic_model"
    and ft: "fitted (new_estimator tree_model) = tree_model" by (simp_all add: new_estimator_def)
  have pr: "is_print stub_ops" "\<not> is_print (stub_ops\<lparr> is_print := False \<rparr>)"
    by (simp_all add: stub_ops_def)
  have v1: "spec_pseudo_r2 stub_env logistic_model ?x ?y = Fin (3 / 4)"
    by (simp add: spec_pseudo_r2_def logistic_model_def stub_env_def np_sub_def np_div_def)
  have v2: "spec_pseudo_r2 stub_env logistic_model ?xt ?yt = Fin (3 / 4)"
    by (simp add: spec_pseudo_r2_def logistic_model_def stub_env_def np_sub_def np_div_def)
  have v3: "spec_pseudo_r2 stub_env tree_model ?x ?y = Fin 0"
    by (simp add: spec_pseudo_r2_def tree_model_def)
  have c: "m_class logistic_model = LogisticRegression" "m_class tree_model \<noteq> LogisticRegression"
    "has_predict_proba stub_env logistic_model" "has_predict_proba stub_env tree_model"
    by (simp_all add: logistic_model_def tree_model_def stub_defs)
  have n: "reported_names (Some ?x) (Some ?y) (Some ?xt) (Some ?yt) = [''train'', ''test'', ''description'']"
    "reported_names (Some ?x) (Some ?y) None None = [''train'', ''description'']"
    by (simp_all add: reported_names_def)
  note L = C6_pseudo_r2_entry_and_display [OF b, of stub_env None ?x ?y sc p ?xt ?yt sc' p'
      "new_estimator logistic_model" "Some ?x" "Some ?y" "Some ?xt" "Some ?yt" stub_ops e evs]
  from L tr have l1: "map_of sc K_PSEUDO_R2 = Some (Num (Fin (3 / 4)))" unfolding v1 by simp
  from L te have l2: "map_of sc' K_PSEUDO_R2 = Some (Num (Fin (3 / 4)))" unfolding v2 by simp
  from L r f pr(1) have "\<exists>tbl. filter is_table evs = [PrettyTable tbl]
      \<and> t_index tbl = [K_PSEUDO_R2, K_ACCURACY, K_PRECISION, K_RECALL, K_FALLOUT, K_TNR, K_F1, K_AUC]
      \<and> t_columns tbl = [''train'', ''test'', ''description'']"
    unfolding n by (simp add: c)
  then obtain tbl where l3: "filter is_table evs = [PrettyTable tbl]"
      "t_index tbl = [K_PSEUDO_R2, K_ACCURACY, K_PRECISION, K_RECALL, K_FALLOUT, K_TNR, K_F1, K_AUC]"
      "t_columns tbl = [''train'', ''test'', ''description'']" by blast
  note T1 = C6_pseudo_r2_entry_and_display [OF bt, of stub_env None ?x ?y tsc tp ?x ?y tsc tp
      "new_estimator tree_model" "Some ?x" "Some ?y" None None stub_ops te1 tevs1]
  from T1 ttr have t1: "map_of tsc K_PSEUDO_R2 = Some (Num (Fin 0))" unfolding v3 by simp
  from T1 tr1 ft pr(1) have "\<exists>tbl. filter is_table tevs1 = [PrettyTable tbl]
      \<and> t_index tbl = [K_ACCURACY, K_PRECISION, K_RECALL, K_FALLOUT, K_TNR, K_F1, K_AUC]
      \<and> t_columns tbl = [''train'', ''description'']"
    unfolding n by (simp add: c)
  then obtain ttbl where t2: "filter is_table tevs1 = [PrettyTable ttbl]"
      "t_index ttbl = [K_ACCURACY, K_PRECISION, K_RECALL, K_FALLOUT, K_TNR, K_F1, K_AUC]"
      "t_columns ttbl = [''train'', ''description'']" by blast
  note T2 = C6_pseudo_r2_entry_and_display [OF bt, of stub_env None ?x ?y tsc tp ?x ?y tsc tp
      "new_estimator tree_model" "Some ?x" "Some ?y" None None "stub_ops\<lparr> is_print := False \<rparr>"
      te2 tevs2]
  from T2 tr2 ft pr(2) have t3: "filter is_table tevs2 = []" by simp
  have A: "\<exists>sc p sc' p' e evs tbl.
        train_scores stub_env logistic_model None ?x ?y = Inr (sc, p)
      \<and> map_of sc K_PSEUDO_R2 = Some (Num (Fin (3 / 4)))
      \<and> test_scores stub_env logistic_model None ?xt ?yt = Inr (sc', p')
      \<and> map_of sc' K_PSEUDO_R2 = Some (Num (Fin (3 / 4)))
      \<and> is_print stub_ops
      \<and> my_classification_result stub_env (new_estimator logistic_model)
           (Some ?x) (Some ?y) (Some ?xt) (Some ?yt) stub_ops = Inr (e, evs)
      \<and> filter is_table evs = [PrettyTable tbl]
      \<and> t_index tbl
          = [K_PSEUDO_R2, K_ACCURACY, K_PRECISION, K_RECALL, K_FALLOUT, K_TNR, K_F1, K_AUC]
      \<and> t_columns tbl = [''train'', ''test'', ''description'']"
    apply (rule exI [of _ sc], rule exI [of _ p], rule exI [of _ sc'], rule exI [of _ p'])
    apply (rule exI [of _ e], rule exI [of _ evs], rule exI [of _ tbl])
    apply (intro conjI tr l1 te l2 pr(1) r l3)
    done
  have B: "\<exists>sc p e evs tbl.
        train_scores stub_env tree_model None ?x ?y = Inr (sc, p)
      \<and> map_of sc K_PSEUDO_R2 = Some (Num (Fin 0))
      \<and> my_classification_result stub_env (new_estimator tree_model)
           (Some ?x) (Some ?y) None None stub_ops = Inr (e, evs)
      \<and> filter is_table evs = [PrettyTable tbl]
      \<and> t_index tbl = [K_ACCURACY, K_PRECISION, K_RECALL, K_FALLOUT, K_TNR, K_F1, K_AUC]
      \<and> t_columns tbl = [''train'', ''description'']"
    apply (rule exI [of _ tsc], rule exI [of _ tp], rule exI [of _ te1], rule exI [of _ tevs1])
    apply (rule exI [of _ ttbl])
    apply (intro conjI ttr t1 tr1 t2)
    done
  have C: "\<exists>e evs.
        my_classification_result stub_env (new_estimator tree_model)
           (Some ?x) (Some ?y) None None (stub_ops\<lparr> is_print := False \<rparr>) = Inr (e, evs)
      \<and> filter is_table evs = []"
    apply (rule exI [of _ te2], rule exI [of _ tevs2])
    apply (intro conjI tr2 t3)
    done
  have sub: "(DecisionTreeClassifier, my_dtree_classification) \<in> set (submitted (Some [''dtree'']))"
    by (simp add: submitted_def wanted_def)
  have "\<exists>r jev. my_dtree_classification stub_env ?x ?y None None
          (stub_ops\<lparr> is_print := False \<rparr>) [] = Inr (r, jev)"
    by (simp add: job_defs stub_defs report_defs Let_def)
  then obtain r jev where job: "my_dtree_classification stub_env ?x ?y None None
          (stub_ops\<lparr> is_print := False \<rparr>) [] = Inr (r, jev)" by blast
  note J = C6_pseudo_r2_entry_and_display [OF bt, where env = stub_env and c = DecisionTreeClassifier
      and j = my_dtree_classification and algorithm = "Some [''dtree'']" and x = ?x
      and y = ?y and x_test = None and y_test = None and ops = stub_ops and params = "[]"
      and r = r and jev = jev]
  note J4 = J [THEN conjunct2, THEN conjunct2, THEN conjunct2]
  from sub job have "(DecisionTreeClassifier, my_dtree_classification) \<in> set (submitted (Some [''dtree'']))
      \<and> my_dtree_classification stub_env ?x ?y None None (stub_ops\<lparr> is_print := False \<rparr>) []
          = Inr (r, jev)" by (intro conjI)
  from J4 [THEN mp, OF this] have nt: "filter is_table jev = []" .
  have D: "\<exists>r jev. my_dtree_classification stub_env ?x ?y None None
          (stub_ops\<lparr> is_print := False \<rparr>) [] = Inr (r, jev) \<and> filter is_table jev = []"
    by (rule exI [of _ r], rule exI [of _ jev]) (intro conjI job nt)
  from b bt A B C sub D show ?thesis by (intro conjI)
qed

subsection \<open>C7\<close>

text \<open>
  C7, as amended. In the reporter, for more than two classes and a handle with
  probabilities, a scorecard has the one-vs-one AUC exactly when the selector it is given
  is \<open>ovo\<close> or absent, and the one-vs-rest AUC exactly when it is \<open>ovr\<close> or absent. The
  dispatcher hands its selector to every job but the SVC job, whose reporter gets no
  selector: with the selector \<open>ovr\<close>, every entry with probabilities has the one-vs-rest
  AUC, and it has the one-vs-one AUC exactly when it is the SVC entry.
\<close>

theorem C7_auc_keys_follow_the_selector_the_job_receives:
  "(2 < length (classes_of m) \<and> has_predict_proba env m
      \<and> train_scores env m mc x y = Inr (sc, p)
    \<longrightarrow> (K_AUC_OVO \<in> fst ` set sc) = (mc = Some ''ovo'' \<or> mc = None)
        \<and> (K_AUC_OVR \<in> fst ` set sc) = (mc = Some ''ovr'' \<or> mc = None))
   \<and> (2 < length (classes_of m) \<and> has_predict_proba env m
      \<and> test_scores env m mc x' y' = Inr (sc', p')
    \<longrightarrow> (K_AUC_OVO \<in> fst ` set sc') = (mc = Some ''ovo'' \<or> mc = None)
        \<and> (K_AUC_OVR \<in> fst ` set sc') = (mc = Some ''ovr'' \<or> mc = None))
   \<and> (2 < card (set y_train) \<and> multiclass ops = Some ''ovr''
      \<and> my_classification env finish_time x_train y_train x_test y_test ops algorithm params
          = Inr (ests, evs)
      \<and> (n, e) \<in> set ests \<and> has_predict_proba env (fitted e)
    \<longrightarrow> (\<exists>sc. est_scores e = Some sc \<and> K_AUC_OVR \<in> fst ` set sc
              \<and> (K_AUC_OVO \<in> fst ` set sc) = (n = ''SVC'')))"
proof -
  have A: "2 < length (classes_of m) \<and> has_predict_proba env m
      \<and> train_scores env m mc x y = Inr (sc, p)
    \<longrightarrow> (K_AUC_OVO \<in> fst ` set sc) = (mc = Some ''ovo'' \<or> mc = None)
        \<and> (K_AUC_OVR \<in> fst ` set sc) = (mc = Some ''ovr'' \<or> mc = None)"
    using multiclass_reporter_auc [of m env mc x y sc p] by blast
  have B: "2 < length (classes_of m) \<and> has_predict_proba env m
      \<and> test_scores env m mc x' y' = Inr (sc', p')
    \<longrightarrow> (K_AUC_OVO \<in> fst ` set sc') = (mc = Some ''ovo'' \<or> mc = None)
        \<and> (K_AUC_OVR \<in> fst ` set sc') = (mc = Some ''ovr'' \<or> mc = None)"
    using multiclass_reporter_auc [of m env mc x' y' sc' p'] by blast
  have C: "2 < card (set y_train) \<and> multiclass ops = Some ''ovr''
      \<and> my_classification env finish_time x_train y_train x_test y_test ops algorithm params
          = Inr (ests, evs)
      \<and> (n, e) \<in> set ests \<and> has_predict_proba env (fitted e)
    \<longrightarrow> (\<exists>sc. est_scores e = Some sc \<and> K_AUC_OVR \<in> fst ` set sc
              \<and> (K_AUC_OVO \<in> fst ` set sc) = (n = ''SVC''))"
  proof
    assume a: "2 < card (set y_train) \<and> multiclass ops = Some ''ovr''
        \<and> my_classification env finish_time x_train y_train x_test y_test ops algorithm params
            = Inr (ests, evs)
        \<and> (n, e) \<in> set ests \<and> has_predict_proba env (fitted e)"
    then have run: "my_classification env finish_time x_train y_train x_test y_test ops algorithm params
            = Inr (ests, evs)" and mem: "(n, e) \<in> set ests" by simp_all
    from dispatcher_entry [OF run mem] obtain c sc p where
      n: "n = class_name c" and y: "m_y (fitted e) = y_train" and s: "est_scores e = Some sc"
      and st: "stored_scores env (fitted e) (if c = SVC then None else multiclass ops)
                  x_train y_train x_test y_test = Inr (sc, p)"
      by blast
    from a y have three: "2 < length (classes_of (fitted e))" by (simp add: length_classes_of)
    from stored_scores_keys [OF st] three a
    have "map fst sc = multiclass_keys True (if c = SVC then None else Some ''ovr'')"
      by (simp add: score_keys_def)
    then have k: "fst ` set sc = set (multiclass_keys True (if c = SVC then None else Some ''ovr''))"
      by (metis set_map)
    have "K_AUC_OVR \<in> fst ` set sc \<and> (K_AUC_OVO \<in> fst ` set sc) = (n = ''SVC'')"
      by (simp only: k multiclass_keys_auc n class_name_SVC) simp
    with s show "\<exists>sc. est_scores e = Some sc \<and> K_AUC_OVR \<in> fst ` set sc
                \<and> (K_AUC_OVO \<in> fst ` set sc) = (n = ''SVC'')" by blast
  qed
  from A B C show ?thesis by (intro conjI)
qed

text \<open>
  C7, as stated, fails: with the selector \<open>ovr\<close>, three classes and an SVC that has
  probabilities, the SVC job succeeds and its scorecard has both AUC entries.
\<close>

theorem C7_counterexample:
  "report_keys (my_classification stub_env (\<lambda>i. i) [[- 1], [1], [2], [- 3]] [0, 1, 2, 0] None None
                  (stub_ops\<lparr> multiclass := Some ''ovr'' \<rparr>) (Some [''svc''])
                  [(''probability'', PBool True)])
     = [(''SVC'', [K_ACCURACY, K_PRECISION, K_RECALL, K_F1, K_AUC_OVO, K_AUC_OVR])]"
  by (simp add: report_keys_def dispatch_defs job_defs stub_defs report_defs Let_def)

theorem C7_witness:
  "2 < length (classes_of three_class_model) \<and> has_predict_proba stub_env three_class_model
   \<and> (\<exists>sc p. train_scores stub_env three_class_model (Some ''ovr'') [[- 1], [1], [2], [- 3]] [0, 1, 2, 0]
                = Inr (sc, p)
            \<and> K_AUC_OVR \<in> fst ` set sc \<and> K_AUC_OVO \<notin> fst ` set sc)
   \<and> (\<exists>sc p. test_scores stub_env three_class_model (Some ''ovr'') [[5], [- 5]] [2, 1] = Inr (sc, p)
            \<and> K_AUC_OVR \<in> fst ` set sc \<and> K_AUC_OVO \<notin> fst ` set sc)
   \<and> 2 < card (set [0, 1, 2, 0 :: int])
   \<and> multiclass (stub_ops\<lparr> multiclass := Some ''ovr'' \<rparr>) = Some ''ovr''
   \<and> (\<exists>e evs sc.
         my_classification stub_env (\<lambda>i. i) [[- 1], [1], [2], [- 3]] [0, 1, 2, 0] None None
           (stub_ops\<lparr> multiclass := Some ''ovr'' \<rparr>) (Some [''knn'']) []
           = Inr ([(''KNeighborsClassifier'', e)], evs)
       \<and> has_predict_proba stub_env (fitted e)
       \<and> est_scores e = Some sc \<and> K_AUC_OVR \<in> fst ` set sc \<and> K_AUC_OVO \<notin> fst ` set sc)"
proof -
  let ?x = "[[- 1], [1], [2], [- 3]] :: DataFrame" and ?y = "[0, 1, 2, 0] :: Series"
  let ?ops = "stub_ops\<lparr> multiclass := Some ''ovr'' \<rparr>"
  have c: "2 < length (classes_of three_class_model)"
    by (simp add: three_class_model_def classes_of_def)
  have h: "has_predict_proba stub_env three_class_model"
    by (simp add: three_class_model_def stub_defs)
  have p1: "predictions_ok stub_env three_class_model ?x ?y"
    by (simp add: predictions_ok_def three_class_model_def stub_defs classes_of_def)
  have p2: "predictions_ok stub_env three_class_model [[5], [- 5]] [2, 1]"
    by (simp add: predictions_ok_def three_class_model_def stub_defs classes_of_def)
  from c have nb: "length (classes_of three_class_model) \<noteq> 2" by simp
  from multiclass_scores_total (1) [OF nb p1] obtain sc p where
    tr: "train_scores stub_env three_class_model (Some ''ovr'') ?x ?y = Inr (sc, p)" by blast
  from multiclass_scores_total (2) [OF nb p2] obtain sc' p' where
    te: "test_scores stub_env three_class_model (Some ''ovr'') [[5], [- 5]] [2, 1] = Inr (sc', p')"
    by blast
  have k: "2 < card (set ?y)" unfolding List.card_set by simp
  have mo: "multiclass ?ops = Some ''ovr''" by simp
  have "\<exists>e evs. my_classification stub_env (\<lambda>i. i) ?x ?y None None ?ops (Some [''knn'']) []
           = Inr ([(''KNeighborsClassifier'', e)], evs)
        \<and> has_predict_proba stub_env (fitted e)"
    by (simp add: dispatch_defs job_defs stub_defs report_defs Let_def)
  then obtain e evs where
    run: "my_classification stub_env (\<lambda>i. i) ?x ?y None None ?ops (Some [''knn'']) []
           = Inr ([(''KNeighborsClassifier'', e)], evs)"
    and he: "has_predict_proba stub_env (fitted e)" by blast
  have mem: "(''KNeighborsClassifier'', e) \<in> set [(''KNeighborsClassifier'', e)]" by simp
  note T = C7_auc_keys_follow_the_selector_the_job_receives
             [of three_class_model stub_env "Some ''ovr''" ?x ?y sc p "[[5], [- 5]]" "[2, 1]" sc' p'
                 ?y ?ops "\<lambda>i. i" ?x None None "Some [''knn'']" "[]"
                 "[(''KNeighborsClassifier'', e)]" evs "''KNeighborsClassifier''" e]
  from T c h tr have a: "K_AUC_OVR \<in> fst ` set sc \<and> K_AUC_OVO \<notin> fst ` set sc" by simp
  from T c h te have b: "K_AUC_OVR \<in> fst ` set sc' \<and> K_AUC_OVO \<notin> fst ` set sc'" by simp
  from T k mo run mem he
  have "\<exists>sc. est_scores e = Some sc \<and> K_AUC_OVR \<in> fst ` set sc
              \<and> (K_AUC_OVO \<in> fst ` set sc) = (''KNeighborsClassifier'' = ''SVC'')" by blast
  then obtain s where d: "est_scores e = Some s \<and> K_AUC_OVR \<in> fst ` set s \<and> K_AUC_OVO \<notin> fst ` set s"
    by auto
  from c h tr a te b k mo run he d show ?thesis by blast
qed

subsection \<open>C8\<close>

text \<open>
  C8, as amended. For well-formed label inputs in which every class of the handle appears
  among the true labels, both split functions return a scorecard, provided that a binary
  target has the label 1 as one of its two classes (and the classes 0 and 1 for a
  logistic regression); for a binary target without the label 1 they raise
  \<^verbatim>\<open>ValueError\<close>. When the negative class (the first of the two classes) has no sample
  among the true labels, the fallout and specificity entries of a scorecard are NaN, not
  zero; there is such a scorecard for a handle without probabilities that is not a
  logistic regression, when 1 is a class and the predictions have the negative class.
  When the negative class has a sample among the true labels, the two entries are
  numbers: the share of the actual negatives that are predicted positive, and one minus
  that share.
\<close>

theorem C8_no_raise_with_label_1_and_NaN_for_empty_negative_class:
  "(well_formed env m x y \<and> (length (classes_of m) = 2 \<longrightarrow> binary_labels_ok m)
     \<longrightarrow> (\<exists>sc. train_scores env m mc x y = Inr (sc, predict env m x))
       \<and> (\<exists>sc. test_scores env m mc x y = Inr (sc, predict env m x)))
   \<and> (well_formed env m x y \<and> length (classes_of m) = 2 \<and> 1 \<notin> set (classes_of m)
     \<longrightarrow> train_scores env m mc x y = Inl ValueError
       \<and> test_scores env m mc x y = Inl ValueError)
   \<and> (length (classes_of m) = 2 \<and> hd (classes_of m) \<notin> set y'
        \<and> set y' \<subseteq> set (classes_of m) \<and> set (predict env m x') \<subseteq> set (classes_of m)
        \<and> (train_scores env m mc x' y' = Inr (sc, p) \<or> test_scores env m mc x' y' = Inr (sc, p))
     \<longrightarrow> map_of sc K_FALLOUT = Some (Num NaN) \<and> map_of sc K_TNR = Some (Num NaN)
       \<and> map_of sc K_FALLOUT \<noteq> Some (Num (Fin 0)) \<and> map_of sc K_TNR \<noteq> Some (Num (Fin 0)))
   \<and> (classes_of m = [a, b] \<and> (a = 1 \<or> b = 1)
        \<and> \<not> has_predict_proba env m \<and> m_class m \<noteq> LogisticRegression
        \<and> length (predict env m x') = length y' \<and> set y' = {b}
        \<and> a \<in> set (predict env m x') \<and> set (predict env m x') \<subseteq> {a, b}
     \<longrightarrow> (\<exists>sc. test_scores env m mc x' y' = Inr (sc, predict env m x')
              \<and> map_of sc K_FALLOUT = Some (Num NaN) \<and> map_of sc K_TNR = Some (Num NaN)))
   \<and> (classes_of m = [a, b] \<and> a \<in> set y'
        \<and> set y' \<subseteq> {a, b} \<and> set (predict env m x') \<subseteq> {a, b}
        \<and> (train_scores env m mc x' y' = Inr (sc, p) \<or> test_scores env m mc x' y' = Inr (sc, p))
     \<longrightarrow> map_of sc K_FALLOUT
           = Some (Num (Fin (real (count_pairs y' (predict env m x') a b)
                             / real (length (filter (\<lambda>v. v = a) y')))))
       \<and> map_of sc K_TNR
           = Some (Num (Fin (1 - real (count_pairs y' (predict env m x') a b)
                                 / real (length (filter (\<lambda>v. v = a) y'))))))"
proof -
  have A: "well_formed env m x y \<and> (length (classes_of m) = 2 \<longrightarrow> binary_labels_ok m)
     \<longrightarrow> (\<exists>sc. train_scores env m mc x y = Inr (sc, predict env m x))
       \<and> (\<exists>sc. test_scores env m mc x y = Inr (sc, predict env m x))"
    using well_formed_total [of env m x y mc] by blast
  have A': "well_formed env m x y \<and> length (classes_of m) = 2 \<and> 1 \<notin> set (classes_of m)
     \<longrightarrow> train_scores env m mc x y = Inl ValueError
       \<and> test_scores env m mc x y = Inl ValueError"
    using binary_without_label_1_raises [of env m x y mc] by blast
  have B: "length (classes_of m) = 2 \<and> hd (classes_of m) \<notin> set y'
        \<and> set y' \<subseteq> set (classes_of m) \<and> set (predict env m x') \<subseteq> set (classes_of m)
        \<and> (train_scores env m mc x' y' = Inr (sc, p) \<or> test_scores env m mc x' y' = Inr (sc, p))
     \<longrightarrow> map_of sc K_FALLOUT = Some (Num NaN) \<and> map_of sc K_TNR = Some (Num NaN)
       \<and> map_of sc K_FALLOUT \<noteq> Some (Num (Fin 0)) \<and> map_of sc K_TNR \<noteq> Some (Num (Fin 0))"
  proof
    assume h: "length (classes_of m) = 2 \<and> hd (classes_of m) \<notin> set y'
        \<and> set y' \<subseteq> set (classes_of m) \<and> set (predict env m x') \<subseteq> set (classes_of m)
        \<and> (train_scores env m mc x' y' = Inr (sc, p) \<or> test_scores env m mc x' y' = Inr (sc, p))"
    then have "map_of sc K_FALLOUT = Some (Num NaN) \<and> map_of sc K_TNR = Some (Num NaN)"
      using empty_negative_class_NaN [of m y' env x' mc sc p] by blast
    then show "map_of sc K_FALLOUT = Some (Num NaN) \<and> map_of sc K_TNR = Some (Num NaN)
       \<and> map_of sc K_FALLOUT \<noteq> Some (Num (Fin 0)) \<and> map_of sc K_TNR \<noteq> Some (Num (Fin 0))"
      by simp
  qed
  have B': "classes_of m = [a, b] \<and> (a = 1 \<or> b = 1)
        \<and> \<not> has_predict_proba env m \<and> m_class m \<noteq> LogisticRegression
        \<and> length (predict env m x') = length y' \<and> set y' = {b}
        \<and> a \<in> set (predict env m x') \<and> set (predict env m x') \<subseteq> {a, b}
     \<longrightarrow> (\<exists>sc. test_scores env m mc x' y' = Inr (sc, predict env m x')
              \<and> map_of sc K_FALLOUT = Some (Num NaN) \<and> map_of sc K_TNR = Some (Num NaN))"
  proof
    assume h: "classes_of m = [a, b] \<and> (a = 1 \<or> b = 1)
        \<and> \<not> has_predict_proba env m \<and> m_class m \<noteq> LogisticRegression
        \<and> length (predict env m x') = length y' \<and> set y' = {b}
        \<and> a \<in> set (predict env m x') \<and> set (predict env m x') \<subseteq> {a, b}"
    then have cl: "classes_of m = [a, b]" and one: "a = 1 \<or> b = 1"
      and np: "\<not> has_predict_proba env m" and nl: "m_class m \<noteq> LogisticRegression"
      and len: "length (predict env m x') = length y'" and y: "set y' = {b}"
      and labels: "set y' \<union> set (predict env m x') = {a, b}"
      by auto
    from sorted_classes_of [of m] cl have ab: "a \<noteq> b" by simp
    from binary_scores_without_probabilities (2) [OF cl len labels one np nl, of mc]
    obtain s where s: "test_scores env m mc x' y' = Inr (s, predict env m x')" by blast
    have "map_of s K_FALLOUT = Some (Num NaN) \<and> map_of s K_TNR = Some (Num NaN)"
    proof (rule empty_negative_class_NaN)
      show "length (classes_of m) = 2" by (simp add: cl)
      show "hd (classes_of m) \<notin> set y'" using ab by (simp add: cl y)
      show "set y' \<subseteq> set (classes_of m)" by (simp add: cl y)
      show "set (predict env m x') \<subseteq> set (classes_of m)" using h by (simp add: cl)
      show "train_scores env m mc x' y' = Inr (s, predict env m x')
            \<or> test_scores env m mc x' y' = Inr (s, predict env m x')" using s by simp
    qed
    with s show "\<exists>sc. test_scores env m mc x' y' = Inr (sc, predict env m x')
              \<and> map_of sc K_FALLOUT = Some (Num NaN) \<and> map_of sc K_TNR = Some (Num NaN)"
      by blast
  qed
  have C: "classes_of m = [a, b] \<and> a \<in> set y'
        \<and> set y' \<subseteq> {a, b} \<and> set (predict env m x') \<subseteq> {a, b}
        \<and> (train_scores env m mc x' y' = Inr (sc, p) \<or> test_scores env m mc x' y' = Inr (sc, p))
     \<longrightarrow> map_of sc K_FALLOUT
           = Some (Num (Fin (real (count_pairs y' (predict env m x') a b)
                             / real (length (filter (\<lambda>v. v = a) y')))))
       \<and> map_of sc K_TNR
           = Some (Num (Fin (1 - real (count_pairs y' (predict env m x') a b)
                                 / real (length (filter (\<lambda>v. v = a) y')))))"
    using negative_class_fallout [of m a b y' env x' mc sc p] by blast
  from A A' B B' C show ?thesis by (intro conjI)
qed

text \<open>
  C8, as stated, fails: a decision tree fitted on a target with the labels 2 and 3, its
  training data as input, every class among the true labels; the precision call raises.
\<close>

theorem C8_counterexample:
  "well_formed stub_env tree_model_2_3 [[- 1], [1], [2], [- 3]] [2, 3, 3, 2]
   \<and> train_scores stub_env tree_model_2_3 None [[- 1], [1], [2], [- 3]] [2, 3, 3, 2]
       = Inl ValueError"
  by (auto simp: well_formed_def predictions_ok_def probabilities_ok_def tree_model_2_3_def
        stub_defs report_defs Let_def)

theorem C8_witness:
  "well_formed stub_env tree_model [[- 1], [1], [2], [- 3]] [0, 1, 1, 0]
   \<and> binary_labels_ok tree_model
   \<and> (\<exists>sc. train_scores stub_env tree_model None [[- 1], [1], [2], [- 3]] [0, 1, 1, 0]
              = Inr (sc, [0, 1, 1, 0]))
   \<and> well_formed stub_env tree_model_2_3 [[- 1], [1], [2], [- 3]] [2, 3, 3, 2]
   \<and> length (classes_of tree_model_2_3) = 2 \<and> 1 \<notin> set (classes_of tree_model_2_3)
   \<and> test_scores stub_env tree_model_2_3 None [[- 1], [1], [2], [- 3]] [2, 3, 3, 2] = Inl ValueError
   \<and> classes_of svc_model = [0, 1] \<and> \<not> has_predict_proba stub_env svc_model
   \<and> m_class svc_model \<noteq> LogisticRegression
   \<and> predict stub_env svc_model [[1], [- 2]] = [1, 0]
   \<and> hd (classes_of svc_model) \<notin> set [1, 1]
   \<and> (\<exists>sc. test_scores stub_env svc_model None [[1], [- 2]] [1, 1] = Inr (sc, [1, 0])
            \<and> map_of sc K_FALLOUT = Some (Num NaN) \<and> map_of sc K_TNR = Some (Num NaN)
            \<and> map_of sc K_FALLOUT \<noteq> Some (Num (Fin 0)))
   \<and> 0 \<in> set [0, 0, 1 :: int]
   \<and> predict stub_env svc_model [[1], [- 2], [3]] = [1, 0, 1]
   \<and> (\<exists>sc. test_scores stub_env svc_model None [[1], [- 2], [3]] [0, 0, 1] = Inr (sc, [1, 0, 1])
            \<and> map_of sc K_FALLOUT = Some (Num (Fin (1 / 2)))
            \<and> map_of sc K_TNR = Some (Num (Fin (1 / 2))))"
proof -
  let ?x = "[[- 1], [1], [2], [- 3]] :: DataFrame" and ?y = "[0, 1, 1, 0] :: Series"
  have cl: "classes_of tree_model = [0, 1]" by (simp add: tree_model_def classes_of_def)
  have pr: "predict stub_env tree_model ?x = [0, 1, 1, 0]"
    by (simp add: stub_defs cl)
  have hp: "has_predict_proba stub_env tree_model"
    by (simp add: stub_defs tree_model_def)
  have pp: "predict_proba stub_env tree_model ?x = [[1, 0], [0, 1], [0, 1], [1, 0]]"
    by (simp add: stub_defs cl)
  have wf: "well_formed stub_env tree_model ?x ?y"
    by (auto simp: well_formed_def predictions_ok_def probabilities_ok_def pr cl hp pp)
  have ok: "binary_labels_ok tree_model"
    by (simp add: binary_labels_ok_def cl)
  note T1 = C8_no_raise_with_label_1_and_NaN_for_empty_negative_class
             [where env = stub_env and m = tree_model and x = ?x and y = ?y and mc = None]
  from T1 wf ok have a: "\<exists>sc. train_scores stub_env tree_model None ?x ?y = Inr (sc, [0, 1, 1, 0])"
    by (simp add: pr)
  have cl2: "classes_of tree_model_2_3 = [2, 3]" by (simp add: tree_model_2_3_def classes_of_def)
  have pr2: "predict stub_env tree_model_2_3 ?x = [2, 3, 3, 2]"
    by (simp add: stub_defs cl2)
  have hp2: "has_predict_proba stub_env tree_model_2_3"
    by (simp add: stub_defs tree_model_2_3_def)
  have pp2: "predict_proba stub_env tree_model_2_3 ?x = [[1, 0], [0, 1], [0, 1], [1, 0]]"
    by (simp add: stub_defs cl2)
  have wf2: "well_formed stub_env tree_model_2_3 ?x [2, 3, 3, 2]"
    by (auto simp: well_formed_def predictions_ok_def probabilities_ok_def pr2 cl2 hp2 pp2)
  have n2: "length (classes_of tree_model_2_3) = 2" "1 \<notin> set (classes_of tree_model_2_3)"
    by (simp_all add: cl2)
  note T2 = C8_no_raise_with_label_1_and_NaN_for_empty_negative_class
             [where env = stub_env and m = tree_model_2_3 and x = ?x and y = "[2, 3, 3, 2]"
                and mc = None]
  from T2 wf2 n2 have b: "test_scores stub_env tree_model_2_3 None ?x [2, 3, 3, 2] = Inl ValueError"
    by blast
  have cl3: "classes_of svc_model = [0, 1]" by (simp add: svc_model_def classes_of_def)
  have pr3: "predict stub_env svc_model [[1], [- 2]] = [1, 0]"
    by (simp add: stub_defs cl3)
  have hp3: "\<not> has_predict_proba stub_env svc_model"
    by (simp add: stub_defs svc_model_def)
  have nl3: "m_class svc_model \<noteq> LogisticRegression" by (simp add: svc_model_def)
  have hd3: "hd (classes_of svc_model) \<notin> set [1, 1]" by (simp add: cl3)
  note T3 = C8_no_raise_with_label_1_and_NaN_for_empty_negative_class
             [where env = stub_env and m = svc_model and mc = None and y' = "[1, 1]"
                and x' = "[[1], [- 2]]" and a = 0 and b = 1]
  from T3 cl3 hp3 nl3 have "\<exists>sc. test_scores stub_env svc_model None [[1], [- 2]] [1, 1]
                = Inr (sc, predict stub_env svc_model [[1], [- 2]])
              \<and> map_of sc K_FALLOUT = Some (Num NaN) \<and> map_of sc K_TNR = Some (Num NaN)"
    by (simp add: pr3)
  then obtain s where c: "test_scores stub_env svc_model None [[1], [- 2]] [1, 1] = Inr (s, [1, 0])"
    "map_of s K_FALLOUT = Some (Num NaN)" "map_of s K_TNR = Some (Num NaN)"
    by (auto simp: pr3)
  from c(2) have c4: "map_of s K_FALLOUT \<noteq> Some (Num (Fin 0))" by simp
  have C: "\<exists>sc. test_scores stub_env svc_model None [[1], [- 2]] [1, 1] = Inr (sc, [1, 0])
            \<and> map_of sc K_FALLOUT = Some (Num NaN) \<and> map_of sc K_TNR = Some (Num NaN)
            \<and> map_of sc K_FALLOUT \<noteq> Some (Num (Fin 0))"
    by (rule exI [of _ s]) (intro conjI c c4)
  have pr4: "predict stub_env svc_model [[1], [- 2], [3]] = [1, 0, 1]"
    by (simp add: stub_defs cl3)
  have in4: "0 \<in> set [0, 0, 1 :: int]" by simp
  have "\<exists>sc. test_scores stub_env svc_model None [[1], [- 2], [3]] [0, 0, 1]
                = Inr (sc, predict stub_env svc_model [[1], [- 2], [3]])"
    by (rule binary_scores_without_probabilities (2) [where a = 0 and b = 1])
       (auto simp: cl3 pr4 hp3 nl3)
  then obtain s4 where
    t4: "test_scores stub_env svc_model None [[1], [- 2], [3]] [0, 0, 1] = Inr (s4, [1, 0, 1])"
    by (auto simp: pr4)
  note T4 = C8_no_raise_with_label_1_and_NaN_for_empty_negative_class
             [where env = stub_env and m = svc_model and mc = None and y' = "[0, 0, 1]"
                and x' = "[[1], [- 2], [3]]" and a = 0 and b = 1 and sc = s4 and p = "[1, 0, 1]"]
  note T4' = T4 [THEN conjunct2, THEN conjunct2, THEN conjunct2, THEN conjunct2]
  have h4: "classes_of svc_model = [0, 1] \<and> 0 \<in> set [0, 0, 1 :: int]
        \<and> set [0, 0, 1 :: int] \<subseteq> {0, 1}
        \<and> set (predict stub_env svc_model [[1], [- 2], [3]]) \<subseteq> {0, 1}
        \<and> (train_scores stub_env svc_model None [[1], [- 2], [3]] [0, 0, 1] = Inr (s4, [1, 0, 1])
           \<or> test_scores stub_env svc_model None [[1], [- 2], [3]] [0, 0, 1] = Inr (s4, [1, 0, 1]))"
    using cl3 t4 by (simp add: pr4)
  from T4' [THEN mp, OF h4] have d4: "map_of s4 K_FALLOUT = Some (Num (Fin (1 / 2)))"
    "map_of s4 K_TNR = Some (Num (Fin (1 / 2)))"
    by (simp_all add: pr4 count_pairs_def)
  have D: "\<exists>sc. test_scores stub_env svc_model None [[1], [- 2], [3]] [0, 0, 1] = Inr (sc, [1, 0, 1])
            \<and> map_of sc K_FALLOUT = Some (Num (Fin (1 / 2)))
            \<and> map_of sc K_TNR = Some (Num (Fin (1 / 2)))"
    by (rule exI [of _ s4]) (intro conjI t4 d4)
  from wf ok a wf2 n2 b cl3 hp3 nl3 pr3 hd3 C in4 pr4 D show ?thesis by (intro conjI)
qed

subsection \<open>C9\<close>

text \<open>
  C9. With an empty algorithm list the dispatcher does what it does with no restriction:
  its jobs are the six wrappers, each run on the shared data, and its result is made of
  their outcomes. If one of them raises, the dispatcher raises; if it returns, its entries
  are the estimators the six jobs returned, in completion order, and with \<open>cv \<le> 0\<close> these
  are six, one per estimator class. With a non-empty list that has none of the six
  identifiers the dispatcher runs no job, returns the empty dictionary and prints the
  empty table, without raising.
\<close>

theorem C9_empty_or_unknown_algorithm_list:
  "my_classification env finish_time x_train y_train x_test y_test ops (Some []) params
     = my_classification env finish_time x_train y_train x_test y_test ops None params
   \<and> processes env x_train y_train x_test y_test ops (Some []) params
       = six_jobs env x_train y_train x_test y_test ops params
   \<and> processes env x_train y_train x_test y_test ops None params
       = six_jobs env x_train y_train x_test y_test ops params
   \<and> (Inl e \<in> set (six_jobs env x_train y_train x_test y_test ops params)
      \<longrightarrow> (\<exists>e'. my_classification env finish_time x_train y_train x_test y_test ops (Some []) params
                  = Inl e'))
   \<and> (my_classification env finish_time x_train y_train x_test y_test ops (Some []) params
        = Inr (ests, evs)
      \<longrightarrow> ests = map (\<lambda>e. (est_name e, e))
                  (succeeded (as_completed finish_time
                     (six_jobs env x_train y_train x_test y_test ops params)))
        \<and> (cv ops \<le> 0
            \<longrightarrow> length ests = 6
              \<and> fst ` set ests
                  = {''LogisticRegression'', ''KNeighborsClassifier'', ''SVC'', ''GaussianNB'',
                     ''DecisionTreeClassifier'', ''SGDClassifier''}))
   \<and> (names \<noteq> []
        \<and> set names \<inter> {''logistic'', ''knn'', ''svc'', ''nb'', ''dtree'', ''sgd''} = {}
        \<and> \<not> keyword_twice dispatcher_keywords params
      \<longrightarrow> processes env x_train y_train x_test y_test ops (Some names) params = []
        \<and> my_classification env finish_time x_train y_train x_test y_test ops (Some names) params
            = Inr ([], [PrettyTable \<lparr> t_index = [], t_columns = [], t_cells = [] \<rparr>]))"
proof -
  let ?six = "six_jobs env x_train y_train x_test y_test ops params"
  let ?run = "\<lambda>a. my_classification env finish_time x_train y_train x_test y_test ops a params"
  let ?ps = "\<lambda>a. processes env x_train y_train x_test y_test ops a params"
  have A: "?run (Some []) = ?run None"
    by (simp add: my_classification_def processes_def submit_all_def submitted_empty_list)
  have B: "?ps (Some []) = ?six"
    by (simp add: processes_def submitted_def wanted_def six_jobs_def)
  have B': "?ps None = ?six"
    by (simp add: processes_def submitted_def wanted_def six_jobs_def)
  have C: "Inl e \<in> set ?six \<longrightarrow> (\<exists>e'. ?run (Some []) = Inl e')"
    using dispatcher_raises [of e env x_train y_train x_test y_test ops "Some []" params finish_time]
    by (simp only: B) blast
  have D: "?run (Some []) = Inr (ests, evs)
      \<longrightarrow> ests = map (\<lambda>e. (est_name e, e)) (succeeded (as_completed finish_time ?six))
        \<and> (cv ops \<le> 0
            \<longrightarrow> length ests = 6
              \<and> fst ` set ests
                  = {''LogisticRegression'', ''KNeighborsClassifier'', ''SVC'', ''GaussianNB'',
                     ''DecisionTreeClassifier'', ''SGDClassifier''})"
  proof
    assume run: "?run (Some []) = Inr (ests, evs)"
    let ?outs = "as_completed finish_time (?ps (Some []))"
    from my_classification_Inr [OF run]
    have ests: "ests = map (\<lambda>e. (est_name e, e)) (succeeded ?outs)" by simp
    have six: "length ests = 6
              \<and> fst ` set ests
                  = {''LogisticRegression'', ''KNeighborsClassifier'', ''SVC'', ''GaussianNB'',
                     ''DecisionTreeClassifier'', ''SGDClassifier''}" if cv: "cv ops \<le> 0"
    proof -
      have len: "length (succeeded ?outs) = 6"
        by (simp add: length_succeeded_as_completed all_direct_jobs_succeed [OF run cv]
              submitted_def wanted_def)
      have d: "distinct (map est_name (succeeded ?outs))" by (rule distinct_succeeded_as_completed)
      have s: "set (map est_name (succeeded ?outs))
                 \<subseteq> {''LogisticRegression'', ''KNeighborsClassifier'', ''SVC'', ''GaussianNB'',
                     ''DecisionTreeClassifier'', ''SGDClassifier''}"
      proof
        fix n assume "n \<in> set (map est_name (succeeded ?outs))"
        then obtain e where e: "e \<in> set (succeeded ?outs)" and n: "n = est_name e" by auto
        from succeeded_from_job [OF e] obtain c j ev where
          m: "(c, j) \<in> set (submitted (Some []))"
          and r: "j env x_train y_train x_test y_test (ops\<lparr> is_print := False \<rparr>) params
                    = Inr (Some e, ev)"
          by blast
        from submitted_job_class [OF m r] have "m_class (fitted e) = c" by simp
        with n show "n \<in> {''LogisticRegression'', ''KNeighborsClassifier'', ''SVC'', ''GaussianNB'',
                     ''DecisionTreeClassifier'', ''SGDClassifier''}"
          by (cases c) (simp_all add: est_name_def)
      qed
      from distinct_card [OF d] len have "card (set (map est_name (succeeded ?outs))) = 6"
        by simp
      then have "set (map est_name (succeeded ?outs))
                 = {''LogisticRegression'', ''KNeighborsClassifier'', ''SVC'', ''GaussianNB'',
                     ''DecisionTreeClassifier'', ''SGDClassifier''}"
        by (intro card_subset_eq [OF _ s]) simp_all
      moreover have "fst ` set ests = set (map est_name (succeeded ?outs))"
        by (auto simp: ests image_iff)
      ultimately show ?thesis using len by (simp add: ests)
    qed
    from ests six show "ests = map (\<lambda>e. (est_name e, e)) (succeeded (as_completed finish_time ?six))
        \<and> (cv ops \<le> 0
            \<longrightarrow> length ests = 6
              \<and> fst ` set ests
                  = {''LogisticRegression'', ''KNeighborsClassifier'', ''SVC'', ''GaussianNB'',
                     ''DecisionTreeClassifier'', ''SGDClassifier''})"
      by (simp only: B) blast
  qed
  have E: "names \<noteq> []
        \<and> set names \<inter> {''logistic'', ''knn'', ''svc'', ''nb'', ''dtree'', ''sgd''} = {}
        \<and> \<not> keyword_twice dispatcher_keywords params
      \<longrightarrow> ?ps (Some names) = []
        \<and> ?run (Some names) = Inr ([], [PrettyTable \<lparr> t_index = [], t_columns = [], t_cells = [] \<rparr>])"
  proof
    assume u: "names \<noteq> []
        \<and> set names \<inter> {''logistic'', ''knn'', ''svc'', ''nb'', ''dtree'', ''sgd''} = {}
        \<and> \<not> keyword_twice dispatcher_keywords params"
    then have "submitted (Some names) = []" by (simp add: submitted_unknown)
    then have none: "?ps (Some names) = []" by (simp add: processes_def)
    then have "list_all (\<lambda>p. \<exists>ev. p = Inr (None, ev)) (?ps (Some names))" by simp
    from all_jobs_None_empty_report [OF _ this] u none
    show "?ps (Some names) = []
        \<and> ?run (Some names) = Inr ([], [PrettyTable \<lparr> t_index = [], t_columns = [], t_cells = [] \<rparr>])"
      by simp
  qed
  from A B B' C D E show ?thesis by (intro conjI)
qed

theorem C9_witness:
  "(\<exists>ests evs.
       my_classification stub_env (\<lambda>i. 5 - i) [[- 1], [1], [2], [- 3]] [0, 1, 1, 0] None None stub_ops
         (Some []) [] = Inr (ests, evs)
     \<and> cv stub_ops \<le> 0 \<and> length ests = 6
     \<and> fst ` set ests
         = {''LogisticRegression'', ''KNeighborsClassifier'', ''SVC'', ''GaussianNB'',
            ''DecisionTreeClassifier'', ''SGDClassifier''})
   \<and> Inl ValueError
       \<in> set (six_jobs stub_env [[- 1], [1], [2], [- 3]] [0, 1, 1, 0] None None stub_ops
                [(''C'', PInt 0)])
   \<and> (\<exists>e'. my_classification stub_env (\<lambda>i. i) [[- 1], [1], [2], [- 3]] [0, 1, 1, 0] None None
              stub_ops (Some []) [(''C'', PInt 0)] = Inl e')
   \<and> [''xgboost'', ''lsvc''] \<noteq> []
   \<and> set [''xgboost'', ''lsvc''] \<inter> {''logistic'', ''knn'', ''svc'', ''nb'', ''dtree'', ''sgd''} = {}
   \<and> \<not> keyword_twice dispatcher_keywords []
   \<and> processes stub_env [[- 1], [1]] [0, 1] None None stub_ops (Some [''xgboost'', ''lsvc'']) [] = []
   \<and> my_classification stub_env (\<lambda>i. i) [[- 1], [1]] [0, 1] None None stub_ops
        (Some [''xgboost'', ''lsvc'']) []
       = Inr ([], [PrettyTable \<lparr> t_index = [], t_columns = [], t_cells = [] \<rparr>])"
proof -
  let ?x = "[[- 1], [1], [2], [- 3]] :: DataFrame" and ?y = "[0, 1, 1, 0] :: Series"
  let ?quiet = "stub_ops\<lparr> is_print := False \<rparr>"
  have j1: "\<exists>r. my_logistic_classification stub_env ?x ?y None None ?quiet [] = Inr r"
    by (simp add: job_defs stub_defs report_defs Let_def)
  have j2: "\<exists>r. my_knn_classification stub_env ?x ?y None None ?quiet [] = Inr r"
    by (simp add: job_defs stub_defs report_defs Let_def)
  have j3: "\<exists>r. my_svc_classification stub_env ?x ?y None None ?quiet [] = Inr r"
    by (simp add: job_defs stub_defs report_defs Let_def)
  have j4: "\<exists>r. my_nb_classification stub_env ?x ?y None None ?quiet [] = Inr r"
    by (simp add: job_defs stub_defs report_defs Let_def)
  have j5: "\<exists>r. my_dtree_classification stub_env ?x ?y None None ?quiet [] = Inr r"
    by (simp add: job_defs stub_defs report_defs Let_def)
  have j6: "\<exists>r. my_sgd_classification stub_env ?x ?y None None ?quiet [] = Inr r"
    by (simp add: job_defs stub_defs report_defs Let_def)
  have "\<exists>r. p = Inr r"
    if "p \<in> set (processes stub_env ?x ?y None None stub_ops (Some []) [])" for p
    using that j1 j2 j3 j4 j5 j6 by (auto simp: processes_def submitted_def wanted_def)
  from dispatcher_returns [where finish_time = "\<lambda>i. 5 - i", OF _ this]
  have "\<exists>ests evs. my_classification stub_env (\<lambda>i. 5 - i) ?x ?y None None stub_ops (Some []) []
          = Inr (ests, evs)"
    by (simp add: keyword_twice_def)
  then obtain ests evs where
    run: "my_classification stub_env (\<lambda>i. 5 - i) ?x ?y None None stub_ops (Some []) []
          = Inr (ests, evs)" by blast
  have cv: "cv stub_ops \<le> 0" by (simp add: stub_ops_def)
  note T1 = C9_empty_or_unknown_algorithm_list
              [where env = stub_env and finish_time = "\<lambda>i. 5 - i" and x_train = ?x
                 and y_train = ?y and x_test = None and y_test = None and ops = stub_ops
                 and params = "[]" and ests = ests and evs = evs]
  note D = T1 [THEN conjunct2, THEN conjunct2, THEN conjunct2, THEN conjunct2, THEN conjunct1]
  note D2 = D [THEN mp, OF run, THEN conjunct2, THEN mp, OF cv]
  from D2 have six: "length ests = 6"
    "fst ` set ests
         = {''LogisticRegression'', ''KNeighborsClassifier'', ''SVC'', ''GaussianNB'',
            ''DecisionTreeClassifier'', ''SGDClassifier''}"
    by (rule conjunct1, rule conjunct2)
  have A: "\<exists>ests evs.
       my_classification stub_env (\<lambda>i. 5 - i) ?x ?y None None stub_ops (Some []) [] = Inr (ests, evs)
     \<and> cv stub_ops \<le> 0 \<and> length ests = 6
     \<and> fst ` set ests
         = {''LogisticRegression'', ''KNeighborsClassifier'', ''SVC'', ''GaussianNB'',
            ''DecisionTreeClassifier'', ''SGDClassifier''}"
    by (rule exI [of _ ests], rule exI [of _ evs]) (intro conjI run cv six)
  have bad: "Inl ValueError \<in> set (six_jobs stub_env ?x ?y None None stub_ops [(''C'', PInt 0)])"
    by (simp add: six_jobs_def my_logistic_classification_def job_defs stub_defs)
  note T2 = C9_empty_or_unknown_algorithm_list
              [where env = stub_env and finish_time = "\<lambda>i. i" and x_train = ?x
                 and y_train = ?y and x_test = None and y_test = None and ops = stub_ops
                 and params = "[(''C'', PInt 0)]" and e = ValueError]
  note C0 = T2 [THEN conjunct2, THEN conjunct2, THEN conjunct2, THEN conjunct1]
  from C0 [THEN mp, OF bad] have B: "\<exists>e'. my_classification stub_env (\<lambda>i. i) ?x ?y None None
              stub_ops (Some []) [(''C'', PInt 0)] = Inl e'" .
  have u: "[''xgboost'', ''lsvc''] \<noteq> []"
    "set [''xgboost'', ''lsvc''] \<inter> {''logistic'', ''knn'', ''svc'', ''nb'', ''dtree'', ''sgd''} = {}"
    "\<not> keyword_twice dispatcher_keywords []"
    by (simp_all add: keyword_twice_def)
  note T3 = C9_empty_or_unknown_algorithm_list
              [where env = stub_env and finish_time = "\<lambda>i. i" and x_train = "[[- 1], [1]]"
                 and y_train = "[0, 1]" and x_test = None and y_test = None and ops = stub_ops
                 and params = "[]" and names = "[''xgboost'', ''lsvc'']"]
  note E0 = T3 [THEN conjunct2, THEN conjunct2, THEN conjunct2, THEN conjunct2, THEN conjunct2]
  from u have u': "[''xgboost'', ''lsvc''] \<noteq> []
        \<and> set [''xgboost'', ''lsvc''] \<inter> {''logistic'', ''knn'', ''svc'', ''nb'', ''dtree'', ''sgd''} = {}
        \<and> \<not> keyword_twice dispatcher_keywords []" by (intro conjI)
  from E0 [THEN mp, OF u'] have C: "processes stub_env [[- 1], [1]] [0, 1] None None stub_ops
                       (Some [''xgboost'', ''lsvc'']) [] = []"
    "my_classification stub_env (\<lambda>i. i) [[- 1], [1]] [0, 1] None None stub_ops
        (Some [''xgboost'', ''lsvc'']) []
       = Inr ([], [PrettyTable \<lparr> t_index = [], t_columns = [], t_cells = [] \<rparr>])"
    by (rule conjunct1, rule conjunct2)
  from A bad B u C show ?thesis by (intro conjI)
qed

subsection \<open>C10\<close>

text \<open>
  C10. A job with validation features and no validation labels stores the scorecard of
  the training split and attaches the predictions and probabilities made on the
  training data; the first prediction call was made on the validation features.
\<close>

theorem C10_no_test_labels_means_training_results:
  assumes "priv_my_classification env c x_train y_train (Some x_test) None ops params
             = Inr (Some e, evs)"
  shows "(\<exists>sc p. train_scores env (fitted e) (multiclass ops) x_train y_train = Inr (sc, p)
                 \<and> est_scores e = Some sc)
       \<and> est_y_pred e = Some (predict env (fitted e) x_train)
       \<and> est_y_pred_proba e
           = (if has_predict_proba env (fitted e)
              then Some (predict_proba env (fitted e) x_train) else None)
       \<and> m_class (fitted e) = c \<and> m_x (fitted e) = x_train \<and> m_y (fitted e) = y_train
       \<and> CallPredict x_test \<in> set evs"
  using job_Some [OF assms] by (simp add: stored_scores_def split_of_def)

theorem C10_witness:
  "\<exists>e evs sc.
      priv_my_classification stub_env LogisticRegression [[- 1], [1], [2], [- 3]] [0, 1, 1, 0]
        (Some [[1], [- 2]]) None stub_ops [] = Inr (Some e, evs)
    \<and> est_scores e = Some sc
    \<and> train_scores stub_env (fitted e) None [[- 1], [1], [2], [- 3]] [0, 1, 1, 0]
        = Inr (sc, [0, 1, 1, 0])
    \<and> est_y_pred e = Some [0, 1, 1, 0]
    \<and> est_y_pred_proba e = Some [[1, 0], [0, 1], [0, 1], [1, 0]]
    \<and> CallPredict [[1], [- 2]] \<in> set evs"
proof -
  let ?x = "[[- 1], [1], [2], [- 3]] :: DataFrame" and ?y = "[0, 1, 1, 0] :: Series"
  have "\<exists>e evs. priv_my_classification stub_env LogisticRegression ?x ?y (Some [[1], [- 2]]) None
          stub_ops [] = Inr (Some e, evs)"
    by (simp add: job_defs stub_defs report_defs Let_def)
  then obtain e evs where run: "priv_my_classification stub_env LogisticRegression ?x ?y
          (Some [[1], [- 2]]) None stub_ops [] = Inr (Some e, evs)" by blast
  from C10_no_test_labels_means_training_results [OF run] obtain sc p where
    f: "train_scores stub_env (fitted e) (multiclass stub_ops) ?x ?y = Inr (sc, p)"
       "est_scores e = Some sc"
       "est_y_pred e = Some (predict stub_env (fitted e) ?x)"
       "est_y_pred_proba e = (if has_predict_proba stub_env (fitted e)
              then Some (predict_proba stub_env (fitted e) ?x) else None)"
       "CallPredict [[1], [- 2]] \<in> set evs"
       "m_class (fitted e) = LogisticRegression" "m_y (fitted e) = ?y"
    by blast
  note m = f(6) f(7)
  have p: "p = [0, 1, 1, 0]"
    using train_scores_pred [OF f(1)] by (simp add: m stub_defs classes_of_def)
  have y: "est_y_pred e = Some [0, 1, 1, 0]"
    using f(3) by (simp add: m stub_defs classes_of_def)
  have P: "est_y_pred_proba e = Some [[1, 0], [0, 1], [0, 1], [1, 0]]"
    using f(4) by (simp add: m stub_defs classes_of_def)
  have t: "train_scores stub_env (fitted e) None ?x ?y = Inr (sc, [0, 1, 1, 0])"
    using f(1) p by (simp add: stub_ops_def)
  from run f(2) t y P f(5) show ?thesis by blast
qed

end
